theory Spec2Isabelle
  imports Main "HOL-Library.Word" "HOL-Library.Monad_Syntax"
begin

unbundle bit_operations_syntax

section \<open>Byte buffers\<close>

text \<open>
  A \<open>DataView\<close> is a window of bytes. Its big-endian readers raise a RangeError when
  the read leaves the window; the exception is the value \<open>None\<close>.
\<close>

type_synonym byte = "8 word"
type_synonym dataview = "byte list"

definition getUint8 :: "dataview \<Rightarrow> nat \<Rightarrow> nat option" where
  "getUint8 d off = (if off < length d then Some (unat (d ! off)) else None)"

definition getUint16 :: "dataview \<Rightarrow> nat \<Rightarrow> nat option" where
  "getUint16 d off =
     (if off + 2 \<le> length d then Some (unat (d ! off) * 256 + unat (d ! (off + 1))) else None)"

definition getUint32 :: "dataview \<Rightarrow> nat \<Rightarrow> nat option" where
  "getUint32 d off =
     (if off + 4 \<le> length d
      then Some (unat (d ! off) * 16777216 + unat (d ! (off + 1)) * 65536
                 + unat (d ! (off + 2)) * 256 + unat (d ! (off + 3)))
      else None)"

text \<open>
  Modelled from the spec: \<open>dataSubarray\<close> of \<open>util.ts\<close>, which is not among the
  sources. The spec calls its result a byte window; it is the \<open>DataView\<close> constructor on
  the same buffer, which raises when the window leaves the buffer. Without a length the
  window runs to the end of the buffer.
\<close>

definition dataSubarray :: "dataview \<Rightarrow> nat \<Rightarrow> dataview option" where
  "dataSubarray d off = (if off \<le> length d then Some (drop off d) else None)"

definition dataSubarrayLen :: "dataview \<Rightarrow> nat \<Rightarrow> nat \<Rightarrow> dataview option" where
  "dataSubarrayLen d off len =
     (if off + len \<le> length d then Some (take len (drop off d)) else None)"


section \<open>Shader records (materialloader.ts)\<close>

text \<open>
  The enums \<open>ShaderFlags\<close> and \<open>ShaderAttrFlags\<close> are declared in \<open>materials.ts\<close>,
  which is not among the sources: their members are parameters of the model. The members
  \<open>NRM\<close> and \<open>CLR\<close> are used by the code as they are; \<open>TEX0\<close> and \<open>TEX1\<close> are only
  read with a fallback (\<open>?? 0x04\<close>, \<open>?? 0x08\<close>) and may be missing.
\<close>

record shaderFlags =
  DevGeometry :: "32 word"
  Fog :: "32 word"
  CullBackface :: "32 word"
  ReflectSkyscape :: "32 word"
  Caustic :: "32 word"
  Lava :: "32 word"
  Reflective :: "32 word"
  AlphaCompare :: "32 word"
  ShortFur :: "32 word"
  MediumFur :: "32 word"
  LongFur :: "32 word"
  Water :: "32 word"

record shaderAttrFlags =
  NRM :: "32 word"
  CLR :: "32 word"
  TEX0 :: "32 word option"
  TEX1 :: "32 word option"

definition ATTR_CLR :: "shaderAttrFlags \<Rightarrow> 32 word" where
  "ATTR_CLR AF = CLR AF"

definition ATTR_TEX0 :: "shaderAttrFlags \<Rightarrow> 32 word" where
  "ATTR_TEX0 AF = (case TEX0 AF of Some v \<Rightarrow> v | None \<Rightarrow> 0x04)"

definition ATTR_TEX1 :: "shaderAttrFlags \<Rightarrow> 32 word" where
  "ATTR_TEX1 AF = (case TEX1 AF of Some v \<Rightarrow> v | None \<Rightarrow> 0x08)"

record shaderFields =
  sf_isAncient :: bool
  sf_isBeta :: bool
  sf_isold :: bool
  sf_isEarly1 :: bool
  sf_isEarly3 :: bool
  sf_isSwapcircle :: bool
  sf_size :: nat
  sf_numLayers :: nat
  sf_layers :: nat

definition KNOWN_WATER_TEXIDS :: "nat list" where
  "KNOWN_WATER_TEXIDS = [899, 2871]"

definition KNOWN_ANCIENT_WATER_TEXIDS :: "nat list" where
  "KNOWN_ANCIENT_WATER_TEXIDS = [2373, 2794, 24, 2871, 713, 611, 2793]"

definition KNOWN_CUTOUT_TEXIDS_BETA :: "nat list" where
  "KNOWN_CUTOUT_TEXIDS_BETA = [3254, 3272, 189]"

definition KNOWN_CUTOUT_TEXIDS_ANCIENT :: "nat list" where
  "KNOWN_CUTOUT_TEXIDS_ANCIENT = [630, 646, 672, 1094, 1098, 1103, 1107, 1110, 1111, 1112]"

definition KNOWN_CUTOUT_TEXIDS_EARLY1 :: "nat list" where
  "KNOWN_CUTOUT_TEXIDS_EARLY1 = [1692, 1135, 1695, 1131, 176, 783, 785]"

definition SFA_SHADER_FIELDS :: shaderFields where
  "SFA_SHADER_FIELDS = \<lparr> sf_isAncient = False, sf_isBeta = False, sf_isold = False,
     sf_isEarly1 = False, sf_isEarly3 = False, sf_isSwapcircle = False,
     sf_size = 0x44, sf_numLayers = 0x41, sf_layers = 0x24 \<rparr>"

definition SFADEMO_MAP_SHADER_FIELDS :: shaderFields where
  "SFADEMO_MAP_SHADER_FIELDS = \<lparr> sf_isAncient = False, sf_isBeta = True, sf_isold = False,
     sf_isEarly1 = True, sf_isEarly3 = False, sf_isSwapcircle = False,
     sf_size = 0x40, sf_numLayers = 0x3b, sf_layers = 0x24 \<rparr>"

definition VERY_EARLY_2001 :: shaderFields where
  "VERY_EARLY_2001 = \<lparr> sf_isAncient = False, sf_isBeta = True, sf_isold = True,
     sf_isEarly1 = False, sf_isEarly3 = False, sf_isSwapcircle = False,
     sf_size = 0x40, sf_numLayers = 0x3b, sf_layers = 0x24 \<rparr>"

definition BETA_MAP_SHADER_FIELDS :: shaderFields where
  "BETA_MAP_SHADER_FIELDS = \<lparr> sf_isAncient = False, sf_isBeta = True, sf_isold = False,
     sf_isEarly1 = False, sf_isEarly3 = False, sf_isSwapcircle = True,
     sf_size = 0x38, sf_numLayers = 0x36, sf_layers = 0x20 \<rparr>"

definition BETA_MODEL_SHADER_FIELDS :: shaderFields where
  "BETA_MODEL_SHADER_FIELDS = \<lparr> sf_isAncient = False, sf_isBeta = True, sf_isold = False,
     sf_isEarly1 = False, sf_isEarly3 = False, sf_isSwapcircle = False,
     sf_size = 0x38, sf_numLayers = 0x36, sf_layers = 0x20 \<rparr>"

definition ANCIENT_MAP_SHADER_FIELDS :: shaderFields where
  "ANCIENT_MAP_SHADER_FIELDS = \<lparr> sf_isAncient = True, sf_isBeta = False, sf_isold = False,
     sf_isEarly1 = False, sf_isEarly3 = False, sf_isSwapcircle = False,
     sf_size = 0x3c, sf_numLayers = 0x3a, sf_layers = 0x24 \<rparr>"

definition EARLY3_MAP_SHADER_FIELDS :: shaderFields where
  "EARLY3_MAP_SHADER_FIELDS = \<lparr> sf_isAncient = False, sf_isBeta = True, sf_isold = False,
     sf_isEarly1 = False, sf_isEarly3 = True, sf_isSwapcircle = False,
     sf_size = 0x44, sf_numLayers = 0x3f, sf_layers = 0x24 \<rparr>"

text \<open>
  A texture reference of a layer is a number, \<open>null\<close> (the record holds 0xffffffff), or
  \<open>undefined\<close> (the index read from the record is outside \<open>modelTexIds\<close>).
\<close>

datatype texref = TexNull | TexUndefined | TexNum nat

record shaderLayer =
  texId :: texref
  tevMode :: nat
  enableScroll :: nat
  scrollSlot :: "nat option"

record shader =
  layers :: "shaderLayer list"
  flags :: "32 word"
  attrFlags :: "32 word"
  hasHemisphericProbe :: bool
  hasReflectiveProbe :: bool
  reflectiveProbeMaskTexId :: texref
  reflectiveProbeIdx :: nat
  reflectiveAmbByte :: nat
  hasNBTTexture :: bool
  nbtTexId :: texref
  nbtParams :: nat
  furRegionsTexId :: texref
  colorBytes :: "nat \<times> nat \<times> nat"
  normalFlags :: nat
  lightFlags :: nat
  texMtxCount :: nat
  isAncient :: bool
  isBeta :: bool

definition parseModelTexId :: "dataview \<Rightarrow> nat \<Rightarrow> nat list \<Rightarrow> texref option" where
  "parseModelTexId data offs modelTexIds =
     (case getUint32 data offs of
        None \<Rightarrow> None
      | Some idx \<Rightarrow>
          Some (if idx \<noteq> 0xffffffff
                then (if idx < length modelTexIds then TexNum (modelTexIds ! idx) else TexUndefined)
                else TexNull))"

definition parseShaderLayer :: "dataview \<Rightarrow> nat list \<Rightarrow> shaderLayer option" where
  "parseShaderLayer data modelTexIds = do {
     scrollingTexMtx \<leftarrow> getUint8 data 0x6;
     t \<leftarrow> parseModelTexId data 0x0 modelTexIds;
     m \<leftarrow> getUint8 data 0x4;
     e \<leftarrow> getUint8 data 0x5;
     Some \<lparr> texId = t, tevMode = m, enableScroll = e,
            scrollSlot = (if scrollingTexMtx \<noteq> 0 then Some scrollingTexMtx else None) \<rparr>
   }"

text \<open>The loop \<open>for (i = 0; i < numLayers; i++)\<close> of parseShader, from index \<open>i\<close> on.\<close>

fun parseLayers :: "dataview \<Rightarrow> shaderFields \<Rightarrow> nat list \<Rightarrow> nat \<Rightarrow> nat \<Rightarrow> shaderLayer list option" where
  "parseLayers data flds modelTexIds i 0 = Some []"
| "parseLayers data flds modelTexIds i (Suc n) = do {
     sub \<leftarrow> dataSubarray data (sf_layers flds + i * 8);
     l \<leftarrow> parseShaderLayer sub modelTexIds;
     ls \<leftarrow> parseLayers data flds modelTexIds (Suc i) n;
     Some (l # ls)
   }"

text \<open>\<open>layers[i]?.texId\<close> under the loose test \<open>!= null\<close>: a number or nothing.\<close>

definition layerTex :: "shaderLayer list \<Rightarrow> nat \<Rightarrow> nat option" where
  "layerTex ls i =
     (if i < length ls then (case texId (ls ! i) of TexNum n \<Rightarrow> Some n | _ \<Rightarrow> None) else None)"

text \<open>\<open>(layers[i]?.tevMode ?? 0) & 0x7f\<close>.\<close>

definition layerTev7 :: "shaderLayer list \<Rightarrow> nat \<Rightarrow> nat" where
  "layerTev7 ls i = (if i < length ls then tevMode (ls ! i) mod 128 else 0)"

definition texIn :: "nat option \<Rightarrow> nat list \<Rightarrow> bool" where
  "texIn t ids = (case t of None \<Rightarrow> False | Some n \<Rightarrow> List.member ids n)"

definition orIf :: "bool \<Rightarrow> 32 word \<Rightarrow> 32 word \<Rightarrow> 32 word" where
  "orIf c bits w = (if c then w OR bits else w)"

definition initShader :: "nat \<Rightarrow> nat \<Rightarrow> nat \<Rightarrow> shader" where
  "initShader nf lf tm = \<lparr> layers = [], flags = 0, attrFlags = 0,
     hasHemisphericProbe = False, hasReflectiveProbe = False,
     reflectiveProbeMaskTexId = TexNull, reflectiveProbeIdx = 0, reflectiveAmbByte = 0,
     hasNBTTexture = False, nbtTexId = TexNull, nbtParams = 0, furRegionsTexId = TexNull,
     colorBytes = (255, 255, 255), normalFlags = nf, lightFlags = lf, texMtxCount = tm,
     isAncient = False, isBeta = False \<rparr>"

text \<open>
  The attribute bits derived from layer usage, shared by the legacy branches:
  TEX0 and TEX1 when the layer has a texture, then CLR when the test \<open>none\<close> holds.
\<close>

definition deriveAttr :: "shaderAttrFlags \<Rightarrow> shaderLayer list \<Rightarrow> 32 word \<Rightarrow> 32 word" where
  "deriveAttr AF ls attr =
     (let a1 = orIf (layerTex ls 0 \<noteq> None) (ATTR_TEX0 AF) attr;
          a2 = orIf (layerTex ls 1 \<noteq> None) (ATTR_TEX1 AF) a1
      in orIf (a2 AND (ATTR_CLR AF OR ATTR_TEX0 AF OR ATTR_TEX1 AF) = 0) (ATTR_CLR AF) a2)"

definition parseShader_ancient :: "shaderFlags \<Rightarrow> shaderAttrFlags \<Rightarrow> dataview \<Rightarrow> shader \<Rightarrow> shader option" where
  "parseShader_ancient SF AF data sh = do {
     flags8 \<leftarrow> getUint8 data 0x38;
     attr \<leftarrow> getUint8 data 0x39;
     let ls = layers sh;
     let a1 = orIf (layerTex ls 0 \<noteq> None) (ATTR_TEX0 AF) (word_of_nat attr);
     let a2 = orIf (layerTex ls 1 \<noteq> None) (ATTR_TEX1 AF) a1;
     let a3 = orIf (a2 = 0) (ATTR_CLR AF) a2;
     let t0 = layerTex ls 0;
     let lowNib = flags8 mod 16;
     let looksWater =
           (((lowNib = 0x0D \<or> lowNib = 0x0C) \<and> t0 \<noteq> None)
            \<or> texIn t0 [1392, 24, 1234, 5678, 1391]
            \<or> texIn t0 KNOWN_ANCIENT_WATER_TEXIDS);
     let f1 = orIf looksWater (Water SF) (CullBackface SF);
     let singleLayer = (length ls = 1);
     let hasTex = (t0 \<noteq> None);
     let tevPlain = (ls \<noteq> [] \<and> List.member [0, 1, 2] (tevMode (ls ! 0)));
     let isCutoutTex =
           (texIn t0 [928, 791, 430, 573, 575, 576, 577, 2882, 44, 2046, 2228, 2467, 2538,
                      1798, 2791, 574, 684, 96, 740, 0, 595, 596, 593, 594, 592, 589]
            \<or> texIn t0 KNOWN_CUTOUT_TEXIDS_ANCIENT);
     let f2 = orIf (singleLayer \<and> hasTex \<and> \<not> looksWater \<and> tevPlain \<and> isCutoutTex)
                   (AlphaCompare SF) f1;
     Some (sh\<lparr> isAncient := True, flags := f2, attrFlags := a3 \<rparr>)
   }"

definition parseShader_swapcircle :: "shaderFlags \<Rightarrow> shaderAttrFlags \<Rightarrow> dataview \<Rightarrow> shader \<Rightarrow> shader option" where
  "parseShader_swapcircle SF AF data sh = do {
     flags8 \<leftarrow> getUint8 data 0x34;
     attr \<leftarrow> getUint8 data 0x35;
     let ls = layers sh;
     let a = deriveAttr AF ls (word_of_nat attr);
     let texId0 = layerTex ls 0;
     let texId1 = layerTex ls 1;
     let tmode0 = layerTev7 ls 0;
     let tmode1 = layerTev7 ls 1;
     let lowNib = flags8 mod 16;
     let singleLayer = (length ls = 1 \<or> (length ls \<ge> 2 \<and> layerTex ls 1 = None));
     let hasTex0 = (texId0 \<noteq> None);
     let tevPlain0 = List.member [0, 1, 2, 3] tmode0;
     let tevOkAny = (List.member [2, 3] tmode0 \<or> List.member [2, 3] tmode1);
     let isCutout0 = (texIn texId0 KNOWN_CUTOUT_TEXIDS_BETA
                      \<or> texIn texId0 KNOWN_CUTOUT_TEXIDS_ANCIENT
                      \<or> texIn texId0 KNOWN_CUTOUT_TEXIDS_EARLY1);
     let f1 = orIf (singleLayer \<and> hasTex0 \<and> tevPlain0 \<and> isCutout0)
                   (AlphaCompare SF) (CullBackface SF);
     let anyKnownWater = (texIn texId0 KNOWN_WATER_TEXIDS \<or> texIn texId1 KNOWN_WATER_TEXIDS);
     let f2 = (if anyKnownWater then f1 OR Water SF
               else orIf (hasTex0 \<and> (tevOkAny \<or> lowNib = 0x0D \<or> lowNib = 0x0C)) (Water SF) f1);
     let isLava = (texIn texId0 [32928, 584, 1061, 1062, 585]
                   \<or> texIn texId1 [32928, 584, 1061, 1062, 585]);
     let f3 = (if isLava then (f2 OR Lava SF) AND NOT (Water SF) else f2);
     h \<leftarrow> getUint32 data 0x08;
     r \<leftarrow> getUint32 data 0x14;
     n \<leftarrow> getUint8 data 0x37;
     Some (sh\<lparr> isBeta := True, flags := f3, attrFlags := a,
               hasHemisphericProbe := (h = 1), hasReflectiveProbe := (r = 1),
               hasNBTTexture := (n div 128 mod 2 = 1) \<rparr>)
   }"

definition parseShader_old :: "shaderFlags \<Rightarrow> shaderAttrFlags \<Rightarrow> dataview \<Rightarrow> shader \<Rightarrow> shader option" where
  "parseShader_old SF AF data sh = do {
     raw \<leftarrow> getUint16 data 0x38;
     attr \<leftarrow> getUint8 data 0x3A;
     let raw16 = (word_of_nat raw :: 32 word);
     let ls = layers sh;
     let b0 = orIf (raw16 AND CullBackface SF \<noteq> 0) (CullBackface SF) 0;
     let b1 = orIf (raw16 AND 0x0800 \<noteq> 0) 0x0800 b0;
     let b2 = orIf (raw16 AND 0x1000 \<noteq> 0) 0x1000 b1;
     let texId = layerTex ls 0;
     let tmode = layerTev7 ls 0;
     let tevOk = List.member [2, 3] tmode;
     let lowNib = raw mod 16;
     let singleLayer = (length ls = 1 \<or> (length ls \<ge> 2 \<and> layerTex ls 1 = None));
     let hasTex = (texId \<noteq> None);
     let tevPlain = List.member [0, 1, 2] tmode;
     let isCutoutTex =
           (texIn texId [177, 526, 525, 982, 536, 1294, 1295, 418, 88, 571, 44, 668, 417, 2090,
                         568, 567, 638, 810, 2094, 691, 944, 7, 769, 767, 1156, 996, 811, 2056,
                         189, 176]
            \<or> texIn texId KNOWN_CUTOUT_TEXIDS_ANCIENT
            \<or> texIn texId KNOWN_CUTOUT_TEXIDS_EARLY1);
     let f1 = orIf (singleLayer \<and> hasTex \<and> tevPlain \<and> isCutoutTex) (AlphaCompare SF) b2;
     let f2 =
           (if hasTex \<and> \<not> isCutoutTex then
              (let isKnownWater = texIn texId KNOWN_WATER_TEXIDS;
                   strongById = (texId = Some 899 \<or> isKnownWater);
                   heurWater = (isKnownWater \<and> tevOk \<and> (lowNib = 0x0D \<or> lowNib = 0x0C));
                   w = orIf (strongById \<or> heurWater) (Water SF) f1;
                   isLavaTexId = texIn texId [457, 584, 1061, 1062, 585]
               in if isLavaTexId then (w OR Lava SF) AND NOT (Water SF) else w)
            else f1);
     Some (sh\<lparr> isBeta := True, flags := f2, attrFlags := word_of_nat attr \<rparr>)
   }"

definition translateEarly1Flags :: "shaderFlags \<Rightarrow> 32 word \<Rightarrow> 32 word" where
  "translateEarly1Flags SF raw16 =
     orIf (raw16 AND 0x8000 \<noteq> 0) (MediumFur SF)
      (orIf (raw16 AND 0x4000 \<noteq> 0) (ShortFur SF)
        (orIf (raw16 AND 0x0100 \<noteq> 0) (AlphaCompare SF)
          (orIf (raw16 AND 0x0040 \<noteq> 0) (AlphaCompare SF)
            (orIf (raw16 AND 0x0020 \<noteq> 0) (ReflectSkyscape SF)
              (orIf (raw16 AND 0x0008 \<noteq> 0) (CullBackface SF) 0)))))"

definition translateEarly3Flags :: "shaderFlags \<Rightarrow> 32 word \<Rightarrow> 32 word" where
  "translateEarly3Flags SF raw16 =
     orIf (raw16 AND 0x4000 \<noteq> 0) (AlphaCompare SF)
      (orIf (raw16 AND 0x0400 \<noteq> 0) (AlphaCompare SF)
        (orIf (raw16 AND 0x0100 \<noteq> 0) (Reflective SF)
          (orIf (raw16 AND 0x0040 \<noteq> 0) (Caustic SF)
            (orIf (raw16 AND 0x0020 \<noteq> 0) (ReflectSkyscape SF)
              (orIf (raw16 AND 0x0008 \<noteq> 0) (CullBackface SF)
                (orIf (raw16 AND 0x0004 \<noteq> 0) (Fog SF)
                  (orIf (raw16 AND 0x0002 \<noteq> 0) (DevGeometry SF) 0)))))))"

definition parseShader_early1 :: "shaderFlags \<Rightarrow> shaderAttrFlags \<Rightarrow> dataview \<Rightarrow> shader \<Rightarrow> shader option" where
  "parseShader_early1 SF AF data sh = do {
     raw \<leftarrow> getUint16 data 0x38;
     let raw16 = (word_of_nat raw :: 32 word);
     let f0 = translateEarly1Flags SF raw16 AND NOT (DevGeometry SF);
     attr \<leftarrow> getUint8 data 0x3A;
     let ls = layers sh;
     let a = deriveAttr AF ls (word_of_nat attr);
     let tm0 = layerTev7 ls 0;
     let tm1 = layerTev7 ls 1;
     let lowNib = raw mod 16;
     let tevOk = (List.member [2, 3] tm0 \<or> List.member [2, 3] tm1);
     let f1 = orIf ((lowNib = 0x0C \<or> lowNib = 0x0D) \<and> tevOk) (Water SF) f0;
     c0 \<leftarrow> getUint8 data 0x04;
     c1 \<leftarrow> getUint8 data 0x05;
     c2 \<leftarrow> getUint8 data 0x06;
     Some (sh\<lparr> isBeta := True, flags := f1, attrFlags := a, colorBytes := (c0, c1, c2) \<rparr>)
   }"

text \<open>
  The reads shared by the Early3 branch and the final family: probe parameters, NBT and
  fur-region references and the base colour. \<open>hasNBTTexture\<close> is the strict test
  \<open>nbtTexId !== null\<close>, which \<open>undefined\<close> passes. The colour and the ambient factor are
  kept as the bytes read (the source divides them by 255).
\<close>

definition readProbeFields :: "dataview \<Rightarrow> nat list \<Rightarrow> shader \<Rightarrow> shader option" where
  "readProbeFields data modelTexIds sh = do {
     h \<leftarrow> getUint32 data 0x08;
     r \<leftarrow> getUint32 data 0x14;
     mask \<leftarrow> parseModelTexId data 0x18 modelTexIds;
     idx \<leftarrow> getUint8 data 0x20;
     amb \<leftarrow> getUint8 data 0x22;
     nbt \<leftarrow> parseModelTexId data 0x34 modelTexIds;
     params \<leftarrow> getUint8 data 0x42;
     fur \<leftarrow> parseModelTexId data 0x38 modelTexIds;
     c0 \<leftarrow> getUint8 data 0x04;
     c1 \<leftarrow> getUint8 data 0x05;
     c2 \<leftarrow> getUint8 data 0x06;
     Some (sh\<lparr> hasHemisphericProbe := (h \<noteq> 0), hasReflectiveProbe := (r \<noteq> 0),
               reflectiveProbeMaskTexId := mask, reflectiveProbeIdx := idx,
               reflectiveAmbByte := amb, nbtTexId := nbt, hasNBTTexture := (nbt \<noteq> TexNull),
               nbtParams := params, furRegionsTexId := fur, colorBytes := (c0, c1, c2) \<rparr>)
   }"

definition parseShader_early3 :: "shaderFlags \<Rightarrow> shaderAttrFlags \<Rightarrow> dataview \<Rightarrow> nat list \<Rightarrow> shader \<Rightarrow> shader option" where
  "parseShader_early3 SF AF data modelTexIds sh = do {
     raw \<leftarrow> getUint16 data 0x3c;
     attr \<leftarrow> getUint8 data 0x3e;
     let f = translateEarly3Flags SF (word_of_nat raw);
     let a = deriveAttr AF (layers sh) (word_of_nat attr);
     readProbeFields data modelTexIds (sh\<lparr> isBeta := True, flags := f, attrFlags := a \<rparr>)
   }"

definition parseShader_final :: "dataview \<Rightarrow> nat list \<Rightarrow> shader \<Rightarrow> shader option" where
  "parseShader_final data modelTexIds sh = do {
     f \<leftarrow> getUint32 data 0x3c;
     attr \<leftarrow> getUint8 data 0x40;
     readProbeFields data modelTexIds (sh\<lparr> flags := word_of_nat f, attrFlags := word_of_nat attr \<rparr>)
   }"

definition parseShader ::
  "shaderFlags \<Rightarrow> shaderAttrFlags \<Rightarrow> dataview \<Rightarrow> shaderFields \<Rightarrow> nat list \<Rightarrow> nat \<Rightarrow> nat \<Rightarrow> nat
   \<Rightarrow> shader option" where
  "parseShader SF AF data flds modelTexIds nf lf tm = do {
     n \<leftarrow> getUint8 data (sf_numLayers flds);
     let numLayers = (if n > 2 then 2 else n);
     ls \<leftarrow> parseLayers data flds modelTexIds 0 numLayers;
     let sh = (initShader nf lf tm)\<lparr> layers := ls \<rparr>;
     if sf_isAncient flds then parseShader_ancient SF AF data sh
     else if sf_isSwapcircle flds then parseShader_swapcircle SF AF data sh
     else if sf_isBeta flds then
       (let shb = sh\<lparr> isBeta := True, attrFlags := CLR AF, flags := CullBackface SF \<rparr>
        in if sf_isold flds then parseShader_old SF AF data shb
           else if sf_isEarly1 flds then parseShader_early1 SF AF data shb
           else if sf_isEarly3 flds then parseShader_early3 SF AF data modelTexIds shb
           else Some shb)
     else parseShader_final data modelTexIds sh
   }"

text \<open>A flag of a parsed shader is set when the test \<open>flags & flag\<close> of the code is truthy.\<close>

definition hasFlag :: "shader \<Rightarrow> 32 word \<Rightarrow> bool" where
  "hasFlag sh flag = (flags sh AND flag \<noteq> 0)"


section \<open>Vertex descriptors and the stride-forcing rebuild (modelloader.ts)\<close>

text \<open>
  Modelled from the spec: the slots of a vertex descriptor. \<open>GX.Attr\<close> and
  \<open>GX.AttrType\<close> are declared in \<open>gx_enum.ts\<close>, which is not among the sources.
  A descriptor has a position-matrix-index slot, eight texture-matrix-index slots, then
  POS, NRM, CLR0, CLR1 and TEX0 to TEX7; each slot is absent, direct, or an 8-bit or
  16-bit index. The slots are numbered as the GX hardware numbers them. The properties
  below use only that the numbers are distinct and that the texture-matrix slots follow
  the position-matrix slot.

  A descriptor is a JavaScript array: a read outside it gives \<open>undefined\<close> (here
  \<open>None\<close>), a write outside it extends it, leaving holes.
\<close>

datatype attrType = NONE | DIRECT | INDEX8 | INDEX16

definition GX_PNMTXIDX :: nat where "GX_PNMTXIDX = 0"
definition GX_TEX0MTXIDX :: nat where "GX_TEX0MTXIDX = 1"
definition GX_POS :: nat where "GX_POS = 9"
definition GX_NRM :: nat where "GX_NRM = 10"
definition GX_CLR0 :: nat where "GX_CLR0 = 11"
definition GX_TEX0 :: nat where "GX_TEX0 = 13"
definition GX_MAX :: nat where "GX_MAX = 20"

type_synonym vcd = "attrType option list"

definition vcdGet :: "vcd \<Rightarrow> nat \<Rightarrow> attrType option" where
  "vcdGet v a = (if a < length v then v ! a else None)"

definition vcdSet :: "vcd \<Rightarrow> nat \<Rightarrow> attrType \<Rightarrow> vcd" where
  "vcdSet v a t =
     (if a < length v then v[a := Some t] else v @ replicate (a - length v) None @ [Some t])"

definition vcdClone :: "vcd \<Rightarrow> vcd" where
  "vcdClone v = map (\<lambda>x. case x of None \<Rightarrow> None | Some t \<Rightarrow> Some t) v"

text \<open>The helper \<open>b\<close> of \<open>vcdIndexBytes\<close>: the index width of one slot.\<close>

definition idxBytesAt :: "vcd \<Rightarrow> nat \<Rightarrow> nat" where
  "idxBytesAt v a =
     (if vcdGet v a = Some INDEX16 then 2 else if vcdGet v a = Some INDEX8 then 1 else 0)"

definition vcdIndexBytes :: "vcd \<Rightarrow> nat" where
  "vcdIndexBytes v =
     idxBytesAt v GX_POS + idxBytesAt v GX_NRM + idxBytesAt v GX_CLR0 + idxBytesAt v GX_TEX0
     + idxBytesAt v (GX_TEX0 + 1) + idxBytesAt v (GX_TEX0 + 2) + idxBytesAt v (GX_TEX0 + 3)"

definition directAt :: "vcd \<Rightarrow> nat \<Rightarrow> nat" where
  "directAt v a = (if vcdGet v a = Some DIRECT then 1 else 0)"

definition vcdDirectBytes :: "vcd \<Rightarrow> nat" where
  "vcdDirectBytes v =
     directAt v GX_PNMTXIDX + (\<Sum>i\<leftarrow>[0..<8]. directAt v (GX_TEX0MTXIDX + i))"

text \<open>
  The two loops of \<open>forceVCDStrideTo\<close> over the texture-matrix slots: upwards from
  slot 0 while \<open>need > 0\<close>, downwards from slot 7 while \<open>over > 0\<close>.
\<close>

fun widenTexMtx :: "nat list \<Rightarrow> vcd \<Rightarrow> nat \<Rightarrow> vcd" where
  "widenTexMtx [] v need = v"
| "widenTexMtx (i # rest) v need =
     (if need > 0 then
        (if vcdGet v (GX_TEX0MTXIDX + i) \<noteq> Some DIRECT
         then widenTexMtx rest (vcdSet v (GX_TEX0MTXIDX + i) DIRECT) (need - 1)
         else widenTexMtx rest v need)
      else v)"

fun narrowTexMtx :: "nat list \<Rightarrow> vcd \<Rightarrow> nat \<Rightarrow> vcd \<times> nat" where
  "narrowTexMtx [] v over = (v, over)"
| "narrowTexMtx (i # rest) v over =
     (if over > 0 then
        (if vcdGet v (GX_TEX0MTXIDX + i) = Some DIRECT
         then narrowTexMtx rest (vcdSet v (GX_TEX0MTXIDX + i) NONE) (over - 1)
         else narrowTexMtx rest v over)
      else (v, over))"

definition forceVCDStrideTo :: "vcd \<Rightarrow> nat \<Rightarrow> vcd" where
  "forceVCDStrideTo vcdIn targetStride =
     (let v = vcdClone vcdIn;
          cur = vcdIndexBytes v + vcdDirectBytes v
      in if cur = targetStride then v
         else if cur < targetStride then
           (let need = targetStride - cur in
            if need > 0 \<and> vcdGet v GX_PNMTXIDX \<noteq> Some DIRECT
            then widenTexMtx [0..<8] (vcdSet v GX_PNMTXIDX DIRECT) (need - 1)
            else widenTexMtx [0..<8] v need)
         else
           (let (v', over') = narrowTexMtx (rev [0..<8]) v (cur - targetStride) in
            if over' > 0 \<and> vcdGet v' GX_PNMTXIDX = Some DIRECT
            then vcdSet v' GX_PNMTXIDX NONE
            else v'))"


section \<open>Normal buffer padding (loadModel)\<close>

text \<open>
  The guard of loadModel that pads a short normal buffer. \<open>NormalFlags.NBT\<close> is a
  member of an enum of \<open>materials.ts\<close>, which is not among the sources: the mask is a
  parameter. \<open>srcOrZero\<close> is the read \<open>src[k] ?? 0\<close> of a typed array; a write
  outside a typed array is ignored, as \<open>list_update\<close> ignores it.
\<close>

definition srcOrZero :: "dataview \<Rightarrow> nat \<Rightarrow> byte" where
  "srcOrZero src k = (if k < length src then src ! k else 0)"

text \<open>The inner loop over \<open>j\<close> (\<open>n\<close> iterations left) and the outer loop over \<open>off\<close>.\<close>

fun padRecord :: "dataview \<Rightarrow> dataview \<Rightarrow> nat \<Rightarrow> nat \<Rightarrow> nat \<Rightarrow> nat \<Rightarrow> dataview" where
  "padRecord src dst off tailStart j 0 = dst"
| "padRecord src dst off tailStart j (Suc n) =
     padRecord src (dst[off + j := srcOrZero src (tailStart + j)]) off tailStart (Suc j) n"

function padLoop :: "bool \<Rightarrow> dataview \<Rightarrow> dataview \<Rightarrow> nat \<Rightarrow> nat \<Rightarrow> nat \<Rightarrow> dataview" where
  "padLoop nbt src dst tailStart off needed =
     (let nrmStride = (if nbt then 9 else 3) in
      if off < needed
      then padLoop nbt src (padRecord src dst off tailStart 0 nrmStride) tailStart
             (off + nrmStride) needed
      else dst)"
  by pat_completeness auto
termination
  by (relation "measure (\<lambda>(nbt, src, dst, tailStart, off, needed). needed - off)")
     (auto split: if_splits)

declare padLoop.simps [simp del]

definition padNormals :: "32 word \<Rightarrow> bool \<Rightarrow> 32 word \<Rightarrow> nat \<Rightarrow> dataview \<Rightarrow> dataview" where
  "padNormals NBT hasNormals nflags posCount nrm =
     (if hasNormals \<and> length nrm > 0 then
        (let nbt = (nflags AND NBT \<noteq> 0);
             nrmStride = (if nbt then 9 else 3);
             needed = posCount * nrmStride
         in if length nrm < needed then
              (let src = nrm;
                   dst = src @ replicate (needed - length src) 0;
                   tailStart = length src - nrmStride
               in padLoop nbt src dst tailStart (length src) needed)
            else nrm)
      else nrm)"


section \<open>The display-list table (loadModel)\<close>

text \<open>
  Modelled from the spec: \<open>readUint32\<close> and \<open>readUint16\<close> of \<open>util.ts\<close>, which is
  not among the sources: element \<open>i\<close> of a table of big-endian 32-bit (16-bit) values
  at \<open>byteOffset\<close>, read through the DataView, which raises outside the buffer.
\<close>

definition getInt16 :: "dataview \<Rightarrow> nat \<Rightarrow> int option" where
  "getInt16 d off =
     (case getUint16 d off of
        None \<Rightarrow> None
      | Some u \<Rightarrow> Some (if u \<ge> 32768 then int u - 65536 else int u))"

definition readUint32 :: "dataview \<Rightarrow> nat \<Rightarrow> nat \<Rightarrow> nat option" where
  "readUint32 data byteOffset i = getUint32 data (byteOffset + 4 * i)"

definition readUint16 :: "dataview \<Rightarrow> nat \<Rightarrow> nat \<Rightarrow> nat option" where
  "readUint16 data byteOffset i = getUint16 data (byteOffset + 2 * i)"

text \<open>
  The entries of the per-version table \<open>FIELDS\<close> that the resolver and the command
  stream interpreter read. An entry that a version leaves out is \<open>undefined\<close>: as a
  flag it is false, and as the offset of a DataView read it reads at 0, so it is False or
  0 here.
\<close>

record modelFields =
  mf_isBeta :: bool
  mf_isMapBlock :: bool
  mf_hasNormals :: bool
  mf_hasBones :: bool
  mf_oldVat :: bool
  mf_shaderFields :: shaderFields
  mf_dlOffsets :: nat
  mf_dlSizes :: nat
  mf_dlInfoOffset :: nat
  mf_dlInfoCount :: nat
  mf_dlInfoSize :: nat
  mf_numListBits :: nat

text \<open>
  A row of the table. The bounding box is kept as the six signed 16-bit values read (the
  source divides them by 8). A sentinel and a row of the Beta layout carry no bounding
  box, special bit address or sort layer.
\<close>

record displayListInfo =
  offset :: nat
  size_dl :: nat
  aabb :: "(int \<times> int \<times> int \<times> int \<times> int \<times> int) option"
  specialBitAddress :: "nat option"
  sortLayer :: "nat option"

definition parseDisplayListInfo :: "dataview \<Rightarrow> displayListInfo option" where
  "parseDisplayListInfo data = do {
     ofs \<leftarrow> getUint32 data 0x0;
     s \<leftarrow> getUint16 data 0x4;
     a0 \<leftarrow> getInt16 data 0x6;
     a1 \<leftarrow> getInt16 data 0x8;
     a2 \<leftarrow> getInt16 data 0xa;
     a3 \<leftarrow> getInt16 data 0xc;
     a4 \<leftarrow> getInt16 data 0xe;
     a5 \<leftarrow> getInt16 data 0x10;
     sp \<leftarrow> getUint16 data 0x14;
     sl \<leftarrow> getUint8 data 0x18;
     Some \<lparr> offset = ofs, size_dl = s, aabb = Some (a0, a1, a2, a3, a4, a5),
            specialBitAddress = Some sp, sortLayer = Some sl \<rparr>
   }"

definition emptySentinel :: displayListInfo where
  "emptySentinel = \<lparr> offset = 0, size_dl = 0, aabb = None, specialBitAddress = None,
                      sortLayer = None \<rparr>"

text \<open>The loop of the \<open>isBeta\<close> branch, from index \<open>i\<close> on, \<open>n\<close> rows left.\<close>

fun betaDlInfos :: "dataview \<Rightarrow> modelFields \<Rightarrow> nat \<Rightarrow> nat \<Rightarrow> displayListInfo list option" where
  "betaDlInfos data flds i 0 = Some []"
| "betaDlInfos data flds i (Suc n) = do {
     dlOffsetsOffs \<leftarrow> getUint32 data (mf_dlOffsets flds);
     dlSizesOffs \<leftarrow> getUint32 data (mf_dlSizes flds);
     ofs \<leftarrow> readUint32 data dlOffsetsOffs i;
     s \<leftarrow> readUint16 data dlSizesOffs i;
     rest \<leftarrow> betaDlInfos data flds (Suc i) n;
     Some (\<lparr> offset = ofs, size_dl = s, aabb = None, specialBitAddress = None,
             sortLayer = None \<rparr> # rest)
   }"

text \<open>
  The scan of the other branch, from row \<open>i\<close> on, with \<open>n\<close> of the \<open>effSlots\<close> rows
  left: it stops after a run of 8 invalid rows. \<open>Math.floor(bytesAvail / stride)\<close> is
  infinite for a zero stride, where \<open>div\<close> gives 0: the resolver below writes the case
  out.
\<close>

fun scanRows ::
  "dataview \<Rightarrow> nat \<Rightarrow> nat \<Rightarrow> nat \<Rightarrow> nat \<Rightarrow> nat \<Rightarrow> nat \<Rightarrow> displayListInfo list
   \<Rightarrow> displayListInfo list option" where
  "scanRows data dlInfoOffset stride fileLen i 0 consecutiveInvalid dlInfos = Some dlInfos"
| "scanRows data dlInfoOffset stride fileLen i (Suc n) consecutiveInvalid dlInfos =
     (let rowOff = dlInfoOffset + i * stride in
      if rowOff + stride > fileLen
      then scanRows data dlInfoOffset stride fileLen (Suc i) n (Suc consecutiveInvalid) dlInfos
      else do {
        rowDV \<leftarrow> dataSubarrayLen data rowOff stride;
        info \<leftarrow> parseDisplayListInfo rowDV;
        let ok = (offset info > 0 \<and> size_dl info > 0 \<and> offset info + size_dl info \<le> fileLen);
        let dlInfos' = (if ok then dlInfos[i := info] else dlInfos);
        let invalid' = (if ok then 0 else Suc consecutiveInvalid);
        if invalid' \<ge> 8 then Some dlInfos'
        else scanRows data dlInfoOffset stride fileLen (Suc i) n invalid' dlInfos'
      })"

definition resolveDlInfos :: "dataview \<Rightarrow> modelFields \<Rightarrow> displayListInfo list option" where
  "resolveDlInfos data flds = do {
     dlInfoCount \<leftarrow> getUint8 data (mf_dlInfoCount flds);
     if mf_isBeta flds then betaDlInfos data flds 0 dlInfoCount
     else do {
       dlInfoOffset \<leftarrow> getUint32 data (mf_dlInfoOffset flds);
       if dlInfoOffset = 0 \<or> dlInfoOffset \<ge> length data then Some []
       else
         (let fileLen = length data;
              stride = mf_dlInfoSize flds;
              bytesAvail = fileLen - dlInfoOffset;
              effSlots = (if stride = 0 then dlInfoCount
                          else min dlInfoCount (bytesAvail div stride))
          in scanRows data dlInfoOffset stride fileLen 0 effSlots 0
               (replicate dlInfoCount emptySentinel))
     }
   }"

text \<open>The entries of \<open>FIELDS\<close> for the versions Beta and Final.\<close>

definition FIELDS_Beta :: modelFields where
  "FIELDS_Beta = \<lparr> mf_isBeta = True, mf_isMapBlock = False, mf_hasNormals = True,
     mf_hasBones = True, mf_oldVat = True, mf_shaderFields = BETA_MODEL_SHADER_FIELDS,
     mf_dlOffsets = 0x88, mf_dlSizes = 0x8c, mf_dlInfoOffset = 0, mf_dlInfoCount = 0xac,
     mf_dlInfoSize = 0, mf_numListBits = 6 \<rparr>"

definition FIELDS_Final :: modelFields where
  "FIELDS_Final = \<lparr> mf_isBeta = False, mf_isMapBlock = False, mf_hasNormals = True,
     mf_hasBones = True, mf_oldVat = False, mf_shaderFields = SFA_SHADER_FIELDS,
     mf_dlOffsets = 0, mf_dlSizes = 0, mf_dlInfoOffset = 0xd0, mf_dlInfoCount = 0xf5,
     mf_dlInfoSize = 0x1c, mf_numListBits = 8 \<rparr>"


section \<open>The bit reader\<close>

text \<open>
  Modelled from the spec: \<open>LowBitReader\<close> of \<open>util.ts\<close>, which is not among the
  sources. The spec describes the command stream as bit-granular and not byte-aligned.
  The reader is a window starting at byte \<open>baseOffs\<close> of the model file and a position
  counted in bits from there; \<open>get n\<close> returns the next \<open>n\<close> bits, the first bit read
  being the least significant bit of the result and bit \<open>p\<close> of the stream being bit
  \<open>p mod 8\<close> (from the low end) of byte \<open>p div 8\<close>. The bytes are read through the
  DataView, so a read that needs a byte outside the file raises. \<open>drop n\<close> is \<open>get n\<close>
  with the value discarded, and \<open>seekBit\<close> sets the position.
\<close>

record lowBitReader =
  br_data :: dataview
  br_baseOffs :: nat
  bitIndex :: nat

definition newLowBitReader :: "dataview \<Rightarrow> nat \<Rightarrow> lowBitReader" where
  "newLowBitReader data offs = \<lparr> br_data = data, br_baseOffs = offs, bitIndex = 0 \<rparr>"

definition streamBit :: "lowBitReader \<Rightarrow> nat \<Rightarrow> nat" where
  "streamBit r p = (unat (br_data r ! (br_baseOffs r + p div 8)) div 2 ^ (p mod 8)) mod 2"

fun bitsValue :: "lowBitReader \<Rightarrow> nat \<Rightarrow> nat \<Rightarrow> nat" where
  "bitsValue r p 0 = 0"
| "bitsValue r p (Suc n) = streamBit r p + 2 * bitsValue r (Suc p) n"

definition getBits :: "lowBitReader \<Rightarrow> nat \<Rightarrow> (nat \<times> lowBitReader) option" where
  "getBits r n =
     (if n = 0 then Some (0, r)
      else if br_baseOffs r + (bitIndex r + n - 1) div 8 < length (br_data r)
      then Some (bitsValue r (bitIndex r) n, r\<lparr> bitIndex := bitIndex r + n \<rparr>)
      else None)"

definition dropBits :: "lowBitReader \<Rightarrow> nat \<Rightarrow> lowBitReader option" where
  "dropBits r n = map_option snd (getBits r n)"

definition seekBit :: "lowBitReader \<Rightarrow> nat \<Rightarrow> lowBitReader" where
  "seekBit r bitAddr = r\<lparr> bitIndex := bitAddr \<rparr>"

section \<open>The decoding context\<close>

text \<open>
  The interpreter functions are closures of \<open>loadModel\<close>. The record \<open>loadCtx\<close> holds
  the variables of \<open>loadModel\<close> they read and never assign: the flag tables, the model
  file \<open>data\<close>, the \<open>fields\<close> of the version, the two version tests
  \<open>version === ModelVersion.Early1\<close> and \<open>version === ModelVersion.Early3\<close>,
  \<open>jointCount\<close>, \<open>texMtxCount\<close>, \<open>hasColorTable\<close>, \<open>isEarly34Map\<close>,
  \<open>usingDummyClr\<close>, \<open>hasSkinning\<close>, the display-list table \<open>dlInfos\<close> and
  \<open>bitsOffsets\<close>.

  Modelled from the spec: \<open>ShapeGeometry\<close> of \<open>shapes.ts\<close>, which is not among the
  sources. The spec says that geometry construction for a display list may throw
  (malformed index data, buffer too short, stride mismatch). \<open>c_geomOk\<close> is a parameter:
  it says, for a vertex descriptor, the bytes of a display list, the matrix map and the
  skinning flag, whether \<open>new ShapeGeometry\<close> followed by \<open>setPnMatrixMap\<close> returns.
  Nothing is assumed about it.
\<close>

text \<open>
  The colour table handed to the geometry, \<open>clrBufferForArrays\<close>, by its byte length.
  \<open>clrBuffer\<close> is the table as read from the file. For an Early3 or Early4 map it is
  expanded into a \<open>Uint8Array(0x10000 * 2)\<close>; then, for a map block, a table of length 0
  is replaced by a dummy \<open>Uint8Array(0x10000 * 2)\<close> filled with \<open>0xFF\<close>, and
  \<open>usingDummyClr\<close> is set. \<open>hasColorTable\<close> is computed after both steps.
\<close>

definition clrBufferForArraysLength :: "bool \<Rightarrow> bool \<Rightarrow> nat \<Rightarrow> nat" where
  "clrBufferForArraysLength isMapBlock isEarly34Map clrBufferLength =
     (let expanded = (if isEarly34Map then 0x10000 * 2 else clrBufferLength)
      in if isMapBlock \<and> expanded = 0 then 0x10000 * 2 else expanded)"

definition usingDummyClr :: "bool \<Rightarrow> bool \<Rightarrow> nat \<Rightarrow> bool" where
  "usingDummyClr isMapBlock isEarly34Map clrBufferLength =
     (isMapBlock \<and> (if isEarly34Map then 0x10000 * 2 else clrBufferLength) = 0)"

definition hasColorTable :: "bool \<Rightarrow> bool \<Rightarrow> nat \<Rightarrow> bool" where
  "hasColorTable isMapBlock isEarly34Map clrBufferLength =
     (clrBufferForArraysLength isMapBlock isEarly34Map clrBufferLength > 0)"

record loadCtx =
  c_SF :: shaderFlags
  c_AF :: shaderAttrFlags
  c_data :: dataview
  c_fields :: modelFields
  c_versionEarly1 :: bool
  c_versionEarly3 :: bool
  c_jointCount :: nat
  c_texMtxCount :: nat
  c_hasColorTable :: bool
  c_isEarly34Map :: bool
  c_usingDummyClr :: bool
  c_hasSkinning :: bool
  c_dlInfos :: "displayListInfo list"
  c_bitsOffsets :: "nat list"
  c_geomOk :: "vcd \<Rightarrow> dataview \<Rightarrow> nat list \<Rightarrow> bool \<Rightarrow> bool"

section \<open>Vertex descriptor reconstruction\<close>

text \<open>
  The loop \<open>for (i = 0; i < texMtxCount; i++) { vcd[TEX0MTXIDX + texmtxNum].type = DIRECT;
  texmtxNum-- }\<close> with \<open>texmtxNum\<close> starting at 7. The descriptor has an object in each
  slot from 0 to \<open>GX.Attr.MAX\<close>, so the assignment raises once the index is negative.
\<close>

fun texMtxSlots :: "vcd \<Rightarrow> int \<Rightarrow> nat \<Rightarrow> vcd option" where
  "texMtxSlots v texmtxNum 0 = Some v"
| "texMtxSlots v texmtxNum (Suc n) =
     (if int GX_TEX0MTXIDX + texmtxNum < 0 then None
      else texMtxSlots (vcdSet v (nat (int GX_TEX0MTXIDX + texmtxNum)) DIRECT) (texmtxNum - 1) n)"

definition indexSize :: "nat \<Rightarrow> attrType" where
  "indexSize b = (if b \<noteq> 0 then INDEX16 else INDEX8)"

text \<open>
  The loop over the eight texture coordinates: slot \<open>TEX0 + t\<close> gets the shared index
  width when \<open>t < shader.layers.length\<close> and is absent otherwise.
\<close>

fun setTexCoords :: "vcd \<Rightarrow> nat \<Rightarrow> attrType \<Rightarrow> nat list \<Rightarrow> vcd" where
  "setTexCoords v numLayers ty [] = v"
| "setTexCoords v numLayers ty (t # ts) =
     setTexCoords (vcdSet v (GX_TEX0 + t) (if t < numLayers then ty else NONE)) numLayers ty ts"

text \<open>The condition \<open>wantClr0 = mapHasPalette || shaderHasCLR\<close>.\<close>

definition wantClr0 :: "loadCtx \<Rightarrow> shader \<Rightarrow> bool" where
  "wantClr0 C sh =
     (let mapHasPalette = (c_hasColorTable C \<and> mf_isMapBlock (c_fields C))
      in mapHasPalette \<or> attrFlags sh AND CLR (c_AF C) \<noteq> 0)"

text \<open>
  \<open>readVertexDesc\<close>, in the order of its statements: the matrix-index slots of a skinned
  model, then the size bits of POS, NRM, CLR0 and the texture coordinates, then the
  realignment of the legacy formats. A shader slot outside the shader list is
  \<open>undefined\<close>, and reading a property of it raises.
\<close>

definition matrixIndexSlots :: "loadCtx \<Rightarrow> shader \<Rightarrow> vcd option" where
  "matrixIndexSlots C sh =
     (let vcd0 = replicate (GX_MAX + 1) (Some NONE) in
      if mf_hasBones (c_fields C) \<and> c_jointCount C \<ge> 2 then
        (let a = vcdSet vcd0 GX_PNMTXIDX DIRECT;
             b = (if hasHemisphericProbe sh \<or> hasReflectiveProbe sh then
                    (if hasNBTTexture sh
                     then vcdSet (vcdSet (vcdSet a GX_TEX0MTXIDX DIRECT)
                            (GX_TEX0MTXIDX + 1) DIRECT) (GX_TEX0MTXIDX + 2) DIRECT
                     else vcdSet a GX_TEX0MTXIDX DIRECT)
                  else a)
         in texMtxSlots b 7 (c_texMtxCount C))
      else Some vcd0)"

definition readPos :: "vcd \<Rightarrow> lowBitReader \<Rightarrow> (vcd \<times> lowBitReader) option" where
  "readPos v bits = map_option (\<lambda>(p, b). (vcdSet v GX_POS (indexSize p), b)) (getBits bits 1)"

definition readNrm :: "loadCtx \<Rightarrow> shader \<Rightarrow> vcd \<Rightarrow> lowBitReader \<Rightarrow> (vcd \<times> lowBitReader) option" where
  "readNrm C sh v bits =
     (if mf_hasNormals (c_fields C) \<and> attrFlags sh AND NRM (c_AF C) \<noteq> 0
      then map_option (\<lambda>(n, b). (vcdSet v GX_NRM (indexSize n), b)) (getBits bits 1)
      else Some (vcdSet v GX_NRM NONE, bits))"

definition readClr0 :: "loadCtx \<Rightarrow> shader \<Rightarrow> vcd \<Rightarrow> lowBitReader \<Rightarrow> (vcd \<times> lowBitReader) option" where
  "readClr0 C sh v bits =
     (if wantClr0 C sh then
        (if c_isEarly34Map C
         then map_option (\<lambda>(c, b). (vcdSet v GX_CLR0 INDEX16, b)) (getBits bits 1)
         else map_option (\<lambda>(c, b). (vcdSet v GX_CLR0 (indexSize c), b)) (getBits bits 1))
      else Some (vcdSet v GX_CLR0 NONE, bits))"

definition readTexCoords :: "shader \<Rightarrow> vcd \<Rightarrow> lowBitReader \<Rightarrow> (vcd \<times> lowBitReader) option" where
  "readTexCoords sh v bits =
     (if length (layers sh) > 0
      then map_option
             (\<lambda>(texCoordDesc, b).
                (setTexCoords v (length (layers sh)) (indexSize texCoordDesc) [0..<8], b))
             (getBits bits 1)
      else Some (setTexCoords v 0 NONE [0..<8], bits))"

definition alignAfterVcd :: "loadCtx \<Rightarrow> lowBitReader \<Rightarrow> lowBitReader option" where
  "alignAfterVcd C bits =
     (if mf_oldVat (c_fields C) then
        (let misalign = bitIndex bits mod 8
         in if misalign \<noteq> 0 then dropBits bits (8 - misalign) else Some bits)
      else Some bits)"

definition readVertexDesc ::
  "loadCtx \<Rightarrow> lowBitReader \<Rightarrow> shader option \<Rightarrow> (vcd \<times> lowBitReader) option" where
  "readVertexDesc C bits shaderRef =
     (case shaderRef of
        None \<Rightarrow> None
      | Some sh \<Rightarrow> do {
          vcd1 \<leftarrow> matrixIndexSlots C sh;
          (vcd2, bits1) \<leftarrow> readPos vcd1 bits;
          (vcd3, bits2) \<leftarrow> readNrm C sh vcd2 bits1;
          (vcd4, bits3) \<leftarrow> readClr0 C sh vcd3 bits2;
          (vcd5, bits4) \<leftarrow> readTexCoords sh vcd4 bits3;
          bits5 \<leftarrow> alignAfterVcd C bits4;
          Some (vcd5, bits5)
        })"

section \<open>Shapes\<close>

text \<open>
  Modelled from the spec: the materials of \<open>materials.ts\<close> and \<open>Shape\<close> of
  \<open>shapes.ts\<close>, which are not among the sources. A material is recorded by the factory
  method that built it and the shader it was built from; a geometry by the descriptor
  and the window of the file it was built from, the skinning flag given to
  \<open>setPnMatrixMap\<close>, and the bounding box and sort layer of the table entry.
\<close>

datatype material =
    MapMaterial "shader option"
  | ObjectMaterial "shader option" bool
  | WaterMaterial "shader option"
  | FurMaterial "shader option"

record shapeGeometry =
  g_vcd :: vcd
  g_displayList :: "nat \<times> nat"
  g_hasSkinning :: bool
  g_aabb :: "(int \<times> int \<times> int \<times> int \<times> int \<times> int) option"
  g_sortLayer :: "nat option"

record shape =
  s_geom :: shapeGeometry
  s_material :: material
  s_isDevGeometry :: bool

text \<open>
  \<open>new ShapeGeometry(vtxArrays, v, vat, displayList, ...)\<close> followed by
  \<open>setPnMatrixMap\<close>, \<open>setBoundingBox\<close> and \<open>setSortLayer\<close>, on the window
  \<open>dataSubarray(data, dlOff, dlLen)\<close>. \<open>None\<close> when taking the window or the
  construction raises.
\<close>

definition newShapeGeometry ::
  "loadCtx \<Rightarrow> vcd \<Rightarrow> nat \<Rightarrow> nat \<Rightarrow> nat list \<Rightarrow> bool \<Rightarrow> displayListInfo \<Rightarrow> shapeGeometry option" where
  "newShapeGeometry C v dlOff dlLen pnMatrixMap skinning dlInfo =
     (case dataSubarrayLen (c_data C) dlOff dlLen of
        None \<Rightarrow> None
      | Some displayList \<Rightarrow>
          if c_geomOk C v displayList pnMatrixMap skinning
          then Some \<lparr> g_vcd = v, g_displayList = (dlOff, dlLen), g_hasSkinning = skinning,
                      g_aabb = aabb dlInfo, g_sortLayer = sortLayer dlInfo \<rparr>
          else None)"

section \<open>Stride tuning\<close>

text \<open>The test \<open>prim >= 0x80 && prim <= 0x9f\<close> for a GX draw command.\<close>

definition isDrawOpcode :: "nat \<Rightarrow> bool" where
  "isDrawOpcode b = (b \<ge> 0x80 \<and> b \<le> 0x9f)"

text \<open>
  The scanning loop shared by \<open>guessTargetStride\<close> and \<open>scanStrideCandidates\<close>: for
  each candidate stride the byte where the next command would start is classified; the
  loop stops at the first stride whose position leaves the display list.
\<close>

fun strideScan ::
  "dataview \<Rightarrow> nat \<Rightarrow> nat \<Rightarrow> nat \<Rightarrow> nat \<Rightarrow> nat list \<Rightarrow> (nat list \<times> nat list \<times> nat list) option" where
  "strideScan data dlOff endMax prim count [] = Some ([], [], [])"
| "strideScan data dlOff endMax prim count (s # ss) =
     (let pos = dlOff + 3 + count * s in
      if pos \<ge> endMax then Some ([], [], [])
      else do {
        b \<leftarrow> getUint8 data pos;
        (samePrim, draw, other) \<leftarrow> strideScan data dlOff endMax prim count ss;
        Some (if b = prim then (s # samePrim, draw, other)
              else if isDrawOpcode b then (samePrim, s # draw, other)
              else if b = 0x61 \<or> b = 0x08 \<or> b = 0x10 \<or> b = 0x20 \<or> b = 0x40
                   then (samePrim, draw, s # other)
              else (samePrim, draw, other))
      })"

text \<open>The candidate strides of the scan: \<open>for (s = 2; s <= 24; s++)\<close>.\<close>

definition strideRange :: "nat list" where
  "strideRange = [2..<25]"

text \<open>
  The common prefix of the two functions: \<open>Some None\<close> stands for their early returns
  (\<open>null\<close>, respectively the empty list), \<open>None\<close> for a raising read.
\<close>

definition strideLists ::
  "dataview \<Rightarrow> nat \<Rightarrow> nat \<Rightarrow> (nat list \<times> nat list \<times> nat list) option option" where
  "strideLists data dlOff dlSize =
     (if dlSize < 4 then Some None
      else do {
        prim \<leftarrow> getUint8 data dlOff;
        if \<not> isDrawOpcode prim then Some None
        else do {
          count \<leftarrow> getUint16 data (dlOff + 1);
          if count = 0 \<or> count > 0x4000 then Some None
          else map_option Some (strideScan data dlOff (dlOff + dlSize) prim count strideRange)
        }
      })"

definition guessTargetStride :: "dataview \<Rightarrow> nat \<Rightarrow> nat \<Rightarrow> nat option option" where
  "guessTargetStride data dlOff dlSize =
     map_option
       (\<lambda>r. case r of
              None \<Rightarrow> None
            | Some (samePrim, draw, other) \<Rightarrow>
                if samePrim \<noteq> [] then Some (hd samePrim)
                else if draw \<noteq> [] then Some (hd draw)
                else if other \<noteq> [] then Some (hd other)
                else None)
       (strideLists data dlOff dlSize)"

definition scanStrideCandidates :: "dataview \<Rightarrow> nat \<Rightarrow> nat \<Rightarrow> nat list option" where
  "scanStrideCandidates data dlOff dlSize =
     map_option
       (\<lambda>r. case r of None \<Rightarrow> [] | Some (samePrim, draw, other) \<Rightarrow> samePrim @ draw @ other)
       (strideLists data dlOff dlSize)"

definition tuneVCDForDL :: "dataview \<Rightarrow> nat \<Rightarrow> nat \<Rightarrow> vcd \<Rightarrow> modelFields \<Rightarrow> vcd option" where
  "tuneVCDForDL data dlOff dlSize baseVcd flds =
     (if \<not> mf_oldVat flds \<or> dlSize < 4 then Some baseVcd
      else do {
        target \<leftarrow> guessTargetStride data dlOff dlSize;
        Some (case target of
                None \<Rightarrow> baseVcd
              | Some t \<Rightarrow>
                  let curStride = vcdIndexBytes baseVcd + vcdDirectBytes baseVcd in
                  if curStride = t then baseVcd
                  else let forced = forceVCDStrideTo baseVcd t;
                           newStride = vcdIndexBytes forced + vcdDirectBytes forced
                       in if newStride = t then forced else baseVcd)
      })"

section \<open>The special command stream\<close>

text \<open>\<open>shaders[num]\<close>: \<open>undefined\<close> outside the list.\<close>

definition shaderAt :: "shader list \<Rightarrow> nat \<Rightarrow> shader option" where
  "shaderAt shaders num = (if num < length shaders then Some (shaders ! num) else None)"

text \<open>
  The local variables of \<open>runSpecialBitstreamMulti\<close>. \<open>locShader\<close> is kept as its
  index in \<open>shaders\<close>.
\<close>

record specialState =
  ss_bits :: lowBitReader
  ss_locShader :: nat
  ss_locMaterial :: material
  ss_locVcd :: vcd
  ss_out :: "shape list"

text \<open>The loop \<open>for (i = 0; i < numBones; i++) bits.get(8)\<close>.\<close>

fun dropBytes :: "lowBitReader \<Rightarrow> nat \<Rightarrow> lowBitReader option" where
  "dropBytes r 0 = Some r"
| "dropBytes r (Suc n) = (case getBits r 8 of None \<Rightarrow> None | Some (x, r') \<Rightarrow> dropBytes r' n)"

text \<open>
  The \<open>CallDL\<close> case of the special stream. The geometry is constructed outside any
  \<open>try\<close>, and \<open>shouldKeepShader\<close> reads a property of \<open>locShader\<close>, so both raise
  to the caller.
\<close>

definition specialCallDL ::
  "loadCtx \<Rightarrow> shader list \<Rightarrow> nat list \<Rightarrow> (shader \<Rightarrow> bool) \<Rightarrow> specialState \<Rightarrow> nat
   \<Rightarrow> specialState option" where
  "specialCallDL C shaders pnMatrixMap shouldKeepShader st listNum =
     (if listNum \<ge> length (c_dlInfos C) then Some st
      else case shaderAt shaders (ss_locShader st) of
        None \<Rightarrow> None
      | Some sh \<Rightarrow>
          if \<not> shouldKeepShader sh then Some st
          else
            (let dlInfo = c_dlInfos C ! listNum in
             case newShapeGeometry C (ss_locVcd st) (offset dlInfo) (size_dl dlInfo)
                    pnMatrixMap (c_hasSkinning C) dlInfo of
               None \<Rightarrow> None
             | Some geom \<Rightarrow>
                 Some (st\<lparr> ss_out := ss_out st
                          @ [\<lparr> s_geom = geom, s_material = ss_locMaterial st,
                               s_isDevGeometry = False \<rparr>] \<rparr>)))"

text \<open>
  One iteration of the \<open>while (!done)\<close> loop: the new state and the value of \<open>done\<close>.
  The opcodes are \<open>SetShader = 1\<close>, \<open>CallDL = 2\<close>, \<open>SetVCD = 3\<close>,
  \<open>SetMatrices = 4\<close> and \<open>End = 5\<close>; the \<open>default\<close> case sets \<open>done\<close>.
\<close>

definition stepSpecial ::
  "loadCtx \<Rightarrow> shader list \<Rightarrow> nat list \<Rightarrow> (shader option \<Rightarrow> material) \<Rightarrow> (shader \<Rightarrow> bool)
   \<Rightarrow> specialState \<Rightarrow> (specialState \<times> bool) option" where
  "stepSpecial C shaders pnMatrixMap buildSpecialMaterial shouldKeepShader st =
     (case getBits (ss_bits st) 4 of
        None \<Rightarrow> None
      | Some (op, b1) \<Rightarrow>
          if op = 1 then
            (case getBits b1 6 of
               None \<Rightarrow> None
             | Some (shaderNum, b2) \<Rightarrow>
                 Some (st\<lparr> ss_bits := b2, ss_locShader := shaderNum,
                          ss_locMaterial := buildSpecialMaterial (shaderAt shaders shaderNum) \<rparr>,
                       False))
          else if op = 3 then
            (case readVertexDesc C b1 (shaderAt shaders (ss_locShader st)) of
               None \<Rightarrow> None
             | Some (v, b2) \<Rightarrow> Some (st\<lparr> ss_bits := b2, ss_locVcd := v \<rparr>, False))
          else if op = 4 then
            (case getBits b1 4 of
               None \<Rightarrow> None
             | Some (numBones, b2) \<Rightarrow>
                 (case dropBytes b2 numBones of
                    None \<Rightarrow> None
                  | Some b3 \<Rightarrow> Some (st\<lparr> ss_bits := b3 \<rparr>, False)))
          else if op = 2 then
            (case getBits b1 (mf_numListBits (c_fields C)) of
               None \<Rightarrow> None
             | Some (listNum, b2) \<Rightarrow>
                 map_option (\<lambda>st'. (st', False))
                   (specialCallDL C shaders pnMatrixMap shouldKeepShader (st\<lparr> ss_bits := b2 \<rparr>)
                      listNum))
          else if op = 5 then Some (st\<lparr> ss_bits := b1 \<rparr>, True)
          else Some (st\<lparr> ss_bits := b1 \<rparr>, True))"

text \<open>
  The number of bits between the position of a reader and the end of the file. Every
  successful read of at least one bit decreases it, which bounds the interpreter loops.
\<close>

definition bitsLeft :: "lowBitReader \<Rightarrow> nat" where
  "bitsLeft r = 8 * (length (br_data r) - br_baseOffs r) - bitIndex r"

lemma getBits_left:
  assumes "getBits r n = Some (x, r')"
  shows "bitsLeft r' \<le> bitsLeft r \<and> (0 < n \<longrightarrow> bitsLeft r' < bitsLeft r)"
proof (cases "n = 0")
  case True
  then show ?thesis using assms by (simp add: getBits_def)
next
  case False
  then have b: "br_baseOffs r + (bitIndex r + n - 1) div 8 < length (br_data r)"
    and r': "r' = r\<lparr> bitIndex := bitIndex r + n \<rparr>"
    using assms by (auto simp: getBits_def split: if_splits)
  from b have "(bitIndex r + n - 1) div 8 < length (br_data r) - br_baseOffs r" by simp
  then have "bitIndex r + n - 1 < 8 * (length (br_data r) - br_baseOffs r)"
    by (simp add: div_less_iff_less_mult mult.commute)
  then show ?thesis using False r' by (simp add: bitsLeft_def) arith
qed

lemma dropBits_left: "dropBits r n = Some r' \<Longrightarrow> bitsLeft r' \<le> bitsLeft r"
  by (auto simp: dropBits_def dest: getBits_left)

lemma dropBytes_left: "dropBytes r n = Some r' \<Longrightarrow> bitsLeft r' \<le> bitsLeft r"
proof (induction n arbitrary: r)
  case 0
  then show ?case by simp
next
  case (Suc n)
  then show ?case
    by (auto split: option.splits dest!: getBits_left) fastforce
qed

lemma readVertexDesc_phases:
  assumes "readVertexDesc C bits shaderRef = Some (v, bits')"
  shows "\<exists>sh vcd1 vcd2 bits1 vcd3 bits2 vcd4 bits3 bits4.
    shaderRef = Some sh
    \<and> matrixIndexSlots C sh = Some vcd1
    \<and> readPos vcd1 bits = Some (vcd2, bits1)
    \<and> readNrm C sh vcd2 bits1 = Some (vcd3, bits2)
    \<and> readClr0 C sh vcd3 bits2 = Some (vcd4, bits3)
    \<and> readTexCoords sh vcd4 bits3 = Some (v, bits4)
    \<and> alignAfterVcd C bits4 = Some bits'"
proof -
  from assms obtain sh where sh: "shaderRef = Some sh"
    by (cases shaderRef) (auto simp: readVertexDesc_def)
  from assms[unfolded sh] show ?thesis
    by (auto simp: readVertexDesc_def sh split: Option.bind_splits)
qed

lemma readVertexDesc_left:
  assumes "readVertexDesc C bits shaderRef = Some (v, bits')"
  shows "bitsLeft bits' \<le> bitsLeft bits"
proof -
  from readVertexDesc_phases[OF assms] obtain sh vcd1 vcd2 bits1 vcd3 bits2 vcd4 bits3 bits4 where
    g1: "readPos vcd1 bits = Some (vcd2, bits1)"
    and g2: "readNrm C sh vcd2 bits1 = Some (vcd3, bits2)"
    and g3: "readClr0 C sh vcd3 bits2 = Some (vcd4, bits3)"
    and g4: "readTexCoords sh vcd4 bits3 = Some (v, bits4)"
    and g5: "alignAfterVcd C bits4 = Some bits'"
    by auto
  have l1: "bitsLeft bits1 \<le> bitsLeft bits"
    using g1 by (auto simp: readPos_def dest: getBits_left)
  have l2: "bitsLeft bits2 \<le> bitsLeft bits1"
    using g2 by (auto simp: readNrm_def split: if_splits dest: getBits_left)
  have l3: "bitsLeft bits3 \<le> bitsLeft bits2"
    using g3 by (auto simp: readClr0_def split: if_splits dest: getBits_left)
  have l4: "bitsLeft bits4 \<le> bitsLeft bits3"
    using g4 by (auto simp: readTexCoords_def split: if_splits dest: getBits_left)
  have l5: "bitsLeft bits' \<le> bitsLeft bits4"
    using g5 by (auto simp: alignAfterVcd_def Let_def split: if_splits dest: dropBits_left)
  from l1 l2 l3 l4 l5 show ?thesis by simp
qed

lemma specialCallDL_bits:
  "specialCallDL C shaders pn keep st listNum = Some st' \<Longrightarrow> ss_bits st' = ss_bits st"
  by (auto simp: specialCallDL_def Let_def split: if_splits option.splits)

lemma stepSpecial_left:
  assumes "stepSpecial C shaders pn mk keep st = Some (st', d)"
  shows "bitsLeft (ss_bits st') < bitsLeft (ss_bits st)"
proof -
  from assms obtain opc b1 where g: "getBits (ss_bits st) 4 = Some (opc, b1)"
    by (auto simp: stepSpecial_def split: option.splits)
  have l1: "bitsLeft b1 < bitsLeft (ss_bits st)" using getBits_left[OF g] by simp
  have "bitsLeft (ss_bits st') \<le> bitsLeft b1"
    using assms g
    by (auto simp: stepSpecial_def split: if_splits option.splits
        dest!: getBits_left readVertexDesc_left dropBytes_left specialCallDL_bits)
  with l1 show ?thesis by simp
qed

function runSpecialLoop ::
  "loadCtx \<Rightarrow> shader list \<Rightarrow> nat list \<Rightarrow> (shader option \<Rightarrow> material) \<Rightarrow> (shader \<Rightarrow> bool)
   \<Rightarrow> specialState \<Rightarrow> shape list option" where
  "runSpecialLoop C shaders pnMatrixMap buildSpecialMaterial shouldKeepShader st =
     (case stepSpecial C shaders pnMatrixMap buildSpecialMaterial shouldKeepShader st of
        None \<Rightarrow> None
      | Some (st', done) \<Rightarrow>
          if done then Some (ss_out st')
          else runSpecialLoop C shaders pnMatrixMap buildSpecialMaterial shouldKeepShader st')"
  by pat_completeness auto
termination
  by (relation "measure (\<lambda>(C, shaders, pn, mk, keep, st). bitsLeft (ss_bits st))")
     (auto dest: stepSpecial_left)

declare runSpecialLoop.simps [simp del]

definition runSpecialBitstreamMulti ::
  "loadCtx \<Rightarrow> shader list \<Rightarrow> nat list \<Rightarrow> nat \<Rightarrow> nat \<Rightarrow> (shader option \<Rightarrow> material) \<Rightarrow> vcd
   \<Rightarrow> (shader \<Rightarrow> bool) \<Rightarrow> shape list option" where
  "runSpecialBitstreamMulti C shaders pnMatrixMap bitsOffset bitAddress buildSpecialMaterial
      fallbackVcd shouldKeepShader =
     runSpecialLoop C shaders pnMatrixMap buildSpecialMaterial shouldKeepShader
       \<lparr> ss_bits = seekBit (newLowBitReader (c_data C) bitsOffset) bitAddress,
         ss_locShader = 0,
         ss_locMaterial = buildSpecialMaterial (shaderAt shaders 0),
         ss_locVcd = fallbackVcd,
         ss_out = [] \<rparr>"

section \<open>The main command stream\<close>

text \<open>
  The state of \<open>runBitstream\<close>: its reader, the shader list (the alpha-compare
  detection writes to the flags of the current shader), the current shader as an index,
  the material cache \<open>model.materials\<close>, \<open>curMaterial\<close>, \<open>vcd\<close>, the matrix map of
  \<open>loadModel\<close>, and the three output lists \<open>shapes[drawStep]\<close>, \<open>waters\<close> and
  \<open>furs\<close>.
\<close>

record interpState =
  st_bits :: lowBitReader
  st_shaders :: "shader list"
  st_curShader :: nat
  st_materials :: "(nat \<times> material) list"
  st_curMaterial :: material
  st_vcd :: vcd
  st_pnMatrixMap :: "nat list"
  st_shapes :: "shape list"
  st_waters :: "shape list"
  st_furs :: "(shape \<times> nat) list"

definition setShader :: "loadCtx \<Rightarrow> interpState \<Rightarrow> nat \<Rightarrow> interpState option" where
  "setShader C st num =
     (let cur = shaderAt (st_shaders st) num in
      case map_of (st_materials st) num of
        Some m \<Rightarrow> Some (st\<lparr> st_curShader := num, st_curMaterial := m \<rparr>)
      | None \<Rightarrow>
          map_option
            (\<lambda>m. st\<lparr> st_curShader := num, st_materials := (num, m) # st_materials st,
                      st_curMaterial := m \<rparr>)
            (if mf_isMapBlock (c_fields C) then
               (if c_usingDummyClr C then
                  (case cur of
                     None \<Rightarrow> None
                   | Some sh \<Rightarrow>
                       Some (MapMaterial
                               (Some (sh\<lparr> attrFlags := attrFlags sh AND NOT (CLR (c_AF C)) \<rparr>))))
                else Some (MapMaterial cur))
             else Some (ObjectMaterial cur (c_hasSkinning C))))"

text \<open>The scan for a BP write to register \<open>0xF3\<close>: \<open>for (i = 0; i + 4 < length; i++)\<close>.\<close>

definition dlHasAlphaCompare :: "dataview \<Rightarrow> bool" where
  "dlHasAlphaCompare dl =
     list_ex (\<lambda>i. dl ! i = 0x61 \<and> dl ! (i + 1) = 0xF3) [0..<length dl - 4]"

text \<open>The index of the dedicated water pass; \<open>None\<close> is the \<open>-1\<close> of the source.\<close>

definition waterStreamIndex :: "loadCtx \<Rightarrow> nat option" where
  "waterStreamIndex C =
     (let sfs = mf_shaderFields (c_fields C);
          isEarly1 = (c_versionEarly1 C \<or> sf_isEarly1 sfs);
          isEarly3 = (c_versionEarly3 C \<or> sf_isEarly3 sfs);
          isold = (c_versionEarly1 C \<or> sf_isold sfs);
          n = length (c_bitsOffsets C);
          twoOrLast = (if n \<ge> 3 \<and> c_bitsOffsets C ! 2 \<noteq> 0 then 2 else n - 1)
      in if isEarly1 \<and> n > 0 then Some twoOrLast
         else if isEarly3 \<and> n > 0 then Some (n - 1)
         else if isold \<and> n > 0 then Some twoOrLast
         else None)"

definition hasSpecial :: "displayListInfo \<Rightarrow> bool" where
  "hasSpecial dlInfo =
     (case specialBitAddress dlInfo of None \<Rightarrow> False | Some a \<Rightarrow> a \<noteq> 0)"

definition mkShape :: "shapeGeometry \<Rightarrow> material \<Rightarrow> bool \<Rightarrow> shape" where
  "mkShape geom m dev = \<lparr> s_geom = geom, s_material = m, s_isDevGeometry = dev \<rparr>"

text \<open>The shader filters handed to the special stream by the water and the fur path.\<close>

definition keepWater :: "shaderFlags \<Rightarrow> shader \<Rightarrow> bool" where
  "keepWater SF s = (flags s AND Water SF \<noteq> 0 \<and> \<not> (flags s AND Lava SF \<noteq> 0))"

definition furMask :: "shaderFlags \<Rightarrow> 32 word" where
  "furMask SF = ShortFur SF OR MediumFur SF OR LongFur SF"

definition keepFur :: "shaderFlags \<Rightarrow> shader \<Rightarrow> bool" where
  "keepFur SF s = (flags s AND furMask SF \<noteq> 0)"

text \<open>
  The water path of \<open>CallDL\<close>: first \<open>tryPushWaterFromSpecial\<close>, then the display
  list itself with the tuned descriptor. There is no \<open>try\<close> around either, so a failing
  geometry construction leaves \<open>runBitstream\<close>.
\<close>

definition waterPath ::
  "loadCtx \<Rightarrow> nat \<Rightarrow> interpState \<Rightarrow> shader \<Rightarrow> displayListInfo \<Rightarrow> interpState option" where
  "waterPath C bitsOffset st curShader dlInfo =
     (case (if hasSpecial dlInfo
            then runSpecialBitstreamMulti C (st_shaders st) (st_pnMatrixMap st) bitsOffset
                   (the (specialBitAddress dlInfo)) WaterMaterial (st_vcd st) (keepWater (c_SF C))
            else Some []) of
        None \<Rightarrow> None
      | Some ws \<Rightarrow>
          if ws \<noteq> [] then Some (st\<lparr> st_waters := st_waters st @ ws \<rparr>)
          else
            (case tuneVCDForDL (c_data C) (offset dlInfo) (size_dl dlInfo) (st_vcd st) (c_fields C) of
               None \<Rightarrow> None
             | Some tunedVcd \<Rightarrow>
                 (case newShapeGeometry C tunedVcd (offset dlInfo) (size_dl dlInfo)
                         (st_pnMatrixMap st) (c_hasSkinning C) dlInfo of
                    None \<Rightarrow> None
                  | Some geom \<Rightarrow>
                      Some (st\<lparr> st_waters := st_waters st
                               @ [mkShape geom (WaterMaterial (Some curShader)) False] \<rparr>))))"

text \<open>
  The guard for tiny display lists. It recomputes the index and direct widths of the
  tuned descriptor with the same expressions as \<open>vcdIndexBytes\<close> and
  \<open>vcdDirectBytes\<close>; its reads are inside a \<open>try\<close> whose \<open>catch\<close> is empty.
\<close>

definition tinyDlSkip :: "dataview \<Rightarrow> displayListInfo \<Rightarrow> vcd \<Rightarrow> bool" where
  "tinyDlSkip data dlInfo tunedVcd =
     (case getUint8 data (offset dlInfo) of
        None \<Rightarrow> False
      | Some prim \<Rightarrow>
          (case getUint16 data (offset dlInfo + 1) of
             None \<Rightarrow> False
           | Some cnt \<Rightarrow>
               isDrawOpcode prim \<and> cnt > 0
               \<and> 3 + cnt * (vcdIndexBytes tunedVcd + vcdDirectBytes tunedVcd) > size_dl dlInfo))"

text \<open>
  The retries of the \<open>catch\<close> block of the primary attempt, each with a \<open>try\<close> of its
  own: the alternative strides (built from \<open>vcd\<close>, not from the tuned descriptor), the
  list without its first \<open>0x20\<close> bytes, the descriptor without the position-matrix
  index, and the last two together.
\<close>

fun altStrideRetry ::
  "loadCtx \<Rightarrow> interpState \<Rightarrow> displayListInfo \<Rightarrow> nat list \<Rightarrow> shapeGeometry option" where
  "altStrideRetry C st dlInfo [] = None"
| "altStrideRetry C st dlInfo (s # ss) =
     (let vcdAlt = forceVCDStrideTo (st_vcd st) s;
          curIdx = vcdIndexBytes vcdAlt + vcdDirectBytes vcdAlt
      in if curIdx \<noteq> s then altStrideRetry C st dlInfo ss
         else case newShapeGeometry C vcdAlt (offset dlInfo) (size_dl dlInfo)
                     (st_pnMatrixMap st) (c_hasSkinning C) dlInfo of
                Some geomAlt \<Rightarrow> Some geomAlt
              | None \<Rightarrow> altStrideRetry C st dlInfo ss)"

definition retryNoMatrixIndex ::
  "loadCtx \<Rightarrow> interpState \<Rightarrow> displayListInfo \<Rightarrow> vcd \<Rightarrow> shapeGeometry option" where
  "retryNoMatrixIndex C st dlInfo tunedVcd =
     (if vcdGet tunedVcd GX_PNMTXIDX = Some DIRECT then
        (let vcdRetry = vcdSet tunedVcd GX_PNMTXIDX NONE in
         case newShapeGeometry C vcdRetry (offset dlInfo) (size_dl dlInfo)
                (st_pnMatrixMap st) False dlInfo of
           Some geom \<Rightarrow> Some geom
         | None \<Rightarrow>
             if size_dl dlInfo > 0x20
             then newShapeGeometry C vcdRetry (offset dlInfo + 0x20) (size_dl dlInfo - 0x20)
                    (st_pnMatrixMap st) False dlInfo
             else None)
      else None)"

definition retrySkipHeader ::
  "loadCtx \<Rightarrow> interpState \<Rightarrow> displayListInfo \<Rightarrow> vcd \<Rightarrow> shapeGeometry option" where
  "retrySkipHeader C st dlInfo tunedVcd =
     (if size_dl dlInfo > 0x20
      then newShapeGeometry C tunedVcd (offset dlInfo + 0x20) (size_dl dlInfo - 0x20)
             (st_pnMatrixMap st) (c_hasSkinning C) dlInfo
      else None)"

text \<open>
  The primary attempt and its retries. The second component tells whether control
  reaches the fur path afterwards: a successful retry leaves the \<open>switch\<close> with
  \<open>break\<close>; the primary attempt, and the case where every attempt failed, fall through
  to the fur path.
\<close>

definition decodeAttempts ::
  "loadCtx \<Rightarrow> interpState \<Rightarrow> displayListInfo \<Rightarrow> vcd \<Rightarrow> (shapeGeometry option \<times> bool) option" where
  "decodeAttempts C st dlInfo tunedVcd =
     (case newShapeGeometry C tunedVcd (offset dlInfo) (size_dl dlInfo)
             (st_pnMatrixMap st) (c_hasSkinning C) dlInfo of
        Some geom \<Rightarrow> Some (Some geom, True)
      | None \<Rightarrow>
          (case scanStrideCandidates (c_data C) (offset dlInfo) (size_dl dlInfo) of
             None \<Rightarrow> None
           | Some altSeq \<Rightarrow>
               (case altStrideRetry C st dlInfo altSeq of
                  Some geomAlt \<Rightarrow> Some (Some geomAlt, False)
                | None \<Rightarrow>
                    (case retrySkipHeader C st dlInfo tunedVcd of
                       Some geom2 \<Rightarrow> Some (Some geom2, False)
                     | None \<Rightarrow>
                         (case retryNoMatrixIndex C st dlInfo tunedVcd of
                            Some geom3 \<Rightarrow> Some (Some geom3, False)
                          | None \<Rightarrow> Some (None, True))))))"

text \<open>The fur path: the layer count and the recording of the first fur shape.\<close>

definition furLayers :: "shaderFlags \<Rightarrow> shader \<Rightarrow> nat" where
  "furLayers SF s =
     (if flags s AND LongFur SF \<noteq> 0 then 16 else if flags s AND MediumFur SF \<noteq> 0 then 8 else 4)"

definition furPath ::
  "loadCtx \<Rightarrow> nat \<Rightarrow> nat \<Rightarrow> interpState \<Rightarrow> shader \<Rightarrow> displayListInfo \<Rightarrow> interpState option" where
  "furPath C drawStep bitsOffset st curShader dlInfo =
     (if drawStep = 0 \<and> flags curShader AND furMask (c_SF C) \<noteq> 0 \<and> hasSpecial dlInfo then
        (case runSpecialBitstreamMulti C (st_shaders st) (st_pnMatrixMap st) bitsOffset
                (the (specialBitAddress dlInfo)) FurMaterial (st_vcd st) (keepFur (c_SF C)) of
           None \<Rightarrow> None
         | Some furShapes \<Rightarrow>
             (case furShapes of
                [] \<Rightarrow> Some st
              | firstFur # rest \<Rightarrow>
                  Some (st\<lparr> st_furs := st_furs st @ [(firstFur, furLayers (c_SF C) curShader)] \<rparr>)))
      else Some st)"

text \<open>
  The normal geometry path of \<open>CallDL\<close>, from \<open>materialForDL\<close> to the end of the
  \<open>try\<close> statement of the primary attempt: the state with the shape pushed on
  \<open>shapes[drawStep]\<close>, if an attempt succeeded, and whether control reaches the fur path
  next. The guard for tiny lists and a successful retry leave the \<open>switch\<close>. A shape
  pushed here stays on the list of the pass whatever the fur path does afterwards.
\<close>

definition normalPathPush ::
  "loadCtx \<Rightarrow> interpState \<Rightarrow> shader \<Rightarrow> displayListInfo \<Rightarrow> dataview
   \<Rightarrow> (interpState \<times> bool) option" where
  "normalPathPush C st curShader dlInfo displayList =
     (let hasAlpha = (flags curShader AND AlphaCompare (c_SF C) \<noteq> 0);
          materialForDL =
            (if sf_isEarly3 (mf_shaderFields (c_fields C)) \<and> \<not> hasAlpha
                \<and> dlHasAlphaCompare displayList
             then (let cloned = curShader\<lparr> flags := flags curShader OR AlphaCompare (c_SF C) \<rparr>
                   in if mf_isMapBlock (c_fields C) then MapMaterial (Some cloned)
                      else ObjectMaterial (Some cloned)
                             (mf_hasBones (c_fields C) \<and> c_jointCount C \<ge> 2))
             else st_curMaterial st)
      in case tuneVCDForDL (c_data C) (offset dlInfo) (size_dl dlInfo) (st_vcd st) (c_fields C) of
           None \<Rightarrow> None
         | Some tunedVcd \<Rightarrow>
             if tinyDlSkip (c_data C) dlInfo tunedVcd then Some (st, False)
             else
               (case decodeAttempts C st dlInfo tunedVcd of
                  None \<Rightarrow> None
                | Some (result, reachesFur) \<Rightarrow>
                    Some (case result of
                            None \<Rightarrow> st
                          | Some geom \<Rightarrow>
                              st\<lparr> st_shapes := st_shapes st
                                    @ [mkShape geom materialForDL
                                         (flags curShader AND DevGeometry (c_SF C) \<noteq> 0)] \<rparr>,
                          reachesFur)))"

text \<open>The normal geometry path of \<open>CallDL\<close>: the attempts, then the fur path.\<close>

definition normalPath ::
  "loadCtx \<Rightarrow> nat \<Rightarrow> nat \<Rightarrow> interpState \<Rightarrow> shader \<Rightarrow> displayListInfo \<Rightarrow> dataview
   \<Rightarrow> interpState option" where
  "normalPath C drawStep bitsOffset st curShader dlInfo displayList =
     (case normalPathPush C st curShader dlInfo displayList of
        None \<Rightarrow> None
      | Some (st', reachesFur) \<Rightarrow>
          if reachesFur then furPath C drawStep bitsOffset st' curShader dlInfo else Some st')"

text \<open>
  The \<open>CallDL\<close> case after the list number has been read. The code between the
  window and the alpha-compare detection only builds strings for logging and is
  omitted.
\<close>

definition callDL :: "loadCtx \<Rightarrow> nat \<Rightarrow> nat \<Rightarrow> interpState \<Rightarrow> nat \<Rightarrow> interpState option" where
  "callDL C drawStep bitsOffset st listNum =
     (if listNum \<ge> length (c_dlInfos C) then Some st
      else
        (let dlInfo = c_dlInfos C ! listNum in
         if offset dlInfo = 0 \<or> size_dl dlInfo = 0
            \<or> offset dlInfo + size_dl dlInfo > length (c_data C)
         then Some st
         else
           (case dataSubarrayLen (c_data C) (offset dlInfo) (size_dl dlInfo) of
              None \<Rightarrow> None
            | Some displayList \<Rightarrow>
                (case shaderAt (st_shaders st) (st_curShader st) of
                   None \<Rightarrow> None
                 | Some sh0 \<Rightarrow>
                     (let sfs = mf_shaderFields (c_fields C);
                          detect = ((sf_isEarly1 sfs \<or> sf_isEarly3 sfs)
                                    \<and> \<not> (flags sh0 AND AlphaCompare (c_SF C) \<noteq> 0)
                                    \<and> dlHasAlphaCompare displayList);
                          curShader = (if detect
                                       then sh0\<lparr> flags := flags sh0 OR AlphaCompare (c_SF C) \<rparr>
                                       else sh0);
                          st1 = st\<lparr> st_shaders := (st_shaders st)[st_curShader st := curShader] \<rparr>;
                          shaderSaysWater = (flags curShader AND Water (c_SF C) \<noteq> 0);
                          shaderSaysLava = (flags curShader AND Lava (c_SF C) \<noteq> 0);
                          isDedicatedWaterPass = (mf_isMapBlock (c_fields C)
                                                  \<and> waterStreamIndex C = Some drawStep)
                      in if \<not> shaderSaysLava \<and> (shaderSaysWater \<or> isDedicatedWaterPass)
                         then waterPath C bitsOffset st1 curShader dlInfo
                         else normalPath C drawStep bitsOffset st1 curShader dlInfo displayList)))))"

text \<open>The loop \<open>for (i = 0; i < numBones; i++) pnMatrixMap[i] = bits.get(8)\<close>.\<close>

fun readPnMatrices :: "lowBitReader \<Rightarrow> nat list \<Rightarrow> nat \<Rightarrow> nat \<Rightarrow> (nat list \<times> lowBitReader) option" where
  "readPnMatrices bits pnMatrixMap i 0 = Some (pnMatrixMap, bits)"
| "readPnMatrices bits pnMatrixMap i (Suc n) =
     (case getBits bits 8 of
        None \<Rightarrow> None
      | Some (x, bits') \<Rightarrow> readPnMatrices bits' (pnMatrixMap[i := x]) (Suc i) n)"

text \<open>
  One iteration of the \<open>while (!done)\<close> loop of \<open>runBitstream\<close>: the new state and
  the value of \<open>done\<close>. The \<open>default\<close> case is a bare \<open>break\<close> of the \<open>switch\<close>.
\<close>

definition stepMain :: "loadCtx \<Rightarrow> nat \<Rightarrow> nat \<Rightarrow> interpState \<Rightarrow> (interpState \<times> bool) option" where
  "stepMain C drawStep bitsOffset st =
     (case getBits (st_bits st) 4 of
        None \<Rightarrow> None
      | Some (opcode, b1) \<Rightarrow>
          if opcode = 1 then
            (case getBits b1 6 of
               None \<Rightarrow> None
             | Some (shaderNum, b2) \<Rightarrow>
                 map_option (\<lambda>s. (s, False)) (setShader C (st\<lparr> st_bits := b2 \<rparr>) shaderNum))
          else if opcode = 2 then
            (case getBits b1 (mf_numListBits (c_fields C)) of
               None \<Rightarrow> None
             | Some (listNum, b2) \<Rightarrow>
                 map_option (\<lambda>s. (s, False))
                   (callDL C drawStep bitsOffset (st\<lparr> st_bits := b2 \<rparr>) listNum))
          else if opcode = 3 then
            (case readVertexDesc C b1 (shaderAt (st_shaders st) (st_curShader st)) of
               None \<Rightarrow> None
             | Some (v, b2) \<Rightarrow> Some (st\<lparr> st_bits := b2, st_vcd := v \<rparr>, False))
          else if opcode = 4 then
            (case getBits b1 4 of
               None \<Rightarrow> None
             | Some (numBones, b2) \<Rightarrow>
                 if numBones > 10 then None
                 else (case readPnMatrices b2 (st_pnMatrixMap st) 0 numBones of
                         None \<Rightarrow> None
                       | Some (pn, b3) \<Rightarrow>
                           Some (st\<lparr> st_bits := b3, st_pnMatrixMap := pn \<rparr>, False)))
          else if opcode = 5 then Some (st\<lparr> st_bits := b1 \<rparr>, True)
          else Some (st\<lparr> st_bits := b1 \<rparr>, False))"

lemma setShader_bits: "setShader C st num = Some st' \<Longrightarrow> st_bits st' = st_bits st"
  by (auto simp: setShader_def Let_def split: option.splits if_splits)

lemma waterPath_bits: "waterPath C bo st sh dlInfo = Some st' \<Longrightarrow> st_bits st' = st_bits st"
  by (auto simp: waterPath_def split: option.splits if_splits)

lemma furPath_bits: "furPath C ds bo st sh dlInfo = Some st' \<Longrightarrow> st_bits st' = st_bits st"
  by (auto simp: furPath_def split: option.splits if_splits list.splits)

lemma normalPathPush_bits:
  "normalPathPush C st sh dlInfo dl = Some (st', r) \<Longrightarrow> st_bits st' = st_bits st"
  by (auto simp: normalPathPush_def Let_def split: option.splits if_splits)

lemma normalPath_bits:
  "normalPath C ds bo st sh dlInfo dl = Some st' \<Longrightarrow> st_bits st' = st_bits st"
  by (auto simp: normalPath_def split: option.splits if_splits
      dest!: furPath_bits normalPathPush_bits)

lemma callDL_bits: "callDL C ds bo st listNum = Some st' \<Longrightarrow> st_bits st' = st_bits st"
  by (auto simp: callDL_def Let_def split: option.splits if_splits
      dest!: waterPath_bits normalPath_bits)

lemma readPnMatrices_left:
  "readPnMatrices bits pn i n = Some (pn', bits') \<Longrightarrow> bitsLeft bits' \<le> bitsLeft bits"
proof (induction n arbitrary: bits pn i)
  case 0
  then show ?case by simp
next
  case (Suc n)
  then show ?case
    by (auto split: option.splits dest!: getBits_left) fastforce
qed

lemma stepMain_left:
  assumes "stepMain C ds bo st = Some (st', d)"
  shows "bitsLeft (st_bits st') < bitsLeft (st_bits st)"
proof -
  from assms obtain opc b1 where g: "getBits (st_bits st) 4 = Some (opc, b1)"
    by (auto simp: stepMain_def split: option.splits)
  have l1: "bitsLeft b1 < bitsLeft (st_bits st)" using getBits_left[OF g] by simp
  have "bitsLeft (st_bits st') \<le> bitsLeft b1"
    using assms g
    by (auto simp: stepMain_def split: if_splits option.splits
        dest!: getBits_left readVertexDesc_left readPnMatrices_left setShader_bits callDL_bits)
  with l1 show ?thesis by simp
qed

function runLoop :: "loadCtx \<Rightarrow> nat \<Rightarrow> nat \<Rightarrow> interpState \<Rightarrow> interpState option" where
  "runLoop C drawStep bitsOffset st =
     (case stepMain C drawStep bitsOffset st of
        None \<Rightarrow> None
      | Some (st', done) \<Rightarrow> if done then Some st' else runLoop C drawStep bitsOffset st')"
  by pat_completeness auto
termination
  by (relation "measure (\<lambda>(C, ds, bo, st). bitsLeft (st_bits st))") (auto dest: stepMain_left)

declare runLoop.simps [simp del]

text \<open>
  \<open>runBitstream\<close>: the shape list of the pass is emptied, a zero \<open>bitsOffset\<close> returns
  at once, otherwise shader 0 is selected and the loop runs on a fresh reader.
\<close>

definition runBitstream :: "loadCtx \<Rightarrow> nat \<Rightarrow> nat \<Rightarrow> interpState \<Rightarrow> interpState option" where
  "runBitstream C drawStep bitsOffset st =
     (let st0 = st\<lparr> st_shapes := [] \<rparr> in
      if bitsOffset = 0 then Some st0
      else case setShader C st0 0 of
             None \<Rightarrow> None
           | Some st1 \<Rightarrow>
               runLoop C drawStep bitsOffset
                 (st1\<lparr> st_bits := newLowBitReader (c_data C) bitsOffset, st_vcd := [] \<rparr>))"

text \<open>The entry of \<open>FIELDS\<close> for the version FinalMap.\<close>

definition FIELDS_FinalMap :: modelFields where
  "FIELDS_FinalMap = \<lparr> mf_isBeta = False, mf_isMapBlock = True, mf_hasNormals = False,
     mf_hasBones = False, mf_oldVat = False, mf_shaderFields = SFA_SHADER_FIELDS,
     mf_dlOffsets = 0, mf_dlSizes = 0, mf_dlInfoOffset = 0x68, mf_dlInfoCount = 0xa1,
     mf_dlInfoSize = 0x1c, mf_numListBits = 8 \<rparr>"


text \<open>
  A table of flag values for evaluating the model at concrete inputs: every member a single
  bit, as the bit names \<open>Early1Bits\<close> and \<open>Early3Bits\<close> of materialloader.ts hint for
  the members they mirror.
\<close>

definition stdShaderFlags :: shaderFlags where
  "stdShaderFlags = \<lparr> DevGeometry = 0x2, Fog = 0x4, CullBackface = 0x8, ReflectSkyscape = 0x20,
     Caustic = 0x40, Lava = 0x80, Reflective = 0x100, AlphaCompare = 0x400, ShortFur = 0x4000,
     MediumFur = 0x8000, LongFur = 0x10000, Water = 0x80000000 \<rparr>"

definition stdShaderAttrFlags :: shaderAttrFlags where
  "stdShaderAttrFlags = \<lparr> NRM = 0x1, CLR = 0x2, TEX0 = None, TEX1 = None \<rparr>"


section \<open>The module-level tables and their per-model copies (loadModel)\<close>


text \<open>
  The store is the list of the objects allocated so far; an address is an index into
  it, and an allocation appends. A value is \<open>undefined\<close>, a boolean, a number, or a
  reference to an object. An object is a plain object, with its properties in insertion
  order, or an array, with its elements and its named properties.
\<close>

type_synonym addr = nat

datatype jsval = VUndef | VBool bool | VNum nat | VRef addr

datatype obj =
    Props "(string \<times> jsval) list"
  | Arr "jsval list" "(string \<times> jsval) list"

type_synonym store = "obj list"


text \<open>An object literal, an array literal.\<close>

definition alloc :: "store \<Rightarrow> obj \<Rightarrow> store \<times> jsval" where
  "alloc h x = (h @ [x], VRef (length h))"





















section \<open>Properties of the shader parser\<close>

text \<open>
  The Lava member shares no bit with the other members the legacy branches write, nor
  with the two literal bits 0x0800 and 0x1000 of the oldest branch.
\<close>

definition lavaDisjoint :: "shaderFlags \<Rightarrow> bool" where
  "lavaDisjoint SF =
     (CullBackface SF AND Lava SF = 0 \<and> AlphaCompare SF AND Lava SF = 0
      \<and> Water SF AND Lava SF = 0 \<and> ReflectSkyscape SF AND Lava SF = 0
      \<and> ShortFur SF AND Lava SF = 0 \<and> MediumFur SF AND Lava SF = 0
      \<and> DevGeometry SF AND Lava SF = 0 \<and> Fog SF AND Lava SF = 0
      \<and> Caustic SF AND Lava SF = 0 \<and> Reflective SF AND Lava SF = 0
      \<and> 0x0800 AND Lava SF = 0 \<and> 0x1000 AND Lava SF = 0)"

definition legacyFamily :: "shaderFields \<Rightarrow> bool" where
  "legacyFamily flds = (sf_isAncient flds \<or> sf_isSwapcircle flds \<or> sf_isBeta flds)"

definition parsedWaterAndLava ::
  "shaderFlags \<Rightarrow> shaderAttrFlags \<Rightarrow> dataview \<Rightarrow> shaderFields \<Rightarrow> nat list \<Rightarrow> nat \<Rightarrow> nat \<Rightarrow> nat \<Rightarrow> bool" where
  "parsedWaterAndLava SF AF data flds ids nf lf tm =
     (case parseShader SF AF data flds ids nf lf tm of
        None \<Rightarrow> False
      | Some sh \<Rightarrow> hasFlag sh (Water SF) \<and> hasFlag sh (Lava SF))"

text \<open>
  A record of the final family (0x44 bytes) whose flags word at 0x3c is 0x80000080, and a
  Swapcircle record (0x38 bytes) with one layer: texture index 0, blend mode 2.
\<close>

definition finalRecordWaterLava :: dataview where
  "finalRecordWaterLava =
     [0,0,0,0,0,0,0,0,0,0,0,0,0,0,0,0, 0,0,0,0,0,0,0,0,0,0,0,0,0,0,0,0,
      0,0,0,0,0,0,0,0,0,0,0,0,0,0,0,0, 0,0,0,0,0,0,0,0,0,0,0,0,0x80,0,0,0x80,
      0,0,0,0]"

definition swapcircleLavaRecord :: dataview where
  "swapcircleLavaRecord =
     [0,0,0,0,0,0,0,0,0,0,0,0,0,0,0,0, 0,0,0,0,0,0,0,0,0,0,0,0,0,0,0,0,
      0,0,0,0,2,0,0,0,0,0,0,0,0,0,0,0, 0,0,0,0,0,0,1,0]"

lemma orIf_free: "w AND L = 0 \<Longrightarrow> b AND L = 0 \<Longrightarrow> orIf c b w AND L = (0::32 word)"
  by (simp add: orIf_def word_ao_dist)

lemma or_free: "w AND L = 0 \<Longrightarrow> b AND L = 0 \<Longrightarrow> (w OR b) AND L = (0::32 word)"
  by (simp add: word_ao_dist)

lemma andnot_free: "w AND L = 0 \<Longrightarrow> (w AND NOT m) AND L = (0::32 word)"
  by (metis (no_types, lifting) and.assoc and.commute and_zero_eq)

lemma cleared: "((w OR l) AND NOT m) AND m = (0::32 word)"
  by (simp add: and.assoc)

lemma ancient_excl:
  assumes "lavaDisjoint SF" "parseShader_ancient SF AF data sh = Some sh'"
  shows "flags sh' AND Lava SF = 0"
  using assms
  by (auto simp: parseShader_ancient_def lavaDisjoint_def Let_def orIf_free
      split: Option.bind_splits)

lemma swap_excl:
  assumes "lavaDisjoint SF" "parseShader_swapcircle SF AF data sh = Some sh'"
  shows "flags sh' AND Lava SF = 0 \<or> flags sh' AND Water SF = 0"
  using assms
  by (auto simp: parseShader_swapcircle_def lavaDisjoint_def Let_def orIf_free or_free cleared
      split: Option.bind_splits)

lemma old_excl:
  assumes "lavaDisjoint SF" "parseShader_old SF AF data sh = Some sh'"
  shows "flags sh' AND Lava SF = 0 \<or> flags sh' AND Water SF = 0"
  using assms
  by (auto simp: parseShader_old_def lavaDisjoint_def Let_def orIf_free or_free cleared
      split: Option.bind_splits)

lemma early1_excl:
  assumes "lavaDisjoint SF" "parseShader_early1 SF AF data sh = Some sh'"
  shows "flags sh' AND Lava SF = 0"
  using assms
  by (auto simp: parseShader_early1_def translateEarly1Flags_def lavaDisjoint_def Let_def
        orIf_free andnot_free split: Option.bind_splits)

lemma readProbeFields_flags:
  "readProbeFields data ids sh = Some sh' \<Longrightarrow> flags sh' = flags sh"
  by (auto simp: readProbeFields_def split: Option.bind_splits)

lemma early3_excl:
  assumes "lavaDisjoint SF" "parseShader_early3 SF AF data ids sh = Some sh'"
  shows "flags sh' AND Lava SF = 0"
  using assms
  by (auto simp: parseShader_early3_def translateEarly3Flags_def lavaDisjoint_def Let_def orIf_free
       dest!: readProbeFields_flags split: Option.bind_splits)

lemma parseShader_cases:
  assumes "parseShader SF AF data flds ids nf lf tm = Some sh"
  shows "\<exists>sh0. (sf_isAncient flds \<and> parseShader_ancient SF AF data sh0 = Some sh)
     \<or> (sf_isSwapcircle flds \<and> parseShader_swapcircle SF AF data sh0 = Some sh)
     \<or> (sf_isBeta flds \<and> parseShader_old SF AF data sh0 = Some sh)
     \<or> (sf_isBeta flds \<and> parseShader_early1 SF AF data sh0 = Some sh)
     \<or> (sf_isBeta flds \<and> parseShader_early3 SF AF data ids sh0 = Some sh)
     \<or> (sf_isBeta flds \<and> flags sh = CullBackface SF)
     \<or> (\<not> sf_isAncient flds \<and> \<not> sf_isSwapcircle flds \<and> \<not> sf_isBeta flds
          \<and> parseShader_final data ids sh0 = Some sh)"
  using assms
  by (auto simp: parseShader_def Let_def split: Option.bind_splits if_splits)

text \<open>
  C1, as the code has it. A shader parsed by one of the legacy branches (the layout says
  isAncient, isSwapcircle or isBeta) never has the Water and the Lava flag together,
  whatever the bytes of the record: the branches that set Lava clear Water, and the
  others never set Lava.
\<close>

theorem parseShader_legacy_water_lava_exclusive:
  assumes "lavaDisjoint SF" and "legacyFamily flds"
  shows "\<not> parsedWaterAndLava SF AF data flds ids nf lf tm"
proof -
  have "flags sh AND Lava SF = 0 \<or> flags sh AND Water SF = 0"
    if P: "parseShader SF AF data flds ids nf lf tm = Some sh" for sh
  proof -
    from parseShader_cases[OF P] obtain sh0 where
      C: "parseShader_ancient SF AF data sh0 = Some sh
     \<or> parseShader_swapcircle SF AF data sh0 = Some sh
     \<or> parseShader_old SF AF data sh0 = Some sh
     \<or> parseShader_early1 SF AF data sh0 = Some sh
     \<or> parseShader_early3 SF AF data ids sh0 = Some sh
     \<or> flags sh = CullBackface SF"
      using assms(2) unfolding legacyFamily_def by blast
    have "flags sh = CullBackface SF \<Longrightarrow> flags sh AND Lava SF = 0"
      using assms(1) by (simp add: lavaDisjoint_def)
    with C show ?thesis
      by (elim disjE)
         (simp_all add: ancient_excl[OF assms(1)] swap_excl[OF assms(1)] old_excl[OF assms(1)]
            early1_excl[OF assms(1)] early3_excl[OF assms(1)])
  qed
  then show ?thesis
    by (auto simp: parsedWaterAndLava_def hasFlag_def split: option.splits)
qed

lemmas shader_eval_defs =
  parseShader_def getUint8_def getUint16_def getUint32_def dataSubarray_def
  parseShaderLayer_def parseModelTexId_def initShader_def hasFlag_def
  stdShaderFlags_def stdShaderAttrFlags_def layerTex_def layerTev7_def texIn_def orIf_def
  deriveAttr_def ATTR_CLR_def ATTR_TEX0_def ATTR_TEX1_def

text \<open>
  The Swapcircle record whose only layer carries lava texture 584 with blend mode 2: the
  water heuristic fires, then the lava test sets Lava and clears Water. The parsed flags
  are CullBackface and Lava.
\<close>

theorem parseShader_legacy_water_lava_exclusive_witness:
  "lavaDisjoint stdShaderFlags \<and> legacyFamily BETA_MAP_SHADER_FIELDS
   \<and> map_option flags (parseShader stdShaderFlags stdShaderAttrFlags swapcircleLavaRecord
        BETA_MAP_SHADER_FIELDS [584] 0 0 0) = Some 0x88
   \<and> \<not> parsedWaterAndLava stdShaderFlags stdShaderAttrFlags swapcircleLavaRecord
        BETA_MAP_SHADER_FIELDS [584] 0 0 0"
proof -
  have d: "lavaDisjoint stdShaderFlags"
    by (simp add: lavaDisjoint_def stdShaderFlags_def)
  have l: "legacyFamily BETA_MAP_SHADER_FIELDS"
    by (simp add: legacyFamily_def BETA_MAP_SHADER_FIELDS_def)
  have e: "map_option flags (parseShader stdShaderFlags stdShaderAttrFlags swapcircleLavaRecord
        BETA_MAP_SHADER_FIELDS [584] 0 0 0) = Some 0x88"
    by (simp add: shader_eval_defs swapcircleLavaRecord_def BETA_MAP_SHADER_FIELDS_def
        parseShader_swapcircle_def KNOWN_WATER_TEXIDS_def KNOWN_CUTOUT_TEXIDS_BETA_def
        KNOWN_CUTOUT_TEXIDS_ANCIENT_def KNOWN_CUTOUT_TEXIDS_EARLY1_def)
  from d l e parseShader_legacy_water_lava_exclusive [OF d l] show ?thesis
    by blast
qed

text \<open>
  C1 as stated fails in the final family: the flags word is copied from the record
  (\<open>shader.flags = data.getUint32(0x3c)\<close>), so a record with both bits set parses to a
  shader with both flags.
\<close>

theorem parseShader_final_water_and_lava:
  "parsedWaterAndLava stdShaderFlags stdShaderAttrFlags finalRecordWaterLava
     SFA_SHADER_FIELDS [] 0 0 0"
  by (simp add: parsedWaterAndLava_def shader_eval_defs finalRecordWaterLava_def
      SFA_SHADER_FIELDS_def parseShader_final_def readProbeFields_def)


section \<open>Properties of the stride-forcing rebuild\<close>

text \<open>
  The width of a descriptor is what the code compares with the target:
  \<open>vcdIndexBytes + vcdDirectBytes\<close>. The matrix-index slots are the position-matrix
  slot and the eight texture-matrix slots.
\<close>

definition texDirect :: "vcd \<Rightarrow> nat set" where
  "texDirect v = {i. i < 8 \<and> vcdGet v (GX_TEX0MTXIDX + i) = Some DIRECT}"

definition vcdWidth :: "vcd \<Rightarrow> nat" where
  "vcdWidth v = vcdIndexBytes v + vcdDirectBytes v"

definition isMtxIdxSlot :: "nat \<Rightarrow> bool" where
  "isMtxIdxSlot a = (a = GX_PNMTXIDX \<or> (GX_TEX0MTXIDX \<le> a \<and> a < GX_TEX0MTXIDX + 8))"

definition noTexMtxDirect :: "vcd \<Rightarrow> bool" where
  "noTexMtxDirect v = list_all (\<lambda>i. vcdGet v (GX_TEX0MTXIDX + i) \<noteq> Some DIRECT) [0..<8]"

definition allTexMtxDirect :: "vcd \<Rightarrow> bool" where
  "allTexMtxDirect v = list_all (\<lambda>i. vcdGet v (GX_TEX0MTXIDX + i) = Some DIRECT) [0..<8]"

definition prefersTexSlots :: "vcd \<Rightarrow> vcd \<Rightarrow> bool" where
  "prefersTexSlots vin vout =
     ((vcdGet vin GX_PNMTXIDX \<noteq> Some DIRECT \<and> vcdGet vout GX_PNMTXIDX = Some DIRECT
         \<longrightarrow> allTexMtxDirect vout)
      \<and> (vcdGet vin GX_PNMTXIDX = Some DIRECT \<and> vcdGet vout GX_PNMTXIDX \<noteq> Some DIRECT
         \<longrightarrow> noTexMtxDirect vout))"

definition skinnedVcd :: vcd where
  "skinnedVcd = [Some DIRECT, Some NONE, Some NONE, Some NONE, Some NONE, Some NONE, Some NONE,
     Some NONE, Some DIRECT, Some INDEX16, Some INDEX8, Some NONE, Some NONE, Some NONE,
     Some NONE, Some NONE, Some NONE, Some NONE, Some NONE, Some NONE, Some NONE]"

definition plainVcd :: vcd where
  "plainVcd = [Some NONE, Some NONE, Some NONE, Some NONE, Some NONE, Some NONE, Some NONE,
     Some NONE, Some NONE, Some INDEX8, Some NONE, Some NONE, Some NONE, Some NONE,
     Some NONE, Some NONE, Some NONE, Some NONE, Some NONE, Some NONE, Some NONE]"

lemma vcdClone_id [simp]: "vcdClone v = v"
  unfolding vcdClone_def by (induction v) (auto split: option.splits)

lemma vcdGet_vcdSet: "vcdGet (vcdSet v a t) b = (if b = a then Some t else vcdGet v b)"
  by (auto simp: vcdGet_def vcdSet_def nth_append)

lemma sum_list_directAt: "(\<Sum>i\<leftarrow>[0..<n]. directAt v (GX_TEX0MTXIDX + i)) = card {i. i < n \<and> vcdGet v (GX_TEX0MTXIDX + i) = Some DIRECT}"
proof (induction n)
  case 0 then show ?case by simp
next
  case (Suc n)
  have *: "{i. i < Suc n \<and> P i} = (if P n then insert n {i. i < n \<and> P i} else {i. i < n \<and> P i})" for P
    by (auto simp: less_Suc_eq)
  show ?case using Suc by (simp add: * directAt_def)
qed

lemma vcdDirectBytes_card: "vcdDirectBytes v = directAt v GX_PNMTXIDX + card (texDirect v)"
  by (simp add: vcdDirectBytes_def sum_list_directAt texDirect_def)

lemma texDirect_set_tex:
  "i < 8 \<Longrightarrow> texDirect (vcdSet v (GX_TEX0MTXIDX + i) DIRECT) = insert i (texDirect v)"
  by (auto simp: texDirect_def vcdGet_vcdSet)

lemma texDirect_clear_tex:
  "texDirect (vcdSet v (GX_TEX0MTXIDX + i) NONE) = texDirect v - {i}"
  by (auto simp: texDirect_def vcdGet_vcdSet)

lemma texDirect_set_pn: "texDirect (vcdSet v GX_PNMTXIDX t) = texDirect v"
  by (auto simp: texDirect_def vcdGet_vcdSet GX_PNMTXIDX_def GX_TEX0MTXIDX_def)

lemma finite_texDirect [simp]: "finite (texDirect v)"
  by (simp add: texDirect_def)

lemma card_texDirect_le: "card (texDirect v) \<le> 8"
proof -
  have "texDirect v \<subseteq> {..<8}" by (auto simp: texDirect_def)
  then have "card (texDirect v) \<le> card {..<8::nat}" by (intro card_mono) auto
  then show ?thesis by simp
qed

lemma widen_frame:
  "a \<notin> (\<lambda>i. GX_TEX0MTXIDX + i) ` set is \<Longrightarrow> vcdGet (widenTexMtx is v need) a = vcdGet v a"
  by (induction "is" v need rule: widenTexMtx.induct) (auto simp: vcdGet_vcdSet)

lemma widen_count:
  "distinct is \<Longrightarrow> set is \<subseteq> {..<8} \<Longrightarrow>
   card (texDirect (widenTexMtx is v need)) =
     card (texDirect v) + min need (card (set is - texDirect v))"
proof (induction "is" v need rule: widenTexMtx.induct)
  case (1 v need)
  then show ?case by simp
next
  case (2 i rest v need)
  show ?case
  proof (cases "need > 0")
    case False
    then show ?thesis by simp
  next
    case True
    have i8: "i < 8" and ir: "i \<notin> set rest" and dr: "distinct rest" and sr: "set rest \<subseteq> {..<8}"
      using 2(3,4) by auto
    show ?thesis
    proof (cases "vcdGet v (GX_TEX0MTXIDX + i) \<noteq> Some DIRECT")
      case nd: True
      then have ni: "i \<notin> texDirect v" by (simp add: texDirect_def)
      have s1: "set rest - insert i (texDirect v) = set rest - texDirect v" using ir by auto
      have s2: "set (i # rest) - texDirect v = insert i (set rest - texDirect v)"
        using ni by auto
      have c2: "card (set (i # rest) - texDirect v) = Suc (card (set rest - texDirect v))"
        unfolding s2 using ir by simp
      from 2(1)[OF True nd dr sr] True nd ni show ?thesis
        by (simp add: texDirect_set_tex i8 s1 c2 del: set_simps)
    next
      case d: False
      then have ii: "i \<in> texDirect v" using i8 by (simp add: texDirect_def)
      have s2: "set (i # rest) - texDirect v = set rest - texDirect v" using ii by auto
      from 2(2)[OF True d dr sr] True d show ?thesis
        by (simp add: s2 del: set_simps)
    qed
  qed
qed

lemma narrow_frame:
  "a \<notin> (\<lambda>i. GX_TEX0MTXIDX + i) ` set is \<Longrightarrow>
   vcdGet (fst (narrowTexMtx is v over)) a = vcdGet v a"
  by (induction "is" v over rule: narrowTexMtx.induct) (auto simp: vcdGet_vcdSet)

lemma narrow_count:
  "distinct is \<Longrightarrow> set is \<subseteq> {..<8} \<Longrightarrow>
   card (texDirect (fst (narrowTexMtx is v over))) =
     card (texDirect v) - min over (card (set is \<inter> texDirect v))
   \<and> snd (narrowTexMtx is v over) = over - min over (card (set is \<inter> texDirect v))"
proof (induction "is" v over rule: narrowTexMtx.induct)
  case (1 v over)
  then show ?case by simp
next
  case (2 i rest v over)
  show ?case
  proof (cases "over > 0")
    case False
    then show ?thesis by simp
  next
    case True
    have i8: "i < 8" and ir: "i \<notin> set rest" and dr: "distinct rest" and sr: "set rest \<subseteq> {..<8}"
      using 2(3,4) by auto
    show ?thesis
    proof (cases "vcdGet v (GX_TEX0MTXIDX + i) = Some DIRECT")
      case d: True
      then have ii: "i \<in> texDirect v" using i8 by (simp add: texDirect_def)
      have s1: "set rest \<inter> (texDirect v - {i}) = set rest \<inter> texDirect v" using ir by auto
      have s2: "set (i # rest) \<inter> texDirect v = insert i (set rest \<inter> texDirect v)"
        using ii by auto
      have c2: "card (set (i # rest) \<inter> texDirect v) = Suc (card (set rest \<inter> texDirect v))"
        unfolding s2 using ir by simp
      have c3: "card (texDirect v - {i}) = card (texDirect v) - 1" using ii by simp
      have c4: "card (texDirect v) > 0" using ii by (metis card_gt_0_iff empty_iff finite_texDirect)
      from 2(1)[OF True d dr sr] True d c4 show ?thesis
        by (simp add: texDirect_clear_tex s1 c2 c3 del: set_simps) arith
    next
      case nd: False
      then have ni: "i \<notin> texDirect v" by (simp add: texDirect_def)
      have s2: "set (i # rest) \<inter> texDirect v = set rest \<inter> texDirect v" using ni by auto
      from 2(2)[OF True nd dr sr] True nd show ?thesis
        by (simp add: s2 del: set_simps)
    qed
  qed
qed

lemma narrow_antitone:
  "vcdGet v (GX_TEX0MTXIDX + j) \<noteq> Some DIRECT \<Longrightarrow>
   vcdGet (fst (narrowTexMtx is v over)) (GX_TEX0MTXIDX + j) \<noteq> Some DIRECT"
  by (induction "is" v over rule: narrowTexMtx.induct) (auto simp: vcdGet_vcdSet)

lemma narrow_exhausts:
  "snd (narrowTexMtx is v over) > 0 \<Longrightarrow> j \<in> set is \<Longrightarrow>
   vcdGet (fst (narrowTexMtx is v over)) (GX_TEX0MTXIDX + j) \<noteq> Some DIRECT"
proof (induction "is" v over rule: narrowTexMtx.induct)
  case (1 v over)
  then show ?case by simp
next
  case (2 i rest v over)
  then show ?case
    by (auto simp: vcdGet_vcdSet narrow_antitone split: if_splits)
qed

lemma not_slot_not_tex: "\<not> isMtxIdxSlot a \<Longrightarrow> a \<notin> (\<lambda>i. GX_TEX0MTXIDX + i) ` set [0..<8]"
  by (auto simp: isMtxIdxSlot_def)

lemma not_slot_not_tex_rev: "\<not> isMtxIdxSlot a \<Longrightarrow> a \<notin> (\<lambda>i. GX_TEX0MTXIDX + i) ` set (rev [0..<8])"
  by (auto simp: isMtxIdxSlot_def)

lemma pn_not_tex: "GX_PNMTXIDX \<notin> (\<lambda>i. GX_TEX0MTXIDX + i) ` set is"
  by (auto simp: GX_PNMTXIDX_def GX_TEX0MTXIDX_def)

lemma force_frame:
  assumes "\<not> isMtxIdxSlot a"
  shows "vcdGet (forceVCDStrideTo v t) a = vcdGet v a"
proof -
  have pn: "a \<noteq> GX_PNMTXIDX" using assms by (simp add: isMtxIdxSlot_def)
  show ?thesis
    using pn widen_frame[OF not_slot_not_tex[OF assms]]
      narrow_frame[OF not_slot_not_tex_rev[OF assms], of v "vcdIndexBytes v + vcdDirectBytes v - t"]
    by (simp add: forceVCDStrideTo_def Let_def vcdGet_vcdSet split_beta del: upt.simps)
qed

lemma index_slots_not_mtx:
  "\<not> isMtxIdxSlot GX_POS" "\<not> isMtxIdxSlot GX_NRM" "\<not> isMtxIdxSlot GX_CLR0"
  "\<not> isMtxIdxSlot GX_TEX0" "\<not> isMtxIdxSlot (GX_TEX0 + 1)" "\<not> isMtxIdxSlot (GX_TEX0 + 2)"
  "\<not> isMtxIdxSlot (GX_TEX0 + 3)"
  by (simp_all add: isMtxIdxSlot_def GX_POS_def GX_NRM_def GX_CLR0_def GX_TEX0_def
      GX_PNMTXIDX_def GX_TEX0MTXIDX_def)

lemma force_idxBytesAt:
  "\<not> isMtxIdxSlot a \<Longrightarrow> idxBytesAt (forceVCDStrideTo v t) a = idxBytesAt v a"
  by (simp add: idxBytesAt_def force_frame)

lemma force_indexBytes: "vcdIndexBytes (forceVCDStrideTo v t) = vcdIndexBytes v"
  unfolding vcdIndexBytes_def
  by (simp only: force_idxBytesAt[OF index_slots_not_mtx(1)] force_idxBytesAt[OF index_slots_not_mtx(2)]
      force_idxBytesAt[OF index_slots_not_mtx(3)] force_idxBytesAt[OF index_slots_not_mtx(4)]
      force_idxBytesAt[OF index_slots_not_mtx(5)] force_idxBytesAt[OF index_slots_not_mtx(6)]
      force_idxBytesAt[OF index_slots_not_mtx(7)])

lemma force_widen_pn:
  assumes "vcdWidth v < t"
  shows "vcdGet (forceVCDStrideTo v t) GX_PNMTXIDX = Some DIRECT"
  using assms
  by (auto simp: forceVCDStrideTo_def vcdWidth_def Let_def widen_frame[OF pn_not_tex] vcdGet_vcdSet
      simp del: upt.simps)

lemma set_minus_texDirect: "card ({..<8} - texDirect v) = 8 - card (texDirect v)"
proof -
  have "texDirect v \<subseteq> {..<8}" by (auto simp: texDirect_def)
  then show ?thesis by (simp add: card_Diff_subset)
qed

lemma set_inter_texDirect: "{..<8} \<inter> texDirect v = texDirect v"
  by (auto simp: texDirect_def)

lemma force_narrow_tex_first:
  assumes "t < vcdWidth v" and "vcdGet v GX_PNMTXIDX = Some DIRECT"
    and "vcdGet (forceVCDStrideTo v t) GX_PNMTXIDX \<noteq> Some DIRECT"
  shows "noTexMtxDirect (forceVCDStrideTo v t)"
proof -
  let ?r = "narrowTexMtx (rev [0..<8]) v (vcdWidth v - t)"
  have pn: "vcdGet (fst ?r) GX_PNMTXIDX = Some DIRECT"
    using narrow_frame[OF pn_not_tex] assms(2) by simp
  have f: "forceVCDStrideTo v t =
      (if snd ?r > 0 then vcdSet (fst ?r) GX_PNMTXIDX NONE else fst ?r)"
    using assms(1) pn
    by (simp add: forceVCDStrideTo_def vcdWidth_def Let_def split_beta del: upt.simps)
  have pos: "snd ?r > 0"
  proof (rule ccontr)
    assume "\<not> snd ?r > 0"
    with f pn assms(3) show False by simp
  qed
  have "vcdGet (fst ?r) (GX_TEX0MTXIDX + j) \<noteq> Some DIRECT" if "j < 8" for j
    using narrow_exhausts[OF pos, of j] that by simp
  then have "vcdGet (forceVCDStrideTo v t) (GX_TEX0MTXIDX + j) \<noteq> Some DIRECT" if "j < 8" for j
    using that f pos by (simp add: vcdGet_vcdSet GX_PNMTXIDX_def GX_TEX0MTXIDX_def)
  then show ?thesis
    by (simp add: noTexMtxDirect_def list_all_iff del: upt.simps)
qed

lemma force_exact:
  assumes lo: "vcdIndexBytes v \<le> t" and hi: "t \<le> vcdIndexBytes v + 9"
  shows "vcdWidth (forceVCDStrideTo v t) = t"
proof -
  let ?ix = "vcdIndexBytes v" and ?ct = "card (texDirect v)" and ?pn = "directAt v GX_PNMTXIDX"
  have ct8: "?ct \<le> 8" by (rule card_texDirect_le)
  have w: "vcdWidth v = ?ix + ?pn + ?ct" by (simp add: vcdWidth_def vcdDirectBytes_card)
  have pn1: "?pn \<le> 1" by (simp add: directAt_def)
  have d: "distinct [0..<8]" "set [0..<8] \<subseteq> {..<8}" by auto
  have dr: "distinct (rev [0..<8])" "set (rev [0..<8]) \<subseteq> {..<8}" by auto
  have sr: "set (rev [0..<8]) = {..<8}" "set [0..<8] = {..<8}" by auto
  have goal: "vcdDirectBytes (forceVCDStrideTo v t) = t - ?ix"
  proof (cases "vcdWidth v = t")
    case True
    then show ?thesis using w by (simp add: forceVCDStrideTo_def vcdWidth_def vcdDirectBytes_card)
  next
    case ne: False
    show ?thesis
    proof (cases "vcdWidth v < t")
      case lt: True
      show ?thesis
      proof (cases "vcdGet v GX_PNMTXIDX = Some DIRECT")
        case True
        then have p: "?pn = 1" by (simp add: directAt_def)
        have f: "forceVCDStrideTo v t = widenTexMtx [0..<8] v (t - vcdWidth v)"
          using lt True by (simp add: forceVCDStrideTo_def vcdWidth_def Let_def del: upt.simps)
        have "directAt (forceVCDStrideTo v t) GX_PNMTXIDX = 1"
          using force_widen_pn[OF lt] by (simp add: directAt_def)
        moreover have "card (texDirect (forceVCDStrideTo v t)) = ?ct + min (t - vcdWidth v) (8 - ?ct)"
          unfolding f widen_count[OF d] sr set_minus_texDirect ..
        ultimately show ?thesis using w p lt hi ct8 by (simp add: vcdDirectBytes_card)
      next
        case False
        then have p: "?pn = 0" by (simp add: directAt_def)
        let ?v1 = "vcdSet v GX_PNMTXIDX DIRECT"
        have f: "forceVCDStrideTo v t = widenTexMtx [0..<8] ?v1 (t - vcdWidth v - 1)"
          using lt False by (simp add: forceVCDStrideTo_def vcdWidth_def Let_def del: upt.simps)
        have "directAt (forceVCDStrideTo v t) GX_PNMTXIDX = 1"
          using force_widen_pn[OF lt] by (simp add: directAt_def)
        moreover have "card (texDirect (forceVCDStrideTo v t)) = ?ct + min (t - vcdWidth v - 1) (8 - ?ct)"
          unfolding f widen_count[OF d] sr set_minus_texDirect texDirect_set_pn ..
        ultimately show ?thesis using w p lt hi ct8 by (simp add: vcdDirectBytes_card)
      qed
    next
      case False
      with ne have gt: "t < vcdWidth v" by simp
      let ?over = "vcdWidth v - t"
      let ?r = "narrowTexMtx (rev [0..<8]) v ?over"
      have c: "card (texDirect (fst ?r)) = ?ct - min ?over ?ct"
        and o: "snd ?r = ?over - min ?over ?ct"
        using narrow_count[OF dr, of v ?over] unfolding sr set_inter_texDirect by auto
      have pnr: "vcdGet (fst ?r) GX_PNMTXIDX = vcdGet v GX_PNMTXIDX"
        using narrow_frame[OF pn_not_tex] by simp
      have f: "forceVCDStrideTo v t =
          (if snd ?r > 0 \<and> vcdGet v GX_PNMTXIDX = Some DIRECT
           then vcdSet (fst ?r) GX_PNMTXIDX NONE else fst ?r)"
        using gt pnr
        by (simp add: forceVCDStrideTo_def vcdWidth_def Let_def split_beta del: upt.simps)
      show ?thesis
      proof (cases "snd ?r > 0 \<and> vcdGet v GX_PNMTXIDX = Some DIRECT")
        case True
        then have p: "?pn = 1" by (simp add: directAt_def)
        have "directAt (forceVCDStrideTo v t) GX_PNMTXIDX = 0"
          using f True by (simp add: directAt_def vcdGet_vcdSet)
        moreover have "card (texDirect (forceVCDStrideTo v t)) = ?ct - min ?over ?ct"
          using f True c by (simp add: texDirect_set_pn)
        ultimately show ?thesis using w p gt lo True o by (simp add: vcdDirectBytes_card) arith
      next
        case False
        have "directAt (forceVCDStrideTo v t) GX_PNMTXIDX = ?pn"
          using f False pnr by (simp add: directAt_def)
        moreover have "card (texDirect (forceVCDStrideTo v t)) = ?ct - min ?over ?ct"
          using f False c by simp
        moreover have "snd ?r = 0 \<or> ?pn = 0" using False by (auto simp: directAt_def)
        ultimately show ?thesis using w pn1 gt lo o by (simp add: vcdDirectBytes_card) arith
      qed
    qed
  qed
  show ?thesis using goal lo by (simp add: vcdWidth_def force_indexBytes)
qed

text \<open>
  C6, as the code has it. The rebuild changes no slot but the matrix-index slots. When it
  widens, the position-matrix slot is made direct first (the result always has it direct)
  and texture-matrix slots are added after it; when it narrows, texture-matrix slots are
  dropped first and the position-matrix slot is dropped only when none of them is direct
  any more. When the target is reachable (between the index width and the index width
  plus the nine matrix-index slots) the width of the result is the target.
\<close>

theorem forceVCDStrideTo_spec:
  "(\<forall>a. \<not> isMtxIdxSlot a \<longrightarrow> vcdGet (forceVCDStrideTo v t) a = vcdGet v a)
   \<and> (vcdWidth v < t \<longrightarrow> vcdGet (forceVCDStrideTo v t) GX_PNMTXIDX = Some DIRECT)
   \<and> (t < vcdWidth v \<and> vcdGet v GX_PNMTXIDX = Some DIRECT
        \<and> vcdGet (forceVCDStrideTo v t) GX_PNMTXIDX \<noteq> Some DIRECT
      \<longrightarrow> noTexMtxDirect (forceVCDStrideTo v t))
   \<and> (vcdIndexBytes v \<le> t \<and> t \<le> vcdIndexBytes v + 9 \<longrightarrow> vcdWidth (forceVCDStrideTo v t) = t)"
  using force_frame force_widen_pn force_narrow_tex_first force_exact by blast

lemma upt8: "[0..<8] = [0, 1, 2, 3, 4, 5, 6, 7]"
  by (simp add: upt_rec)

lemmas vcd_eval =
  vcdGet_def vcdSet_def idxBytesAt_def vcdIndexBytes_def directAt_def vcdDirectBytes_def
  vcdWidth_def forceVCDStrideTo_def GX_PNMTXIDX_def GX_TEX0MTXIDX_def GX_POS_def GX_NRM_def
  GX_CLR0_def GX_TEX0_def upt8 Let_def noTexMtxDirect_def allTexMtxDirect_def isMtxIdxSlot_def

lemma force_skinned_3:
  "forceVCDStrideTo skinnedVcd 3 = [Some NONE, Some NONE, Some NONE, Some NONE, Some NONE,
     Some NONE, Some NONE, Some NONE, Some NONE, Some INDEX16, Some INDEX8, Some NONE, Some NONE,
     Some NONE, Some NONE, Some NONE, Some NONE, Some NONE, Some NONE, Some NONE, Some NONE]"
  by (simp add: vcd_eval skinnedVcd_def)

lemma force_plain_2:
  "forceVCDStrideTo plainVcd 2 = [Some DIRECT, Some NONE, Some NONE, Some NONE, Some NONE,
     Some NONE, Some NONE, Some NONE, Some NONE, Some INDEX8, Some NONE, Some NONE, Some NONE,
     Some NONE, Some NONE, Some NONE, Some NONE, Some NONE, Some NONE, Some NONE, Some NONE]"
  by (simp add: vcd_eval plainVcd_def)

text \<open>
  A skinned descriptor of width 5 (position-matrix slot, texture-matrix slot 7, 16-bit
  POS, 8-bit NRM) narrowed to 3, and an unskinned one of width 1 widened to 2.
\<close>

theorem forceVCDStrideTo_spec_witness:
  "\<not> isMtxIdxSlot GX_POS
   \<and> vcdGet (forceVCDStrideTo skinnedVcd 3) GX_POS = vcdGet skinnedVcd GX_POS
   \<and> vcdWidth plainVcd < 2
   \<and> vcdGet (forceVCDStrideTo plainVcd 2) GX_PNMTXIDX = Some DIRECT
   \<and> 3 < vcdWidth skinnedVcd \<and> vcdGet skinnedVcd GX_PNMTXIDX = Some DIRECT
   \<and> vcdGet (forceVCDStrideTo skinnedVcd 3) GX_PNMTXIDX \<noteq> Some DIRECT
   \<and> noTexMtxDirect (forceVCDStrideTo skinnedVcd 3)
   \<and> vcdIndexBytes skinnedVcd \<le> 3 \<and> 3 \<le> vcdIndexBytes skinnedVcd + 9
   \<and> vcdWidth (forceVCDStrideTo skinnedVcd 3) = 3"
proof -
  have h1: "\<not> isMtxIdxSlot GX_POS"
    by (simp add: vcd_eval)
  have h2: "vcdWidth plainVcd < 2"
    by (simp add: vcd_eval plainVcd_def)
  have h3: "3 < vcdWidth skinnedVcd \<and> vcdGet skinnedVcd GX_PNMTXIDX = Some DIRECT
     \<and> vcdGet (forceVCDStrideTo skinnedVcd 3) GX_PNMTXIDX \<noteq> Some DIRECT"
    by (simp add: force_skinned_3) (simp add: vcd_eval skinnedVcd_def)
  have h4: "vcdIndexBytes skinnedVcd \<le> 3 \<and> 3 \<le> vcdIndexBytes skinnedVcd + 9"
    by (simp add: vcd_eval skinnedVcd_def)
  from h1 h2 h3 h4 forceVCDStrideTo_spec [of skinnedVcd 3] forceVCDStrideTo_spec [of plainVcd 2]
  show ?thesis by blast
qed

text \<open>
  C6 as stated fails when the rebuild widens: the code makes the position-matrix slot
  direct before any texture-matrix slot (\<open>Ensure PNMTXIDX is DIRECT first\<close>). Widening
  the unskinned descriptor by one byte turns the position-matrix slot on while all eight
  texture-matrix slots stay off.
\<close>

theorem forceVCDStrideTo_widens_pn_first:
  "\<not> prefersTexSlots plainVcd (forceVCDStrideTo plainVcd 2)"
  by (simp add: force_plain_2 prefersTexSlots_def) (simp add: vcd_eval plainVcd_def)


section \<open>Properties of the normal buffer padding\<close>

text \<open>The stride of a normal record: 9 bytes for NBT normals, 3 otherwise.\<close>

definition nrmStrideOf :: "32 word \<Rightarrow> 32 word \<Rightarrow> nat" where
  "nrmStrideOf NBT nflags = (if nflags AND NBT \<noteq> 0 then 9 else 3)"

definition tailByte :: "dataview \<Rightarrow> nat \<Rightarrow> nat \<Rightarrow> byte" where
  "tailByte src tailStart k = srcOrZero src (tailStart + k)"

lemma padRecord_length [simp]: "length (padRecord src dst off ts j n) = length dst"
  by (induction n arbitrary: dst j) auto

lemma padRecord_nth:
  "i < length dst \<Longrightarrow>
   padRecord src dst off ts j n ! i =
     (if off + j \<le> i \<and> i < off + j + n then tailByte src ts (i - off) else dst ! i)"
proof (induction n arbitrary: dst j)
  case 0
  then show ?case by auto
next
  case (Suc n)
  show ?case
  proof (cases "i = off + j")
    case True
    then show ?thesis
      using Suc.prems Suc.IH[of "dst[off + j := srcOrZero src (ts + j)]" "Suc j"]
      by (simp add: tailByte_def)
  next
    case False
    then show ?thesis
      using Suc.prems Suc.IH[of "dst[off + j := srcOrZero src (ts + j)]" "Suc j"]
      by auto
  qed
qed

lemma padLoop_length [simp]: "length (padLoop nbt src dst ts off needed) = length dst"
  by (induction nbt src dst ts off needed rule: padLoop.induct)
     (subst padLoop.simps, simp add: Let_def)

lemma mod_shift: "a + s \<le> i \<Longrightarrow> (i - (a + s)) mod s = (i - a) mod (s::nat)"
proof -
  assume "a + s \<le> i"
  then obtain d where "i = a + s + d" using le_Suc_ex by blast
  then show ?thesis by simp
qed

lemma padLoop_nth:
  "length dst = needed \<Longrightarrow> i < needed \<Longrightarrow>
   padLoop nbt src dst ts off needed ! i =
     (if off \<le> i then tailByte src ts ((i - off) mod (if nbt then 9 else 3)) else dst ! i)"
proof (induction nbt src dst ts off needed rule: padLoop.induct)
  case (1 nbt src dst ts off needed)
  let ?s = "if nbt then 9 else (3::nat)"
  show ?case
  proof (cases "off < needed")
    case False
    then show ?thesis using 1(2,3) by (subst padLoop.simps) simp
  next
    case True
    have IH: "padLoop nbt src (padRecord src dst off ts 0 ?s) ts (off + ?s) needed ! i =
       (if off + ?s \<le> i then tailByte src ts ((i - (off + ?s)) mod ?s)
        else padRecord src dst off ts 0 ?s ! i)"
      using 1(1)[OF refl True _ 1(3)] 1(2) by simp
    have m: "off + ?s \<le> i \<Longrightarrow> (i - (off + ?s)) mod ?s = (i - off) mod ?s"
      by (rule mod_shift) simp
    have k: "off \<le> i \<Longrightarrow> i < off + ?s \<Longrightarrow> (i - off) mod ?s = i - off"
      by auto
    show ?thesis
      apply (subst padLoop.simps)
      using True 1(2,3) IH m k
      by (auto simp: Let_def padRecord_nth)
  qed
qed

lemma padNormals_grown:
  assumes "hasNormals" and "0 < length nrm"
    and "length nrm < posCount * nrmStrideOf NBT nflags"
  shows "length (padNormals NBT hasNormals nflags posCount nrm) = posCount * nrmStrideOf NBT nflags"
    and "i < length nrm \<Longrightarrow> padNormals NBT hasNormals nflags posCount nrm ! i = nrm ! i"
    and "length nrm \<le> i \<Longrightarrow> i < posCount * nrmStrideOf NBT nflags \<Longrightarrow>
         padNormals NBT hasNormals nflags posCount nrm ! i =
           tailByte nrm (length nrm - nrmStrideOf NBT nflags)
             ((i - length nrm) mod nrmStrideOf NBT nflags)"
proof -
  let ?s = "nrmStrideOf NBT nflags" and ?n = "posCount * nrmStrideOf NBT nflags"
  let ?dst = "nrm @ replicate (?n - length nrm) 0"
  have p: "padNormals NBT hasNormals nflags posCount nrm =
      padLoop (nflags AND NBT \<noteq> 0) nrm ?dst (length nrm - ?s) (length nrm) ?n"
    using assms by (simp add: padNormals_def nrmStrideOf_def Let_def)
  have l: "length ?dst = ?n" using assms(3) by simp
  show "length (padNormals NBT hasNormals nflags posCount nrm) = ?n"
    unfolding p using l by simp
  have s: "(if nflags AND NBT \<noteq> 0 then 9 else 3) = ?s" by (simp add: nrmStrideOf_def)
  show "padNormals NBT hasNormals nflags posCount nrm ! i = nrm ! i" if "i < length nrm"
    unfolding p using padLoop_nth[OF l, of i] that assms(3) by (simp add: nth_append)
  show "padNormals NBT hasNormals nflags posCount nrm ! i =
      tailByte nrm (length nrm - ?s) ((i - length nrm) mod ?s)"
    if "length nrm \<le> i" "i < ?n"
    unfolding p using padLoop_nth[OF l that(2)] that(1) s by simp
qed

text \<open>
  C7, as the code has it. The loader builds the normal buffer with \<open>nrmCount\<close>
  records. When the format has normals and the buffer is not empty: a buffer with fewer
  records than positions is grown to exactly \<open>posCount\<close> records, the old bytes are
  kept and every added record is the last record of the old buffer; a buffer with at
  least \<open>posCount\<close> records is left as it is.
\<close>

theorem padNormals_spec:
  assumes "hasNormals" and "length nrm = nrmCount * nrmStrideOf NBT nflags"
    and "0 < nrmCount"
  shows "(nrmCount < posCount \<longrightarrow>
            length (padNormals NBT hasNormals nflags posCount nrm)
              = posCount * nrmStrideOf NBT nflags
          \<and> take (length nrm) (padNormals NBT hasNormals nflags posCount nrm) = nrm
          \<and> (\<forall>r j. nrmCount \<le> r \<and> r < posCount \<and> j < nrmStrideOf NBT nflags \<longrightarrow>
                padNormals NBT hasNormals nflags posCount nrm ! (r * nrmStrideOf NBT nflags + j)
                  = nrm ! ((nrmCount - 1) * nrmStrideOf NBT nflags + j)))
         \<and> (posCount \<le> nrmCount \<longrightarrow> padNormals NBT hasNormals nflags posCount nrm = nrm)"
proof -
  let ?s = "nrmStrideOf NBT nflags"
  let ?res = "padNormals NBT hasNormals nflags posCount nrm"
  have s0: "0 < ?s" by (simp add: nrmStrideOf_def)
  have len0: "0 < length nrm" using assms(2,3) s0 by simp
  have unchanged: "?res = nrm" if "posCount \<le> nrmCount"
  proof -
    have "posCount * ?s \<le> length nrm" using that assms(2) by simp
    then show ?thesis by (simp add: padNormals_def nrmStrideOf_def Let_def)
  qed
  have grown: "length ?res = posCount * ?s \<and> take (length nrm) ?res = nrm
      \<and> (\<forall>r j. nrmCount \<le> r \<and> r < posCount \<and> j < ?s \<longrightarrow>
            ?res ! (r * ?s + j) = nrm ! ((nrmCount - 1) * ?s + j))"
    if lt: "nrmCount < posCount"
  proof -
    have short: "length nrm < posCount * ?s" using lt assms(2) s0 by simp
    note g = padNormals_grown[OF assms(1) len0 short]
    have a: "length ?res = posCount * ?s" by (rule g(1))
    have b: "take (length nrm) ?res = nrm"
      by (rule nth_equalityI) (use a short g(2) in auto)
    have c: "?res ! (r * ?s + j) = nrm ! ((nrmCount - 1) * ?s + j)"
      if "nrmCount \<le> r" "r < posCount" "j < ?s" for r j
    proof -
      have i1: "length nrm \<le> r * ?s + j" using that(1) assms(2) by (simp add: trans_le_add1)
      have "r * ?s + j < Suc r * ?s" using that(3) by simp
      also have "\<dots> \<le> posCount * ?s" using that(2) by (intro mult_le_mono1) simp
      finally have i2: "r * ?s + j < posCount * ?s" .
      have "r * ?s + j - length nrm = (r - nrmCount) * ?s + j"
        using that(1) assms(2) by (simp add: diff_mult_distrib)
      then have md: "(r * ?s + j - length nrm) mod ?s = j" using that(3) by simp
      have tl: "length nrm - ?s = (nrmCount - 1) * ?s"
        using assms(2) by (simp add: diff_mult_distrib)
      obtain m where m: "nrmCount = Suc m" using assms(3) by (cases nrmCount) auto
      have "(nrmCount - 1) * ?s + j < length nrm"
        using assms(2) that(3) m by simp
      then show ?thesis using g(3)[OF i1 i2] md tl by (simp add: tailByte_def srcOrZero_def)
    qed
    from a b c show ?thesis by blast
  qed
  from unchanged grown show ?thesis by blast
qed

lemma padNormals_example:
  "padNormals 0x8 True 0 3 [1, 2, 3] = [1, 2, 3, 1, 2, 3, 1, 2, 3]"
  by (simp add: padNormals_def Let_def padLoop.simps srcOrZero_def numeral_eq_Suc)

text \<open>One normal record and three positions; and one record, one position.\<close>

theorem padNormals_spec_witness:
  "length [1, 2, 3 :: byte] = 1 * nrmStrideOf 0x8 0 \<and> (0::nat) < 1 \<and> (1::nat) < 3
   \<and> length (padNormals 0x8 True 0 3 [1, 2, 3]) = 3 * nrmStrideOf 0x8 0
   \<and> take (length [1, 2, 3 :: byte]) (padNormals 0x8 True 0 3 [1, 2, 3]) = [1, 2, 3]
   \<and> padNormals 0x8 True 0 3 [1, 2, 3] ! (2 * nrmStrideOf 0x8 0 + 1)
       = [1, 2, 3] ! ((1 - 1) * nrmStrideOf 0x8 0 + 1)
   \<and> padNormals 0x8 True 0 3 [1, 2, 3] = [1, 2, 3, 1, 2, 3, 1, 2, 3]
   \<and> (1::nat) \<le> 1 \<and> padNormals 0x8 True 0 1 [1, 2, 3] = [1, 2, 3]"
proof -
  have h: "length [1, 2, 3 :: byte] = 1 * nrmStrideOf 0x8 0"
    by (simp add: nrmStrideOf_def)
  have s: "(1::nat) < nrmStrideOf 0x8 0"
    by (simp add: nrmStrideOf_def)
  from padNormals_spec [OF TrueI h zero_less_one, of 3] padNormals_spec [OF TrueI h zero_less_one, of 1]
    h s padNormals_example
  show ?thesis by simp
qed

text \<open>
  C7 as stated fails for an empty normal buffer: the guard asks for
  \<open>byteLength > 0\<close>, so a format with normals whose file declares no normal is not
  padded, however many positions it has.
\<close>

theorem padNormals_empty_not_grown:
  "length ([] :: byte list) < 1 * nrmStrideOf 0x8 0
   \<and> length (padNormals 0x8 True 0 1 []) \<noteq> 1 * nrmStrideOf 0x8 0"
  by (simp add: padNormals_def nrmStrideOf_def)


section \<open>Properties of the display-list table\<close>

text \<open>
  An entry is valid for a buffer, or it is the zero/zero sentinel; a resolution is safe
  when it returns (does not raise) and every entry of its table is one or the other.
\<close>

definition entryOk :: "nat \<Rightarrow> displayListInfo \<Rightarrow> bool" where
  "entryOk bufferLength e =
     ((offset e > 0 \<and> size_dl e > 0 \<and> offset e + size_dl e \<le> bufferLength)
      \<or> (offset e = 0 \<and> size_dl e = 0))"

definition resolvedOk :: "dataview \<Rightarrow> modelFields \<Rightarrow> bool" where
  "resolvedOk data flds =
     (case resolveDlInfos data flds of
        None \<Rightarrow> False
      | Some dlInfos \<Rightarrow> list_all (entryOk (length data)) dlInfos)"

lemma parseDisplayListInfo_Some:
  assumes "0x19 \<le> length row"
  shows "\<exists>info. parseDisplayListInfo row = Some info"
  using assms
  by (simp add: parseDisplayListInfo_def getUint8_def getUint16_def getUint32_def getInt16_def)

lemma scanRows_ok:
  assumes "0x19 \<le> stride" and "list_all (entryOk fileLen) dlInfos" and "fileLen = length data"
  shows "\<exists>r. scanRows data dlInfoOffset stride fileLen i n ci dlInfos = Some r
             \<and> list_all (entryOk fileLen) r \<and> length r = length dlInfos"
  using assms(2)
proof (induction n arbitrary: i ci dlInfos)
  case 0
  then show ?case by simp
next
  case (Suc n)
  let ?rowOff = "dlInfoOffset + i * stride"
  show ?case
  proof (cases "?rowOff + stride > fileLen")
    case True
    then show ?thesis using Suc.IH[OF Suc.prems] by (simp add: Let_def)
  next
    case False
    then have sub: "dataSubarrayLen data ?rowOff stride = Some (take stride (drop ?rowOff data))"
      using assms(3) by (simp add: dataSubarrayLen_def)
    have "0x19 \<le> length (take stride (drop ?rowOff data))"
      using False assms(1,3) by simp
    from parseDisplayListInfo_Some[OF this] obtain info where
      p: "parseDisplayListInfo (take stride (drop ?rowOff data)) = Some info" by blast
    let ?ok = "offset info > 0 \<and> size_dl info > 0 \<and> offset info + size_dl info \<le> fileLen"
    let ?infos' = "if ?ok then dlInfos[i := info] else dlInfos"
    have ok': "list_all (entryOk fileLen) ?infos'"
      using Suc.prems by (auto simp: list_all_iff entryOk_def dest!: set_update_subset_insert[THEN subsetD])
    have len': "length ?infos' = length dlInfos" by simp
    show ?thesis
      using False sub p Suc.IH[OF ok'] ok' len'
      by (auto simp: Let_def)
  qed
qed

text \<open>
  C2, as the code has it. For a version that is not of the Beta layout, with a row size
  that covers the 0x19 bytes parsed from a row (0x1c, 0x34 and 0x38 in \<open>FIELDS\<close>), and
  a buffer that holds the two header fields (loadModel has read both before), the
  resolution never raises and every entry of the table is valid or the sentinel.
\<close>

theorem resolveDlInfos_sentinel_safe:
  assumes "\<not> mf_isBeta flds" and "0x19 \<le> mf_dlInfoSize flds"
    and "mf_dlInfoCount flds < length data" and "mf_dlInfoOffset flds + 4 \<le> length data"
  shows "resolvedOk data flds"
proof -
  obtain c where c: "getUint8 data (mf_dlInfoCount flds) = Some c"
    using assms(3) by (simp add: getUint8_def)
  obtain off where off: "getUint32 data (mf_dlInfoOffset flds) = Some off"
    using assms(4) by (simp add: getUint32_def)
  have s: "list_all (entryOk (length data)) (replicate c emptySentinel)"
    by (simp add: list_all_iff entryOk_def emptySentinel_def)
  show ?thesis
  proof (cases "off = 0 \<or> off \<ge> length data")
    case True
    then show ?thesis using c off assms(1) by (auto simp: resolvedOk_def resolveDlInfos_def)
  next
    case False
    from scanRows_ok[OF assms(2) s refl] obtain r where
      "scanRows data off (mf_dlInfoSize flds) (length data) 0
          (if mf_dlInfoSize flds = 0 then c
           else min c ((length data - off) div mf_dlInfoSize flds)) 0
          (replicate c emptySentinel) = Some r" and "list_all (entryOk (length data)) r"
      by blast
    then show ?thesis using False c off assms(1)
      by (simp add: resolvedOk_def resolveDlInfos_def Let_def)
  qed
qed

text \<open>
  Three models. A Beta model of 176 bytes with one display list whose offset table says
  256 and whose size table says 16; a Beta model whose offset table pointer is
  0xffffffff; a Final model of 312 bytes with two rows, the first valid (offset 16,
  size 8), the second out of the buffer (offset 512, size 4).
\<close>

definition betaOobModel :: dataview where
  "betaOobModel = [0, 0, 1, 0] @ replicate 12 0 @ [0, 0x10] @ replicate 118 0
     @ [0, 0, 0, 0, 0, 0, 0, 0x10] @ replicate 28 0 @ [1, 0, 0, 0]"

definition betaRaisingModel :: dataview where
  "betaRaisingModel = replicate 0x88 0 @ [0xff, 0xff, 0xff, 0xff] @ replicate 32 0 @ [1, 0, 0, 0]"

definition finalTwoRowModel :: dataview where
  "finalTwoRowModel = replicate 0xd0 0 @ [0, 0, 1, 0] @ replicate 0x21 0 @ [2] @ replicate 10 0
     @ [0, 0, 0, 0x10, 0, 8] @ replicate 22 0
     @ [0, 0, 2, 0, 0, 4] @ replicate 22 0"

lemmas dl_eval =
  resolveDlInfos_def getUint8_def getUint16_def getUint32_def getInt16_def readUint32_def
  readUint16_def dataSubarrayLen_def parseDisplayListInfo_def emptySentinel_def
  nth_append Let_def entryOk_def resolvedOk_def

lemma beta_oob_result:
  "resolveDlInfos betaOobModel FIELDS_Beta =
     Some [\<lparr> offset = 256, size_dl = 16, aabb = None, specialBitAddress = None,
             sortLayer = None \<rparr>]"
  by (simp add: dl_eval betaOobModel_def FIELDS_Beta_def)

lemma beta_raise_result: "resolveDlInfos betaRaisingModel FIELDS_Beta = None"
  by (simp add: dl_eval betaRaisingModel_def FIELDS_Beta_def)

lemma scanRows_numeral:
  "scanRows data dlInfoOffset stride fileLen i (numeral k) consecutiveInvalid dlInfos =
     scanRows data dlInfoOffset stride fileLen i (Suc (pred_numeral k)) consecutiveInvalid dlInfos"
  by (simp only: numeral_eq_Suc)

lemma replicate_2: "replicate 2 x = [x, x]"
  by (simp add: numeral_2_eq_2)

lemma final_result:
  "resolveDlInfos finalTwoRowModel FIELDS_Final =
     Some [\<lparr> offset = 16, size_dl = 8, aabb = Some (0, 0, 0, 0, 0, 0),
             specialBitAddress = Some 0, sortLayer = Some 0 \<rparr>, emptySentinel]"
  by (simp add: dl_eval finalTwoRowModel_def FIELDS_Final_def scanRows_numeral
      replicate_2)


theorem resolveDlInfos_sentinel_safe_witness:
  "\<not> mf_isBeta FIELDS_Final \<and> 0x19 \<le> mf_dlInfoSize FIELDS_Final
   \<and> mf_dlInfoCount FIELDS_Final < length finalTwoRowModel
   \<and> mf_dlInfoOffset FIELDS_Final + 4 \<le> length finalTwoRowModel
   \<and> resolvedOk finalTwoRowModel FIELDS_Final
   \<and> resolveDlInfos finalTwoRowModel FIELDS_Final =
       Some [\<lparr> offset = 16, size_dl = 8, aabb = Some (0, 0, 0, 0, 0, 0),
               specialBitAddress = Some 0, sortLayer = Some 0 \<rparr>, emptySentinel]"
proof -
  have h1: "\<not> mf_isBeta FIELDS_Final" and h2: "0x19 \<le> mf_dlInfoSize FIELDS_Final"
    by (simp_all add: FIELDS_Final_def)
  have h3: "mf_dlInfoCount FIELDS_Final < length finalTwoRowModel"
    and h4: "mf_dlInfoOffset FIELDS_Final + 4 \<le> length finalTwoRowModel"
    by (simp_all add: FIELDS_Final_def finalTwoRowModel_def)
  from h1 h2 h3 h4 resolveDlInfos_sentinel_safe [OF h1 h2 h3 h4] final_result
  show ?thesis by simp
qed

text \<open>
  C2 as stated fails for the versions of the Beta layout (AncientMap, Beta, BetaMap):
  their branch pushes every offset/size pair as read, with no check, and its table reads
  raise outside the buffer. The check is made where a list is called (CallDL skips an
  entry that leaves the buffer).
\<close>

theorem resolveDlInfos_beta_unchecked:
  "\<not> resolvedOk betaOobModel FIELDS_Beta \<and> resolveDlInfos betaRaisingModel FIELDS_Beta = None"
proof -
  have l: "length betaOobModel = 176"
    by (simp add: betaOobModel_def)
  show ?thesis
    by (simp add: beta_raise_result resolvedOk_def beta_oob_result entryOk_def l)
qed


section \<open>Concrete command streams\<close>

text \<open>
  A map model of the final format whose geometry constructor accepts, or rejects, every
  display list; the interpreter state before the first pass; a shader with given flags
  and no texture layers; and a display-list entry.
\<close>

definition acceptAll :: "vcd \<Rightarrow> dataview \<Rightarrow> nat list \<Rightarrow> bool \<Rightarrow> bool" where
  "acceptAll v dl pn sk = True"

definition rejectAll :: "vcd \<Rightarrow> dataview \<Rightarrow> nat list \<Rightarrow> bool \<Rightarrow> bool" where
  "rejectAll v dl pn sk = False"

definition mapCtx ::
  "dataview \<Rightarrow> displayListInfo list \<Rightarrow> (vcd \<Rightarrow> dataview \<Rightarrow> nat list \<Rightarrow> bool \<Rightarrow> bool) \<Rightarrow> loadCtx" where
  "mapCtx data dlInfos ok = \<lparr> c_SF = stdShaderFlags, c_AF = stdShaderAttrFlags, c_data = data,
     c_fields = FIELDS_FinalMap, c_versionEarly1 = False, c_versionEarly3 = False,
     c_jointCount = 0, c_texMtxCount = 0, c_hasColorTable = True, c_isEarly34Map = False,
     c_usingDummyClr = False, c_hasSkinning = False, c_dlInfos = dlInfos,
     c_bitsOffsets = [1, 0, 0], c_geomOk = ok \<rparr>"

definition startState :: "shader list \<Rightarrow> interpState" where
  "startState shaders = \<lparr> st_bits = newLowBitReader [] 0, st_shaders = shaders, st_curShader = 0,
     st_materials = [], st_curMaterial = MapMaterial None, st_vcd = [],
     st_pnMatrixMap = [0, 0, 0, 0, 0, 0, 0, 0, 0, 0], st_shapes = [], st_waters = [],
     st_furs = [] \<rparr>"

definition shaderWithFlags :: "32 word \<Rightarrow> shader" where
  "shaderWithFlags f = (initShader 0 0 0)\<lparr> flags := f \<rparr>"

definition listEntry :: "nat \<Rightarrow> nat \<Rightarrow> nat \<Rightarrow> displayListInfo" where
  "listEntry off len special = \<lparr> offset = off, size_dl = len, aabb = None,
     specialBitAddress = Some special, sortLayer = None \<rparr>"

text \<open>
  Five files. In each the command stream starts at byte 1, and its bits are read from
  the low end of each byte.

  \<^item> \<open>skipStream\<close>: the opcodes 0 (unknown), 4 (\<open>SetMatrices\<close>, one bone, index 7) and
    5 (\<open>End\<close>).
  \<^item> \<open>oneListModel\<close>: \<open>CallDL\<close> of list 0, then \<open>End\<close>; list 0 is the four bytes at
    offset 4, a draw command \<open>0x98\<close> with vertex count 1.
  \<^item> \<open>furModel\<close>: the same main stream; list 0 is at offset 8 and has the special bit
    address 16, where a second stream holds \<open>CallDL\<close> of list 0 and \<open>End\<close>.
  \<^item> \<open>nopListModel\<close>: the same main stream; list 0 is the two zero bytes at offset 4,
    so it starts with a GX no-op and the count field after it reads 0.
  \<^item> \<open>strideModel\<close>: the same main stream; list 0 is the eight bytes at offset 4, a
    draw command \<open>0x98\<close> with vertex count 1, one 16-bit index, a zero byte, and the
    byte \<open>0x98\<close> again at offset 6 of the list, where the next command would start if
    a vertex took 3 bytes.
\<close>

definition skipStream :: dataview where
  "skipStream = [0x00, 0x40, 0x71, 0x50]"

definition oneListModel :: dataview where
  "oneListModel = [0x00, 0x02, 0x50, 0x00, 0x98, 0x00, 0x01, 0x00]"

definition furModel :: dataview where
  "furModel = [0x00, 0x02, 0x50, 0x02, 0x50, 0x00, 0x00, 0x00, 0x98, 0x00, 0x01, 0x00]"

definition furGeometry :: shapeGeometry where
  "furGeometry = \<lparr> g_vcd = [], g_displayList = (8, 4), g_hasSkinning = False, g_aabb = None,
     g_sortLayer = None \<rparr>"



definition skipCtx :: loadCtx where
  "skipCtx = mapCtx skipStream [] acceptAll"

definition skipState :: interpState where
  "skipState = (startState [shaderWithFlags 0])\<lparr> st_bits := newLowBitReader skipStream 1 \<rparr>"

definition skipSpecial :: specialState where
  "skipSpecial = \<lparr> ss_bits = newLowBitReader skipStream 1, ss_locShader = 0,
     ss_locMaterial = FurMaterial None, ss_locVcd = [], ss_out = [] \<rparr>"

definition skipReader :: lowBitReader where
  "skipReader = \<lparr> br_data = skipStream, br_baseOffs = 1, bitIndex = 4 \<rparr>"

definition furCtx :: loadCtx where
  "furCtx = mapCtx furModel [listEntry 8 4 16] acceptAll"

definition furStart :: interpState where
  "furStart = startState [shaderWithFlags 0x8000]"

definition furAfter :: interpState where
  "furAfter = furStart
       \<lparr> st_shapes := [mkShape furGeometry (MapMaterial None) False],
         st_furs := [(mkShape furGeometry (FurMaterial (Some (shaderWithFlags 0x8000))) False, 8)] \<rparr>"

definition furReader :: "nat \<Rightarrow> lowBitReader" where
  "furReader i = \<lparr> br_data = furModel, br_baseOffs = 1, bitIndex = i \<rparr>"

definition furStep :: interpState where
  "furStep = furStart\<lparr> st_bits := newLowBitReader furModel 1 \<rparr>"

definition furStepAfter :: interpState where
  "furStepAfter = furAfter\<lparr> st_bits := furReader 12 \<rparr>"










text \<open>
  An object model of the final format with a colour table; a map model of the final
  format whose file has an empty colour table, as \<open>loadModel\<close> sets it up; a shader with
  one texture layer and given attribute flags; the descriptor with POS, CLR0 and TEX0
  set; and the reader on \<open>skipStream\<close> at a given bit. From bit 5 on the stream reads
  0, 1, 0.
\<close>

definition objectCtx :: loadCtx where
  "objectCtx = (mapCtx skipStream [] acceptAll)\<lparr> c_fields := FIELDS_Final, c_hasColorTable := True \<rparr>"

definition emptyTableCtx :: loadCtx where
  "emptyTableCtx = (mapCtx skipStream [] acceptAll)
     \<lparr> c_hasColorTable := hasColorTable True False 0,
       c_usingDummyClr := usingDummyClr True False 0 \<rparr>"

definition layerShader :: "32 word \<Rightarrow> shader" where
  "layerShader attr = (initShader 0 0 0)
     \<lparr> layers := [\<lparr> texId = TexNull, tevMode = 0, enableScroll = 0, scrollSlot = None \<rparr>],
       attrFlags := attr \<rparr>"

definition vcdPosClrTex :: "attrType \<Rightarrow> attrType \<Rightarrow> attrType \<Rightarrow> vcd" where
  "vcdPosClrTex p c t = [Some NONE, Some NONE, Some NONE, Some NONE, Some NONE, Some NONE,
     Some NONE, Some NONE, Some NONE, Some p, Some NONE, Some c, Some NONE, Some t,
     Some NONE, Some NONE, Some NONE, Some NONE, Some NONE, Some NONE, Some NONE]"

definition vcdReader :: "nat \<Rightarrow> lowBitReader" where
  "vcdReader i = \<lparr> br_data = skipStream, br_baseOffs = 1, bitIndex = i \<rparr>"

text \<open>Evaluation of the interpreter on these files.\<close>

lemma bitsValue_numeral:
  "bitsValue r p (numeral k) = streamBit r p + 2 * bitsValue r (Suc p) (pred_numeral k)"
  by (simp add: numeral_eq_Suc)

lemma readPnMatrices_numeral:
  "readPnMatrices bits pn i (numeral k) =
     (case getBits bits 8 of None \<Rightarrow> None
      | Some (x, bits') \<Rightarrow> readPnMatrices bits' (pn[i := x]) (Suc i) (pred_numeral k))"
  by (simp add: numeral_eq_Suc)

lemmas interp_eval =
  runBitstream_def runLoop.simps stepMain_def setShader_def shaderAt_def getBits_def
  bitsValue_numeral streamBit_def newLowBitReader_def readPnMatrices_numeral
  mapCtx_def startState_def FIELDS_FinalMap_def Let_def

lemmas calldl_eval =
  callDL_def waterPath_def normalPath_def normalPathPush_def decodeAttempts_def furPath_def tuneVCDForDL_def
  tinyDlSkip_def newShapeGeometry_def dataSubarrayLen_def getUint8_def getUint16_def
  hasSpecial_def listEntry_def shaderWithFlags_def initShader_def stdShaderFlags_def
  waterStreamIndex_def SFA_SHADER_FIELDS_def acceptAll_def rejectAll_def
  scanStrideCandidates_def strideLists_def strideRange_def isDrawOpcode_def
  retrySkipHeader_def retryNoMatrixIndex_def vcdGet_def furMask_def mkShape_def
  vcdIndexBytes_def vcdDirectBytes_def idxBytesAt_def directAt_def

lemmas special_eval =
  runSpecialBitstreamMulti_def runSpecialLoop.simps stepSpecial_def specialCallDL_def
  seekBit_def keepFur_def keepWater_def furLayers_def

lemma skipStream_run:
  "map_option st_pnMatrixMap
     (runBitstream (mapCtx skipStream [] acceptAll) 0 1 (startState [shaderWithFlags 0]))
   = Some [7, 0, 0, 0, 0, 0, 0, 0, 0, 0]"
  by (simp add: interp_eval skipStream_def)

lemma water_rejecting_run:
  "runBitstream (mapCtx oneListModel [listEntry 4 4 0] rejectAll) 0 1
     (startState [shaderWithFlags 0x80000000]) = None"
  by (simp add: interp_eval calldl_eval oneListModel_def)

lemma plain_rejecting_run:
  "map_option st_shapes
     (runBitstream (mapCtx oneListModel [listEntry 4 4 0] rejectAll) 0 1
        (startState [shaderWithFlags 0])) = Some []"
  by (simp add: interp_eval calldl_eval oneListModel_def)

lemma water_accepting_run:
  "map_option st_waters
     (runBitstream (mapCtx oneListModel [listEntry 4 4 0] acceptAll) 0 1
        (startState [shaderWithFlags 0x80000000]))
   = Some [mkShape \<lparr> g_vcd = [], g_displayList = (4, 4), g_hasSkinning = False, g_aabb = None,
     g_sortLayer = None \<rparr> (WaterMaterial (Some (shaderWithFlags 0x80000000))) False]"
  by (simp add: interp_eval calldl_eval oneListModel_def)

lemma fur_callDL_eval:
  "callDL (mapCtx furModel [listEntry 8 4 16] acceptAll) 0 1 (startState [shaderWithFlags 0x8000]) 0
   = Some ((startState [shaderWithFlags 0x8000])
       \<lparr> st_shapes := [mkShape furGeometry (MapMaterial None) False],
         st_furs := [(mkShape furGeometry (FurMaterial (Some (shaderWithFlags 0x8000))) False, 8)] \<rparr>)"
  by (simp add: interp_eval calldl_eval special_eval furModel_def furGeometry_def)





lemma skip_getBits: "getBits (newLowBitReader skipStream 1) 4 = Some (0, skipReader)"
  by (simp add: getBits_def bitsValue_numeral streamBit_def newLowBitReader_def skipStream_def
      skipReader_def)

lemma fur_callDL: "callDL furCtx 0 1 furStart 0 = Some furAfter"
  using fur_callDL_eval by (simp add: furCtx_def furStart_def furAfter_def)

lemma fur_stepMain: "stepMain furCtx 0 1 furStep = Some (furStepAfter, False)"
  by (simp add: furCtx_def furStep_def furStart_def furStepAfter_def furAfter_def furReader_def
      interp_eval calldl_eval special_eval furModel_def furGeometry_def)

lemma replicate_GX:
  "replicate GX_MAX x = [x, x, x, x, x, x, x, x, x, x, x, x, x, x, x, x, x, x, x, x]"
  by (simp add: GX_MAX_def numeral_eq_Suc)

lemma vcdReader_bit:
  "i < 24 \<Longrightarrow> getBits (vcdReader i) (Suc 0) = Some (streamBit (vcdReader i) i, vcdReader (Suc i))"
  by (simp add: getBits_def vcdReader_def skipStream_def)

lemma vcdReader_bits567:
  "streamBit (vcdReader i) 5 = 0" "streamBit (vcdReader i) 6 = 1" "streamBit (vcdReader i) 7 = 0"
  by (simp_all add: streamBit_def vcdReader_def skipStream_def)

lemma matrixIndexSlots_none:
  "c_jointCount C = 0 \<Longrightarrow> matrixIndexSlots C sh = Some (vcdPosClrTex NONE NONE NONE)"
  by (simp add: matrixIndexSlots_def replicate_GX vcdPosClrTex_def)

lemma readPos_5:
  "readPos (vcdPosClrTex NONE NONE NONE) (vcdReader 5)
   = Some (vcdPosClrTex INDEX8 NONE NONE, vcdReader 6)"
  using vcdReader_bit[of 5]
  by (simp add: readPos_def vcdReader_bits567 indexSize_def vcdSet_def vcdPosClrTex_def GX_POS_def)

lemma readNrm_none:
  "attrFlags sh AND NRM (c_AF C) = 0 \<Longrightarrow>
   readNrm C sh (vcdPosClrTex p NONE NONE) b = Some (vcdPosClrTex p NONE NONE, b)"
  by (simp add: readNrm_def vcdSet_def vcdPosClrTex_def GX_NRM_def)

lemma readClr0_6:
  "wantClr0 C sh \<Longrightarrow> \<not> c_isEarly34Map C \<Longrightarrow>
   readClr0 C sh (vcdPosClrTex p NONE NONE) (vcdReader 6)
   = Some (vcdPosClrTex p INDEX16 NONE, vcdReader 7)"
  using vcdReader_bit[of 6]
  by (simp add: readClr0_def vcdReader_bits567 indexSize_def vcdSet_def vcdPosClrTex_def GX_CLR0_def)

lemma readClr0_skip:
  "\<not> wantClr0 C sh \<Longrightarrow>
   readClr0 C sh (vcdPosClrTex p NONE NONE) b = Some (vcdPosClrTex p NONE NONE, b)"
  by (simp add: readClr0_def vcdSet_def vcdPosClrTex_def GX_CLR0_def)

lemma layerShader_layers: "length (layers (layerShader attr)) = 1"
  by (simp add: layerShader_def initShader_def)

lemma readTexCoords_6:
  "readTexCoords (layerShader attr) (vcdPosClrTex p c NONE) (vcdReader 6)
   = Some (vcdPosClrTex p c INDEX16, vcdReader 7)"
  using vcdReader_bit[of 6]
  by (simp add: readTexCoords_def layerShader_layers vcdReader_bits567 indexSize_def upt8
      vcdSet_def vcdPosClrTex_def GX_TEX0_def)

lemma readTexCoords_7:
  "readTexCoords (layerShader attr) (vcdPosClrTex p c NONE) (vcdReader 7)
   = Some (vcdPosClrTex p c INDEX8, vcdReader 8)"
  using vcdReader_bit[of 7]
  by (simp add: readTexCoords_def layerShader_layers vcdReader_bits567 indexSize_def upt8
      vcdSet_def vcdPosClrTex_def GX_TEX0_def)

lemma alignAfterVcd_final: "\<not> mf_oldVat (c_fields C) \<Longrightarrow> alignAfterVcd C b = Some b"
  by (simp add: alignAfterVcd_def)

lemma layerShader_attr: "attrFlags (layerShader attr) = attr"
  by (simp add: layerShader_def)

lemma objectCtx_facts:
  "c_jointCount objectCtx = 0" "\<not> mf_oldVat (c_fields objectCtx)"
  "\<not> mf_isMapBlock (c_fields objectCtx)" "\<not> c_isEarly34Map objectCtx"
  "c_hasColorTable objectCtx" "CLR (c_AF objectCtx) = 2" "NRM (c_AF objectCtx) = 1"
  by (simp_all add: objectCtx_def mapCtx_def FIELDS_Final_def stdShaderAttrFlags_def)

lemma skipCtx_facts:
  "c_jointCount skipCtx = 0" "\<not> mf_oldVat (c_fields skipCtx)"
  "mf_isMapBlock (c_fields skipCtx)" "\<not> c_isEarly34Map skipCtx"
  "c_hasColorTable skipCtx" "CLR (c_AF skipCtx) = 2" "NRM (c_AF skipCtx) = 1"
  by (simp_all add: skipCtx_def mapCtx_def FIELDS_FinalMap_def stdShaderAttrFlags_def)

lemma emptyTableCtx_facts:
  "c_jointCount emptyTableCtx = 0" "\<not> mf_oldVat (c_fields emptyTableCtx)"
  "mf_isMapBlock (c_fields emptyTableCtx)" "\<not> c_isEarly34Map emptyTableCtx"
  "c_hasColorTable emptyTableCtx" "c_usingDummyClr emptyTableCtx"
  "CLR (c_AF emptyTableCtx) = 2" "NRM (c_AF emptyTableCtx) = 1"
  by (simp_all add: emptyTableCtx_def mapCtx_def FIELDS_FinalMap_def stdShaderAttrFlags_def
      hasColorTable_def usingDummyClr_def clrBufferForArraysLength_def)

lemma read_object_clr:
  "readVertexDesc objectCtx (vcdReader 5) (Some (layerShader 2))
   = Some (vcdPosClrTex INDEX8 INDEX16 INDEX8, vcdReader 8)"
proof -
  have w: "wantClr0 objectCtx (layerShader 2)"
    by (simp add: wantClr0_def objectCtx_facts layerShader_attr)
  show ?thesis
    by (simp add: readVertexDesc_def matrixIndexSlots_none readPos_5 readNrm_none
        readClr0_6[OF w] readTexCoords_7 alignAfterVcd_final objectCtx_facts layerShader_attr)
qed

lemma read_object_plain:
  "readVertexDesc objectCtx (vcdReader 5) (Some (layerShader 0))
   = Some (vcdPosClrTex INDEX8 NONE INDEX16, vcdReader 7)"
proof -
  have w: "\<not> wantClr0 objectCtx (layerShader 0)"
    by (simp add: wantClr0_def objectCtx_facts layerShader_attr)
  show ?thesis
    by (simp add: readVertexDesc_def matrixIndexSlots_none readPos_5 readNrm_none
        readClr0_skip[OF w] readTexCoords_6 alignAfterVcd_final objectCtx_facts layerShader_attr)
qed

lemma read_map_plain:
  "readVertexDesc skipCtx (vcdReader 5) (Some (layerShader 0))
   = Some (vcdPosClrTex INDEX8 INDEX16 INDEX8, vcdReader 8)"
proof -
  have w: "wantClr0 skipCtx (layerShader 0)"
    by (simp add: wantClr0_def skipCtx_facts)
  show ?thesis
    by (simp add: readVertexDesc_def matrixIndexSlots_none readPos_5 readNrm_none
        readClr0_6[OF w] readTexCoords_7 alignAfterVcd_final skipCtx_facts layerShader_attr)
qed

lemma read_empty_table_map:
  "readVertexDesc emptyTableCtx (vcdReader 5) (Some (layerShader 0))
   = Some (vcdPosClrTex INDEX8 INDEX16 INDEX8, vcdReader 8)"
proof -
  have w: "wantClr0 emptyTableCtx (layerShader 0)"
    by (simp add: wantClr0_def emptyTableCtx_facts)
  show ?thesis
    by (simp add: readVertexDesc_def matrixIndexSlots_none readPos_5 readNrm_none
        readClr0_6[OF w] readTexCoords_7 alignAfterVcd_final emptyTableCtx_facts layerShader_attr)
qed

section \<open>Properties of vertex descriptor reconstruction\<close>

text \<open>
  The number of bits each attribute takes from the stream, and the position of the
  reader after the realignment of the legacy formats.
\<close>

definition nrmBit :: "loadCtx \<Rightarrow> shader \<Rightarrow> nat" where
  "nrmBit C sh = (if mf_hasNormals (c_fields C) \<and> attrFlags sh AND NRM (c_AF C) \<noteq> 0 then 1 else 0)"

definition clrBit :: "loadCtx \<Rightarrow> shader \<Rightarrow> nat" where
  "clrBit C sh = (if wantClr0 C sh then 1 else 0)"

definition texBit :: "shader \<Rightarrow> nat" where
  "texBit sh = (if length (layers sh) > 0 then 1 else 0)"

definition alignedIndex :: "loadCtx \<Rightarrow> nat \<Rightarrow> nat" where
  "alignedIndex C k = (if mf_oldVat (c_fields C) \<and> k mod 8 \<noteq> 0 then k + (8 - k mod 8) else k)"

text \<open>
  The condition of the claim as the spec words it: the shader declares a colour
  attribute, or the asset is map geometry and its colour table is not empty.
\<close>

definition clr0BitClaimed :: "loadCtx \<Rightarrow> nat \<Rightarrow> shader \<Rightarrow> bool" where
  "clr0BitClaimed C clrBufferLength sh =
     (0 < unat (attrFlags sh AND CLR (c_AF C))
      \<or> (mf_isMapBlock (c_fields C) \<and> 0 < clrBufferLength))"

lemma getBits_index: "getBits r n = Some (x, r') \<Longrightarrow> bitIndex r' = bitIndex r + n"
  by (auto simp: getBits_def split: if_splits)

lemma dropBits_index: "dropBits r n = Some r' \<Longrightarrow> bitIndex r' = bitIndex r + n"
  by (auto simp: dropBits_def dest: getBits_index)

lemma getBits_one:
  "getBits r (Suc 0) = Some (x, r') \<Longrightarrow>
   x = streamBit r (bitIndex r) \<and> r' = r\<lparr> bitIndex := bitIndex r + 1 \<rparr>"
  by (auto simp: getBits_def split: if_splits)

lemma streamBit_seek [simp]: "streamBit (r\<lparr> bitIndex := k \<rparr>) p = streamBit r p"
  by (simp add: streamBit_def)

lemma setTexCoords_frame:
  "a \<notin> (\<lambda>t. GX_TEX0 + t) ` set ts \<Longrightarrow> vcdGet (setTexCoords v k ty ts) a = vcdGet v a"
  by (induction ts arbitrary: v) (auto simp: vcdGet_vcdSet)

lemma clr0_not_tex: "GX_CLR0 \<notin> (\<lambda>t. GX_TEX0 + t) ` set ts"
  by (auto simp: GX_CLR0_def GX_TEX0_def)

lemma setTexCoords_tex0:
  "0 < k \<Longrightarrow> vcdGet (setTexCoords v k ty [0..<8]) GX_TEX0 = Some ty"
  by (simp add: upt8 vcdGet_vcdSet)

lemma readPos_reader:
  "readPos v bits = Some (v', bits') \<Longrightarrow> bits' = bits\<lparr> bitIndex := bitIndex bits + 1 \<rparr>"
  by (auto simp: readPos_def dest: getBits_one)

lemma readNrm_reader:
  "readNrm C sh v bits = Some (v', bits') \<Longrightarrow>
   bits' = bits\<lparr> bitIndex := bitIndex bits + nrmBit C sh \<rparr>"
  by (auto simp: readNrm_def nrmBit_def split: if_splits dest: getBits_one)

lemma readClr0_effect:
  assumes "readClr0 C sh v bits = Some (v', bits')"
  shows "bits' = bits\<lparr> bitIndex := bitIndex bits + clrBit C sh \<rparr>
   \<and> vcdGet v' GX_CLR0 =
       Some (if wantClr0 C sh
             then (if c_isEarly34Map C then INDEX16
                   else if streamBit bits (bitIndex bits) \<noteq> 0 then INDEX16 else INDEX8)
             else NONE)"
proof (cases "wantClr0 C sh")
  case False
  then show ?thesis using assms by (auto simp: readClr0_def clrBit_def vcdGet_vcdSet)
next
  case True
  with assms obtain c where g: "getBits bits (Suc 0) = Some (c, bits')"
    and v': "v' = vcdSet v GX_CLR0 (if c_isEarly34Map C then INDEX16 else indexSize c)"
    by (auto simp: readClr0_def split: if_splits)
  from getBits_one[OF g] v' True show ?thesis
    by (simp add: clrBit_def vcdGet_vcdSet indexSize_def)
qed

lemma readTexCoords_effect:
  assumes "readTexCoords sh v bits = Some (v', bits')"
  shows "bits' = bits\<lparr> bitIndex := bitIndex bits + texBit sh \<rparr>
   \<and> vcdGet v' GX_CLR0 = vcdGet v GX_CLR0
   \<and> (layers sh \<noteq> [] \<longrightarrow>
        vcdGet v' GX_TEX0 = Some (if streamBit bits (bitIndex bits) \<noteq> 0 then INDEX16 else INDEX8))"
proof (cases "layers sh = []")
  case True
  then show ?thesis using assms
    by (auto simp: readTexCoords_def texBit_def setTexCoords_frame[OF clr0_not_tex]
        simp del: upt.simps)
next
  case False
  with assms obtain c where g: "getBits bits (Suc 0) = Some (c, bits')"
    and v': "v' = setTexCoords v (length (layers sh)) (indexSize c) [0..<8]"
    by (auto simp: readTexCoords_def)
  from getBits_one[OF g] v' False show ?thesis
    by (simp add: texBit_def setTexCoords_frame[OF clr0_not_tex] setTexCoords_tex0 indexSize_def
        del: upt.simps)
qed

lemma alignAfterVcd_index:
  "alignAfterVcd C bits = Some bits' \<Longrightarrow> bitIndex bits' = alignedIndex C (bitIndex bits)"
  by (auto simp: alignAfterVcd_def alignedIndex_def Let_def split: if_splits dest: dropBits_index)

text \<open>
  With \<open>hasColorTable\<close> as \<open>loadModel\<close> computes it, the test \<open>wantClr0\<close> does not depend
  on the colour table of a map: an empty one has been replaced by the dummy table.
\<close>

lemma wantClr0_loadModel:
  assumes "c_hasColorTable C
      = hasColorTable (mf_isMapBlock (c_fields C)) (c_isEarly34Map C) clrBufferLength"
  shows "wantClr0 C sh = (mf_isMapBlock (c_fields C) \<or> attrFlags sh AND CLR (c_AF C) \<noteq> 0)"
  using assms
  by (auto simp: wantClr0_def hasColorTable_def clrBufferForArraysLength_def Let_def)

text \<open>
  Claim C9, as the code has it. In a context whose \<open>hasColorTable\<close> is the one
  \<open>loadModel\<close> computes from the colour table of the file, the colour-size bit is read
  exactly when the shader declares a colour attribute or the model is a map block,
  whatever the colour table of the map: then CLR0 is the 16-bit index for an Early3 or
  Early4 map and otherwise the index width chosen by the stream bit that follows the POS
  and NRM bits, the texture-coordinate bit is the bit after it, and the reader ends one
  bit further. In all other cases CLR0 is absent and no bit is taken for it: the
  texture-coordinate bit is the bit that follows the POS and NRM bits.
\<close>

theorem readVertexDesc_clr0_bit:
  assumes "readVertexDesc C bits (Some sh) = Some (v, bits')"
    and "c_hasColorTable C
      = hasColorTable (mf_isMapBlock (c_fields C)) (c_isEarly34Map C) clrBufferLength"
  shows "(mf_isMapBlock (c_fields C) \<or> attrFlags sh AND CLR (c_AF C) \<noteq> 0 \<longrightarrow>
            vcdGet v GX_CLR0 =
              Some (if c_isEarly34Map C then INDEX16
                    else if streamBit bits (bitIndex bits + 1 + nrmBit C sh) \<noteq> 0 then INDEX16
                    else INDEX8)
            \<and> (layers sh \<noteq> [] \<longrightarrow>
                 vcdGet v GX_TEX0 =
                   Some (if streamBit bits (bitIndex bits + 1 + nrmBit C sh + 1) \<noteq> 0
                         then INDEX16 else INDEX8))
            \<and> bitIndex bits' = alignedIndex C (bitIndex bits + 1 + nrmBit C sh + 1 + texBit sh))
       \<and> (\<not> (mf_isMapBlock (c_fields C) \<or> attrFlags sh AND CLR (c_AF C) \<noteq> 0) \<longrightarrow>
            vcdGet v GX_CLR0 = Some NONE
            \<and> (layers sh \<noteq> [] \<longrightarrow>
                 vcdGet v GX_TEX0 =
                   Some (if streamBit bits (bitIndex bits + 1 + nrmBit C sh) \<noteq> 0
                         then INDEX16 else INDEX8))
            \<and> bitIndex bits' = alignedIndex C (bitIndex bits + 1 + nrmBit C sh + texBit sh))"
proof -
  from assms(1) obtain vcd1 vcd2 bits1 vcd3 bits2 vcd4 bits3 bits4 where
    g1: "readPos vcd1 bits = Some (vcd2, bits1)"
    and g2: "readNrm C sh vcd2 bits1 = Some (vcd3, bits2)"
    and g3: "readClr0 C sh vcd3 bits2 = Some (vcd4, bits3)"
    and g4: "readTexCoords sh vcd4 bits3 = Some (v, bits4)"
    and g5: "alignAfterVcd C bits4 = Some bits'"
    using readVertexDesc_phases[OF assms(1)] by auto
  note w = wantClr0_loadModel[OF assms(2), of sh]
  have b1: "bits1 = bits\<lparr> bitIndex := bitIndex bits + 1 \<rparr>"
    using readPos_reader[OF g1] .
  have b2: "bits2 = bits\<lparr> bitIndex := bitIndex bits + 1 + nrmBit C sh \<rparr>"
    using readNrm_reader[OF g2] b1 by simp
  have b3: "bits3 = bits\<lparr> bitIndex := bitIndex bits + 1 + nrmBit C sh + clrBit C sh \<rparr>"
    using readClr0_effect[OF g3] b2 by simp
  have b4: "bitIndex bits4 = bitIndex bits + 1 + nrmBit C sh + clrBit C sh + texBit sh"
    using readTexCoords_effect[OF g4] b3 by simp
  have c: "vcdGet v GX_CLR0 =
       Some (if wantClr0 C sh
             then (if c_isEarly34Map C then INDEX16
                   else if streamBit bits (bitIndex bits + 1 + nrmBit C sh) \<noteq> 0 then INDEX16
                   else INDEX8)
             else NONE)"
    using readClr0_effect[OF g3] readTexCoords_effect[OF g4] b2 by simp
  have t: "layers sh \<noteq> [] \<longrightarrow>
        vcdGet v GX_TEX0 =
          Some (if streamBit bits (bitIndex bits + 1 + nrmBit C sh + clrBit C sh) \<noteq> 0
                then INDEX16 else INDEX8)"
    using readTexCoords_effect[OF g4] b3 by simp
  have e: "bitIndex bits' = alignedIndex C (bitIndex bits + 1 + nrmBit C sh + clrBit C sh + texBit sh)"
    using alignAfterVcd_index[OF g5] b4 by simp
  show ?thesis
  proof (cases "wantClr0 C sh")
    case True
    with w c t e show ?thesis by (simp add: clrBit_def)
  next
    case False
    with w c t e show ?thesis by (simp add: clrBit_def)
  qed
qed

text \<open>
  From bit 5 of \<open>skipStream\<close>, with a shader of one texture layer. In the object model a
  shader that declares colour takes bit 6 for CLR0 (16-bit index) and bit 7 for the
  texture coordinates; a shader that declares none leaves CLR0 absent and takes bit 6
  for the texture coordinates. In the map model the shader that declares no colour
  takes bit 6 for CLR0 all the same.
\<close>

theorem readVertexDesc_clr0_bit_witness:
  "readVertexDesc objectCtx (vcdReader 5) (Some (layerShader 2))
     = Some (vcdPosClrTex INDEX8 INDEX16 INDEX8, vcdReader 8)
   \<and> c_hasColorTable objectCtx = hasColorTable False False 4
   \<and> attrFlags (layerShader 2) AND CLR (c_AF objectCtx) = 2
   \<and> vcdGet (vcdPosClrTex INDEX8 INDEX16 INDEX8) GX_CLR0 = Some INDEX16
   \<and> vcdGet (vcdPosClrTex INDEX8 INDEX16 INDEX8) GX_TEX0 = Some INDEX8
   \<and> bitIndex (vcdReader 8) = 8
   \<and> readVertexDesc objectCtx (vcdReader 5) (Some (layerShader 0))
     = Some (vcdPosClrTex INDEX8 NONE INDEX16, vcdReader 7)
   \<and> attrFlags (layerShader 0) AND CLR (c_AF objectCtx) = 0
   \<and> vcdGet (vcdPosClrTex INDEX8 NONE INDEX16) GX_CLR0 = Some NONE
   \<and> vcdGet (vcdPosClrTex INDEX8 NONE INDEX16) GX_TEX0 = Some INDEX16
   \<and> bitIndex (vcdReader 7) = 7
   \<and> readVertexDesc skipCtx (vcdReader 5) (Some (layerShader 0))
     = Some (vcdPosClrTex INDEX8 INDEX16 INDEX8, vcdReader 8)
   \<and> c_hasColorTable skipCtx = hasColorTable True False 4
   \<and> mf_isMapBlock (c_fields skipCtx)"
proof -
  have h1: "c_hasColorTable objectCtx
      = hasColorTable (mf_isMapBlock (c_fields objectCtx)) (c_isEarly34Map objectCtx) 4"
    by (simp add: objectCtx_facts hasColorTable_def clrBufferForArraysLength_def)
  have h2: "c_hasColorTable skipCtx
      = hasColorTable (mf_isMapBlock (c_fields skipCtx)) (c_isEarly34Map skipCtx) 4"
    by (simp add: skipCtx_facts hasColorTable_def clrBufferForArraysLength_def)
  have a: "attrFlags (layerShader 2) AND CLR (c_AF objectCtx) = 2"
    "attrFlags (layerShader 0) AND CLR (c_AF objectCtx) = 0"
    by (simp_all add: layerShader_attr objectCtx_facts)
  have g: "vcdGet (vcdPosClrTex p c t) GX_CLR0 = Some c" "vcdGet (vcdPosClrTex p c t) GX_TEX0 = Some t"
    for p c t
    by (simp_all add: vcdGet_def vcdPosClrTex_def GX_CLR0_def GX_TEX0_def)
  from read_object_clr read_object_plain read_map_plain h1 h2 a
    readVertexDesc_clr0_bit [OF read_object_clr h1]
    readVertexDesc_clr0_bit [OF read_object_plain h1]
    readVertexDesc_clr0_bit [OF read_map_plain h2]
  show ?thesis
    by (simp add: g objectCtx_facts skipCtx_facts vcdReader_def)
qed

text \<open>
  C9 as stated fails for a map whose file has an empty colour table: \<open>loadModel\<close>
  replaces the table by the dummy table before it computes \<open>hasColorTable\<close>, so the
  colour-size bit is read although the shader declares no colour and the colour table
  of the asset is empty. From bit 5 of \<open>skipStream\<close> the reader takes bit 6 for CLR0 and
  ends at bit 8.
\<close>

theorem readVertexDesc_empty_table_map_reads_clr0:
  "mf_isMapBlock (c_fields emptyTableCtx)
   \<and> c_hasColorTable emptyTableCtx = hasColorTable True False 0
   \<and> c_usingDummyClr emptyTableCtx = usingDummyClr True False 0
   \<and> \<not> clr0BitClaimed emptyTableCtx 0 (layerShader 0)
   \<and> readVertexDesc emptyTableCtx (vcdReader 5) (Some (layerShader 0))
       = Some (vcdPosClrTex INDEX8 INDEX16 INDEX8, vcdReader 8)
   \<and> vcdGet (vcdPosClrTex INDEX8 INDEX16 INDEX8) GX_CLR0 = Some INDEX16"
proof -
  have c: "\<not> clr0BitClaimed emptyTableCtx 0 (layerShader 0)"
    by (simp add: clr0BitClaimed_def layerShader_attr)
  have g: "vcdGet (vcdPosClrTex INDEX8 INDEX16 INDEX8) GX_CLR0 = Some INDEX16"
    by (simp add: vcdGet_def vcdPosClrTex_def GX_CLR0_def)
  from c g read_empty_table_map show ?thesis
    by (simp add: emptyTableCtx_facts hasColorTable_def usingDummyClr_def
        clrBufferForArraysLength_def)
qed

section \<open>Properties of the command stream interpreters\<close>

text \<open>An opcode outside \<open>SetShader\<close>, \<open>CallDL\<close>, \<open>SetVCD\<close>, \<open>SetMatrices\<close> and \<open>End\<close>.\<close>

definition unknownOpcode :: "nat \<Rightarrow> bool" where
  "unknownOpcode opcode = (opcode \<noteq> 1 \<and> opcode \<noteq> 2 \<and> opcode \<noteq> 3 \<and> opcode \<noteq> 4 \<and> opcode \<noteq> 5)"

definition treatedAsEnd :: "loadCtx \<Rightarrow> nat \<Rightarrow> nat \<Rightarrow> interpState \<Rightarrow> bool" where
  "treatedAsEnd C drawStep bitsOffset st =
     (case getBits (st_bits st) 4 of
        None \<Rightarrow> False
      | Some (opcode, b1) \<Rightarrow>
          stepMain C drawStep bitsOffset st = Some (st\<lparr> st_bits := b1 \<rparr>, True))"

text \<open>
  Claim C3, as the code has it. In the special stream an unknown opcode ends the
  interpretation: the step sets \<open>done\<close> and the loop returns the shapes collected so
  far. In the main stream an unknown opcode is skipped: the step consumes its four bits,
  changes nothing else and does not set \<open>done\<close>, so the loop goes on with the next
  opcode. Neither raises.
\<close>

theorem unknown_opcode_main_skips_special_ends:
  assumes "unknownOpcode opcode"
  shows "(getBits (st_bits st) 4 = Some (opcode, b1) \<longrightarrow>
            stepMain C drawStep bitsOffset st = Some (st\<lparr> st_bits := b1 \<rparr>, False)
            \<and> runLoop C drawStep bitsOffset st = runLoop C drawStep bitsOffset (st\<lparr> st_bits := b1 \<rparr>))
       \<and> (getBits (ss_bits ss) 4 = Some (opcode, b2) \<longrightarrow>
            stepSpecial C shaders pn mk keep ss = Some (ss\<lparr> ss_bits := b2 \<rparr>, True)
            \<and> runSpecialLoop C shaders pn mk keep ss = Some (ss_out ss))"
proof -
  have m: "stepMain C drawStep bitsOffset st = Some (st\<lparr> st_bits := b1 \<rparr>, False)"
    if "getBits (st_bits st) 4 = Some (opcode, b1)"
    using that assms by (simp add: stepMain_def unknownOpcode_def)
  have s: "stepSpecial C shaders pn mk keep ss = Some (ss\<lparr> ss_bits := b2 \<rparr>, True)"
    if "getBits (ss_bits ss) 4 = Some (opcode, b2)"
    using that assms by (simp add: stepSpecial_def unknownOpcode_def)
  have ml: "runLoop C drawStep bitsOffset st = runLoop C drawStep bitsOffset (st\<lparr> st_bits := b1 \<rparr>)"
    if "getBits (st_bits st) 4 = Some (opcode, b1)"
    by (subst runLoop.simps) (simp add: m[OF that])
  have sl: "runSpecialLoop C shaders pn mk keep ss = Some (ss_out ss)"
    if "getBits (ss_bits ss) 4 = Some (opcode, b2)"
    by (subst runSpecialLoop.simps) (simp add: s[OF that])
  from m s ml sl show ?thesis by blast
qed

theorem unknown_opcode_main_skips_special_ends_witness:
  "unknownOpcode 0
   \<and> getBits (st_bits skipState) 4 = Some (0, skipReader)
   \<and> stepMain skipCtx 0 1 skipState = Some (skipState\<lparr> st_bits := skipReader \<rparr>, False)
   \<and> runLoop skipCtx 0 1 skipState = runLoop skipCtx 0 1 (skipState\<lparr> st_bits := skipReader \<rparr>)
   \<and> getBits (ss_bits skipSpecial) 4 = Some (0, skipReader)
   \<and> stepSpecial skipCtx [] [] FurMaterial (keepFur stdShaderFlags) skipSpecial
       = Some (skipSpecial\<lparr> ss_bits := skipReader \<rparr>, True)
   \<and> runSpecialLoop skipCtx [] [] FurMaterial (keepFur stdShaderFlags) skipSpecial
       = Some (ss_out skipSpecial)"
proof -
  have u: "unknownOpcode 0" by (simp add: unknownOpcode_def)
  have g1: "getBits (st_bits skipState) 4 = Some (0, skipReader)"
    unfolding skipState_def using skip_getBits by simp
  have g2: "getBits (ss_bits skipSpecial) 4 = Some (0, skipReader)"
    unfolding skipSpecial_def using skip_getBits by simp
  from u g1 g2
    unknown_opcode_main_skips_special_ends [OF u, of skipState skipReader skipCtx 0 1 skipSpecial
      skipReader "[]" "[]" FurMaterial "keepFur stdShaderFlags"]
  show ?thesis by simp
qed

text \<open>
  The main interpreter on \<open>skipStream\<close>: the first opcode is 0, the step it takes is not
  the step of \<open>End\<close>, and the \<open>SetMatrices\<close> command after it is executed: the run ends
  with 7 in slot 0 of the matrix map, which an interpreter stopping at the unknown opcode
  would have left at 0.
\<close>

theorem unknown_opcode_not_treated_as_end:
  "getBits (st_bits skipState) 4 = Some (0, skipReader)
   \<and> \<not> treatedAsEnd skipCtx 0 1 skipState
   \<and> map_option st_pnMatrixMap (runBitstream skipCtx 0 1 (startState [shaderWithFlags 0]))
       = Some [7, 0, 0, 0, 0, 0, 0, 0, 0, 0]"
proof -
  have g1: "getBits (st_bits skipState) 4 = Some (0, skipReader)"
    unfolding skipState_def using skip_getBits by simp
  have s: "stepMain skipCtx 0 1 skipState = Some (skipState\<lparr> st_bits := skipReader \<rparr>, False)"
    using g1 by (simp add: stepMain_def)
  have r: "map_option st_pnMatrixMap (runBitstream skipCtx 0 1 (startState [shaderWithFlags 0]))
       = Some [7, 0, 0, 0, 0, 0, 0, 0, 0, 0]"
    by (simp add: skipCtx_def interp_eval skipStream_def)
  from g1 s r show ?thesis by (simp add: treatedAsEnd_def)
qed


lemma waterPath_frame:
  "waterPath C bo st sh dlInfo = Some st' \<Longrightarrow>
     st_shapes st' = st_shapes st \<and> st_furs st' = st_furs st
     \<and> st_shaders st' = st_shaders st \<and> st_curShader st' = st_curShader st"
  by (auto simp: waterPath_def split: option.splits if_splits)

text \<open>
  The fur path pushed an entry for the shader \<open>sh\<close> and the table entry \<open>dlInfo\<close>: the
  fur list grew by one entry whose layer count is 16, 8 or 4 by the LongFur and MediumFur
  flags of the shader, the pass is 0, the shader has one of the three fur flags, and the
  special bit address of the entry is defined and not zero.
\<close>

definition furPushed ::
  "loadCtx \<Rightarrow> nat \<Rightarrow> shader \<Rightarrow> displayListInfo \<Rightarrow> interpState \<Rightarrow> interpState \<Rightarrow> bool" where
  "furPushed C drawStep sh dlInfo st st' =
     (\<exists>firstFur a.
        st_furs st' = st_furs st
          @ [(firstFur, if flags sh AND LongFur (c_SF C) \<noteq> 0 then 16
                        else if flags sh AND MediumFur (c_SF C) \<noteq> 0 then 8 else 4)]
        \<and> drawStep = 0
        \<and> flags sh AND (ShortFur (c_SF C) OR MediumFur (c_SF C) OR LongFur (c_SF C)) \<noteq> 0
        \<and> specialBitAddress dlInfo = Some a \<and> a \<noteq> 0)"

lemma furPath_effect:
  "furPath C ds bo st sh dlInfo = Some st' \<Longrightarrow>
     st_shapes st' = st_shapes st \<and> st_shaders st' = st_shaders st
     \<and> st_curShader st' = st_curShader st
     \<and> (st_furs st' = st_furs st \<or> furPushed C ds sh dlInfo st st')"
  by (auto simp: furPath_def furPushed_def furLayers_def furMask_def hasSpecial_def
      split: option.splits if_splits list.splits)

text \<open>
  The attempts of the normal path: either the guard for tiny lists skipped the list, or
  the attempts returned and the shape of the successful one, if any, was pushed.
\<close>

lemma normalPathPush_cases:
  assumes "normalPathPush C st sh dlInfo dl = Some (st', r)"
  shows "(st' = st \<and> \<not> r)
     \<or> (\<exists>tunedVcd result m.
           tuneVCDForDL (c_data C) (offset dlInfo) (size_dl dlInfo) (st_vcd st) (c_fields C)
             = Some tunedVcd
           \<and> \<not> tinyDlSkip (c_data C) dlInfo tunedVcd
           \<and> decodeAttempts C st dlInfo tunedVcd = Some (result, r)
           \<and> st' = (case result of None \<Rightarrow> st
                     | Some geom \<Rightarrow> st\<lparr> st_shapes := st_shapes st
                          @ [mkShape geom m (flags sh AND DevGeometry (c_SF C) \<noteq> 0)] \<rparr>))"
  using assms
  by (auto simp: normalPathPush_def Let_def split: option.splits if_splits)

lemma normalPathPush_frame:
  assumes "normalPathPush C st sh dlInfo dl = Some (st', r)"
  shows "st_furs st' = st_furs st \<and> st_shaders st' = st_shaders st
     \<and> st_curShader st' = st_curShader st"
  using normalPathPush_cases[OF assms] by (auto split: option.splits)

lemma normalPath_furs:
  assumes "normalPath C ds bo st sh dlInfo dl = Some st'"
  shows "st_shaders st' = st_shaders st \<and> st_curShader st' = st_curShader st
     \<and> (st_furs st' = st_furs st \<or> furPushed C ds sh dlInfo st st')"
proof -
  from assms obtain st2 r where p: "normalPathPush C st sh dlInfo dl = Some (st2, r)"
    and f: "if r then furPath C ds bo st2 sh dlInfo = Some st' else st' = st2"
    by (auto simp: normalPath_def split: option.splits if_splits)
  note e = normalPathPush_frame[OF p]
  show ?thesis
  proof (cases r)
    case True
    with f have "furPath C ds bo st2 sh dlInfo = Some st'" by simp
    from furPath_effect[OF this] e show ?thesis by (auto simp: furPushed_def)
  next
    case False
    with f e show ?thesis by simp
  qed
qed

text \<open>
  Claim C4. The water path constructs its geometry outside any \<open>try\<close>. On
  \<open>oneListModel\<close> with a constructor that always throws: under a shader with the Water
  flag the exception leaves \<open>runBitstream\<close>; under a plain shader the same failure is
  caught, the retries fail as well, the list is omitted and the run ends normally with
  no shape. With a constructor that succeeds the water shader gives one water shape.
\<close>

theorem water_path_geometry_failure_propagates:
  "runBitstream (mapCtx oneListModel [listEntry 4 4 0] rejectAll) 0 1
     (startState [shaderWithFlags 0x80000000]) = None
   \<and> map_option st_shapes
       (runBitstream (mapCtx oneListModel [listEntry 4 4 0] rejectAll) 0 1
          (startState [shaderWithFlags 0])) = Some []
   \<and> map_option st_waters
       (runBitstream (mapCtx oneListModel [listEntry 4 4 0] acceptAll) 0 1
          (startState [shaderWithFlags 0x80000000]))
      = Some [mkShape \<lparr> g_vcd = [], g_displayList = (4, 4), g_hasSkinning = False,
                 g_aabb = None, g_sortLayer = None \<rparr>
               (WaterMaterial (Some (shaderWithFlags 0x80000000))) False]"
  using water_rejecting_run plain_rejecting_run water_accepting_run by simp

lemma callDL_furs:
  assumes "callDL C ds bo st listNum = Some st'"
  shows "st_furs st' = st_furs st
     \<or> (listNum < length (c_dlInfos C)
        \<and> (\<exists>sh. shaderAt (st_shaders st') (st_curShader st') = Some sh
              \<and> furPushed C ds sh (c_dlInfos C ! listNum) st st'))"
proof (cases "st_furs st' = st_furs st")
  case True
  then show ?thesis by simp
next
  case False
  from assms False have ln: "listNum < length (c_dlInfos C)"
    by (auto simp: callDL_def split: if_splits)
  let ?dlInfo = "c_dlInfos C ! listNum"
  from assms False ln obtain dl sh0 where
    sh0: "shaderAt (st_shaders st) (st_curShader st) = Some sh0"
    and dl: "dataSubarrayLen (c_data C) (offset ?dlInfo) (size_dl ?dlInfo) = Some dl"
    by (auto simp: callDL_def Let_def split: if_splits option.splits)
  define sh where "sh = (if (sf_isEarly1 (mf_shaderFields (c_fields C)) \<or> sf_isEarly3 (mf_shaderFields (c_fields C)))
                                    \<and> \<not> (flags sh0 AND AlphaCompare (c_SF C) \<noteq> 0)
                                    \<and> dlHasAlphaCompare dl
                         then sh0\<lparr> flags := flags sh0 OR AlphaCompare (c_SF C) \<rparr> else sh0)"
  define st1 where "st1 = st\<lparr> st_shaders := (st_shaders st)[st_curShader st := sh] \<rparr>"
  from assms False ln sh0 dl have np: "normalPath C ds bo st1 sh ?dlInfo dl = Some st'"
    by (auto simp: callDL_def Let_def sh_def st1_def split: if_splits dest!: waterPath_frame)
  have cur: "st_curShader st < length (st_shaders st)"
    using sh0 by (auto simp: shaderAt_def split: if_splits)
  from normalPath_furs[OF np] False have
    "st_shaders st' = st_shaders st1" "st_curShader st' = st_curShader st1"
    and f: "furPushed C ds sh ?dlInfo st1 st'"
    by (auto simp: st1_def)
  then have "shaderAt (st_shaders st') (st_curShader st') = Some sh"
    using cur by (simp add: st1_def shaderAt_def)
  moreover from f have "furPushed C ds sh ?dlInfo st st'"
    by (simp add: furPushed_def st1_def)
  ultimately show ?thesis using ln by blast
qed

lemma setShader_furs: "setShader C st num = Some st' \<Longrightarrow> st_furs st' = st_furs st"
  by (auto simp: setShader_def Let_def split: option.splits if_splits)

text \<open>
  Claim C8. A step of the main interpreter either leaves the fur list unchanged, or it
  is a \<open>CallDL\<close> (opcode 2) of the list number read from the stream, the pass is 0, the
  current shader has the ShortFur, MediumFur or LongFur flag, the table entry of that
  list has a special bit address that is defined and not zero, and the fur list grows
  by exactly one entry, whose layer count is 16 if LongFur is set, else 8 if MediumFur
  is set, else 4.
\<close>

theorem fur_shape_only_from_fur_path:
  assumes "stepMain C drawStep bitsOffset st = Some (st', d)"
  shows "st_furs st' = st_furs st
     \<or> (\<exists>b1 listNum b2 sh firstFur a.
           getBits (st_bits st) 4 = Some (2, b1)
           \<and> getBits b1 (mf_numListBits (c_fields C)) = Some (listNum, b2)
           \<and> listNum < length (c_dlInfos C)
           \<and> specialBitAddress (c_dlInfos C ! listNum) = Some a \<and> a \<noteq> 0
           \<and> drawStep = 0
           \<and> shaderAt (st_shaders st') (st_curShader st') = Some sh
           \<and> flags sh AND (ShortFur (c_SF C) OR MediumFur (c_SF C) OR LongFur (c_SF C)) \<noteq> 0
           \<and> st_furs st' = st_furs st
                @ [(firstFur, if flags sh AND LongFur (c_SF C) \<noteq> 0 then 16
                              else if flags sh AND MediumFur (c_SF C) \<noteq> 0 then 8 else 4)])"
proof -
  from assms obtain opc b1 where g: "getBits (st_bits st) 4 = Some (opc, b1)"
    by (auto simp: stepMain_def split: option.splits)
  show ?thesis
  proof (cases "opc = 2")
    case True
    from assms g True obtain listNum b2 where
      l: "getBits b1 (mf_numListBits (c_fields C)) = Some (listNum, b2)"
      and c: "callDL C drawStep bitsOffset (st\<lparr> st_bits := b2 \<rparr>) listNum = Some st'"
      by (auto simp: stepMain_def split: option.splits)
    show ?thesis
    proof (cases "st_furs st' = st_furs st")
      case True
      then show ?thesis by simp
    next
      case False
      with callDL_furs[OF c] obtain sh where
        ln: "listNum < length (c_dlInfos C)"
        and sh: "shaderAt (st_shaders st') (st_curShader st') = Some sh"
        and f: "furPushed C drawStep sh (c_dlInfos C ! listNum) (st\<lparr> st_bits := b2 \<rparr>) st'"
        by auto
      from f obtain firstFur a where
        "st_furs st' = st_furs st
          @ [(firstFur, if flags sh AND LongFur (c_SF C) \<noteq> 0 then 16
                        else if flags sh AND MediumFur (c_SF C) \<noteq> 0 then 8 else 4)]"
        "drawStep = 0"
        "flags sh AND (ShortFur (c_SF C) OR MediumFur (c_SF C) OR LongFur (c_SF C)) \<noteq> 0"
        "specialBitAddress (c_dlInfos C ! listNum) = Some a" "a \<noteq> 0"
        by (auto simp: furPushed_def)
      with g \<open>opc = 2\<close> l ln sh show ?thesis by blast
    qed
  next
    case False
    with assms g have "st_furs st' = st_furs st"
      by (auto simp: stepMain_def split: option.splits if_splits dest!: setShader_furs)
    then show ?thesis by simp
  qed
qed

text \<open>
  The \<open>CallDL\<close> step on \<open>furModel\<close> in pass 0, under a shader with the MediumFur flag
  only: list 0 is read from the stream, its special bit address is 16, and one entry of
  8 layers is recorded.
\<close>

theorem fur_shape_only_from_fur_path_witness:
  "stepMain furCtx 0 1 furStep = Some (furStepAfter, False)
   \<and> st_furs furStepAfter \<noteq> st_furs furStep
   \<and> getBits (st_bits furStep) 4 = Some (2, furReader 4)
   \<and> getBits (furReader 4) (mf_numListBits (c_fields furCtx)) = Some (0, furReader 12)
   \<and> specialBitAddress (c_dlInfos furCtx ! 0) = Some 16
   \<and> shaderAt (st_shaders furStepAfter) (st_curShader furStepAfter) = Some (shaderWithFlags 0x8000)
   \<and> map snd (st_furs furStepAfter) = [8]
   \<and> (\<exists>b1 listNum b2 sh firstFur a.
           getBits (st_bits furStep) 4 = Some (2, b1)
           \<and> getBits b1 (mf_numListBits (c_fields furCtx)) = Some (listNum, b2)
           \<and> listNum < length (c_dlInfos furCtx)
           \<and> specialBitAddress (c_dlInfos furCtx ! listNum) = Some a \<and> a \<noteq> 0
           \<and> (0::nat) = 0
           \<and> shaderAt (st_shaders furStepAfter) (st_curShader furStepAfter) = Some sh
           \<and> flags sh AND (ShortFur (c_SF furCtx) OR MediumFur (c_SF furCtx) OR LongFur (c_SF furCtx)) \<noteq> 0
           \<and> st_furs furStepAfter = st_furs furStep
                @ [(firstFur, if flags sh AND LongFur (c_SF furCtx) \<noteq> 0 then 16
                              else if flags sh AND MediumFur (c_SF furCtx) \<noteq> 0 then 8 else 4)])"
proof -
  have n: "st_furs furStepAfter \<noteq> st_furs furStep"
    by (simp add: furStepAfter_def furAfter_def furStep_def furStart_def startState_def)
  have l: "map snd (st_furs furStepAfter) = [8]"
    by (simp add: furStepAfter_def furAfter_def)
  have g1: "getBits (st_bits furStep) 4 = Some (2, furReader 4)"
    by (simp add: furStep_def furReader_def getBits_def bitsValue_numeral streamBit_def
        newLowBitReader_def furModel_def)
  have g2: "getBits (furReader 4) (mf_numListBits (c_fields furCtx)) = Some (0, furReader 12)"
    by (simp add: furCtx_def mapCtx_def FIELDS_FinalMap_def furReader_def getBits_def
        bitsValue_numeral streamBit_def furModel_def)
  have a: "specialBitAddress (c_dlInfos furCtx ! 0) = Some 16"
    by (simp add: furCtx_def mapCtx_def listEntry_def)
  have s: "shaderAt (st_shaders furStepAfter) (st_curShader furStepAfter)
      = Some (shaderWithFlags 0x8000)"
    by (simp add: furStepAfter_def furAfter_def furStart_def startState_def shaderAt_def)
  from fur_stepMain n l g1 g2 a s fur_shape_only_from_fur_path [OF fur_stepMain]
  show ?thesis by simp
qed

section \<open>Stride consistency of decoded display lists\<close>









text \<open>
  \<open>CallDL\<close> changes the shape list of the pass only through the attempts of the normal
  path: the water path and the fur path leave it as it is.
\<close>

lemma callDL_shapes_from_push:
  assumes "callDL C ds bo st listNum = Some st'" and "st_shapes st' \<noteq> st_shapes st"
  shows "\<exists>dl sh st1 st2 r.
           normalPathPush C st1 sh (c_dlInfos C ! listNum) dl = Some (st2, r)
           \<and> st_shapes st1 = st_shapes st \<and> st_shapes st' = st_shapes st2"
proof -
  have ln: "listNum < length (c_dlInfos C)"
    using assms by (auto simp: callDL_def split: if_splits)
  let ?dlInfo = "c_dlInfos C ! listNum"
  from assms ln obtain dl sh0 where
    sh0: "shaderAt (st_shaders st) (st_curShader st) = Some sh0"
    and dl: "dataSubarrayLen (c_data C) (offset ?dlInfo) (size_dl ?dlInfo) = Some dl"
    and v: "\<not> (offset ?dlInfo = 0 \<or> size_dl ?dlInfo = 0
            \<or> offset ?dlInfo + size_dl ?dlInfo > length (c_data C))"
    by (auto simp: callDL_def Let_def split: if_splits option.splits)
  define sh where "sh = (if (sf_isEarly1 (mf_shaderFields (c_fields C)) \<or> sf_isEarly3 (mf_shaderFields (c_fields C)))
                                    \<and> \<not> (flags sh0 AND AlphaCompare (c_SF C) \<noteq> 0)
                                    \<and> dlHasAlphaCompare dl
                         then sh0\<lparr> flags := flags sh0 OR AlphaCompare (c_SF C) \<rparr> else sh0)"
  define st1 where "st1 = st\<lparr> st_shaders := (st_shaders st)[st_curShader st := sh] \<rparr>"
  have c: "callDL C ds bo st listNum =
      (if \<not> (flags sh AND Lava (c_SF C) \<noteq> 0)
           \<and> (flags sh AND Water (c_SF C) \<noteq> 0
                \<or> (mf_isMapBlock (c_fields C) \<and> waterStreamIndex C = Some ds))
       then waterPath C bo st1 sh ?dlInfo
       else normalPath C ds bo st1 sh ?dlInfo dl)"
    using ln sh0 dl v unfolding callDL_def Let_def sh_def st1_def by simp
  have w: "waterPath C bo st1 sh ?dlInfo \<noteq> Some st'"
    using waterPath_frame[of C bo st1 sh ?dlInfo st'] assms(2) by (auto simp: st1_def)
  from assms(1) c w have np: "normalPath C ds bo st1 sh ?dlInfo dl = Some st'"
    by (auto split: if_splits)
  then obtain st2 r where p: "normalPathPush C st1 sh ?dlInfo dl = Some (st2, r)"
    and f: "if r then furPath C ds bo st2 sh ?dlInfo = Some st' else st' = st2"
    by (auto simp: normalPath_def split: option.splits if_splits)
  have "st_shapes st' = st_shapes st2"
    using f furPath_effect[of C ds bo st2 sh ?dlInfo st'] by (cases r) auto
  moreover have "st_shapes st1 = st_shapes st" by (simp add: st1_def)
  ultimately show ?thesis using p by blast
qed






section \<open>Properties of the module-level tables\<close>

text \<open>
  What the clone is known to be while the set-up runs: a format, a row or a table is
  fresh from \<open>n\<close> on when it is a reference to an object at an address from \<open>n\<close> on, a
  format being a plain object, a row an array of at least \<open>m\<close> fresh formats, and a table
  an array of at least \<open>k\<close> fresh rows, the arrays without named properties.
\<close>

definition isProps :: "obj \<Rightarrow> bool" where
  "isProps x = (case x of Props ps \<Rightarrow> True | Arr xs ps \<Rightarrow> False)"

definition freshFmt :: "nat \<Rightarrow> store \<Rightarrow> jsval \<Rightarrow> bool" where
  "freshFmt n h v = (\<exists>c. v = VRef c \<and> n \<le> c \<and> c < length h \<and> isProps (h ! c))"

definition freshArr ::
  "(store \<Rightarrow> jsval \<Rightarrow> bool) \<Rightarrow> nat \<Rightarrow> nat \<Rightarrow> store \<Rightarrow> jsval \<Rightarrow> bool" where
  "freshArr Q n m h v =
     (\<exists>b ys. v = VRef b \<and> n \<le> b \<and> b < length h \<and> h ! b = Arr ys [] \<and> m \<le> length ys
        \<and> (\<forall>e\<in>set ys. Q h e))"

definition freshRow :: "nat \<Rightarrow> nat \<Rightarrow> store \<Rightarrow> jsval \<Rightarrow> bool" where
  "freshRow n m = freshArr (freshFmt n) n m"

definition freshTable :: "nat \<Rightarrow> nat \<Rightarrow> nat \<Rightarrow> store \<Rightarrow> jsval \<Rightarrow> bool" where
  "freshTable n k m = freshArr (freshRow n m) n k"

lemma freshFmt_append: "freshFmt n h v \<Longrightarrow> freshFmt n (h @ zs) v"
  by (auto simp: freshFmt_def nth_append)

lemma freshArr_append:
  assumes "\<And>e. Q h e \<Longrightarrow> Q (h @ zs) e" and "freshArr Q n m h v"
  shows "freshArr Q n m (h @ zs) v"
  using assms by (auto simp: freshArr_def nth_append)

lemma freshRow_append: "freshRow n m h v \<Longrightarrow> freshRow n m (h @ zs) v"
  unfolding freshRow_def by (rule freshArr_append) (auto intro: freshFmt_append)

lemma freshTable_append: "freshTable n k m h v \<Longrightarrow> freshTable n k m (h @ zs) v"
  unfolding freshTable_def by (rule freshArr_append) (auto intro: freshRow_append)

lemma alloc_eq: "alloc h x = (h @ [x], VRef (length h))"
  by (simp add: alloc_def)

























































subsection \<open>A store with the four preset tables\<close>






























end
